theory Spec2Isabelle
  imports Main "HOL-Library.Word"
begin

unbundle bit_operations_syntax

section \<open>Common data\<close>

text \<open>
  Bytes are 8-bit words; a Python \<open>bytes\<close> or \<open>bytearray\<close> is a list of them.
  Identifiers (ShellId, MessageID, CommandId) are Python strings or \<open>None\<close>, hence
  \<open>string option\<close>. A Python exception is a value of \<open>error\<close>; an operation that
  mutates state and may raise returns the state it leaves behind together with
  \<open>Some e\<close> when it raised \<open>e\<close> and \<open>None\<close> when it returned normally, because the
  mutations made before a raise persist.
\<close>

type_synonym byte = "8 word"
type_synonym ident = "string option"

datatype error =
    KeyError
  | StructError
  | ValueError
  | BinasciiError
  | UnicodeDecodeError
  | AttributeError
  | LibwimNotInitialized
  | SoapDefragmenterException
  | XmlParseError
  | CallbackError nat

text \<open>\<open>except (ValueError, binascii.Error)\<close>: the exception classes below \<open>ValueError\<close>.\<close>

fun is_value_error :: "error \<Rightarrow> bool" where
  "is_value_error ValueError = True"
| "is_value_error BinasciiError = True"
| "is_value_error UnicodeDecodeError = True"
| "is_value_error _ = False"

text \<open>A dictionary without one of its keys (\<open>dict.pop\<close> on a key that is present).\<close>

definition dict_pop :: "'k \<Rightarrow> ('k \<rightharpoonup> 'v) \<Rightarrow> ('k \<rightharpoonup> 'v)" where
  "dict_pop k m = m(k := None)"

section \<open>psrp.py: PSRPDefragmenter\<close>

text \<open>
  One object buffer, the dictionary
  \<open>{'last_fragment_id': .., 'buffer': .., 'command_id': ..}\<close>.
\<close>

record objbuf =
  last_fragment_id :: int
  buffer :: "byte list"
  command_id :: "string option"

type_synonym bufs = "int \<rightharpoonup> objbuf"

text \<open>
  What the completion callback receives:
  \<open>(shell_id, object_id, message, command_id)\<close>.
\<close>

type_synonym delivery = "ident \<times> int \<times> byte list \<times> string option"

text \<open>
  The defragmenter's three dictionaries. The field \<open>delivered\<close> is not a field of the
  Python object: it records, in order, every invocation of
  \<open>completed_psrp_callback\<close>, which is how the claims about deliveries are stated.
\<close>

record defrag =
  shell_bufs :: "ident \<rightharpoonup> bufs"
  pending_shell_bufs :: "ident \<rightharpoonup> bufs"
  pending_shell_completed_messages :: "ident \<rightharpoonup> (int \<times> byte list \<times> string option) list"
  delivered :: "delivery list"

text \<open>\<open>PSRPDefragmenter.__init__\<close>\<close>

definition defrag_init :: defrag where
  "defrag_init = \<lparr>shell_bufs = Map.empty, pending_shell_bufs = Map.empty,
     pending_shell_completed_messages = Map.empty, delivered = []\<rparr>"

text \<open>
  The callback given to the constructor is a parameter \<open>cb\<close> of the model: from the
  deliveries made so far and the present one it says whether the call raises. The
  call is recorded before its outcome is known.
\<close>

type_synonym callback = "delivery list \<Rightarrow> delivery \<Rightarrow> error option"

definition completed_psrp_callback ::
  "callback \<Rightarrow> ident \<Rightarrow> int \<Rightarrow> byte list \<Rightarrow> string option \<Rightarrow> defrag \<Rightarrow> defrag \<times> error option" where
  "completed_psrp_callback cb shell_id object_id message cmd d =
     (d\<lparr>delivered := delivered d @ [(shell_id, object_id, message, cmd)]\<rparr>,
      cb (delivered d) (shell_id, object_id, message, cmd))"

definition pending_shell_message_callback ::
  "ident \<Rightarrow> int \<Rightarrow> byte list \<Rightarrow> string option \<Rightarrow> defrag \<Rightarrow> defrag" where
  "pending_shell_message_callback message_id object_id message cmd d =
     (let stash = pending_shell_completed_messages d;
          old = (case stash message_id of None \<Rightarrow> [] | Some l \<Rightarrow> l)
      in d\<lparr>pending_shell_completed_messages :=
             stash(message_id \<mapsto> old @ [(object_id, message, cmd)])\<rparr>)"

definition has_shell :: "defrag \<Rightarrow> ident \<Rightarrow> bool" where
  "has_shell d shell_id = (shell_bufs d shell_id \<noteq> None)"

definition has_pending_shell :: "defrag \<Rightarrow> ident \<Rightarrow> bool" where
  "has_pending_shell d shell_id = (pending_shell_bufs d shell_id \<noteq> None)"

definition new_shell :: "ident \<Rightarrow> defrag \<Rightarrow> defrag" where
  "new_shell shell_id d =
     (if shell_id = None then d
      else if shell_bufs d shell_id \<noteq> None then d
      else d\<lparr>shell_bufs := (shell_bufs d)(shell_id \<mapsto> Map.empty)\<rparr>)"

definition new_pending_shell :: "ident \<Rightarrow> defrag \<Rightarrow> defrag" where
  "new_pending_shell message_id d =
     (if message_id = None then d
      else if pending_shell_bufs d message_id \<noteq> None then d
      else d\<lparr>pending_shell_bufs := (pending_shell_bufs d)(message_id \<mapsto> Map.empty)\<rparr>)"

text \<open>
  \<open>_append_frag_data\<close> and \<open>_new_fragment_data\<close> take the buffer dictionary, the
  membership test, the registration function and the callback as four arguments. The
  source passes them in two combinations only, which \<open>space\<close> names: \<open>Known\<close> is
  \<open>(has_shell, new_shell, shell_bufs, completed_psrp_callback)\<close> and \<open>Pending\<close> is
  \<open>(has_pending_shell, new_pending_shell, pending_shell_bufs,
  pending_shell_message_callback)\<close>.
\<close>

datatype space = Known | Pending

definition get_bufs :: "space \<Rightarrow> defrag \<Rightarrow> (ident \<rightharpoonup> bufs)" where
  "get_bufs sp d = (case sp of Known \<Rightarrow> shell_bufs d | Pending \<Rightarrow> pending_shell_bufs d)"

definition set_bufs :: "space \<Rightarrow> (ident \<rightharpoonup> bufs) \<Rightarrow> defrag \<Rightarrow> defrag" where
  "set_bufs sp m d =
     (case sp of Known \<Rightarrow> d\<lparr>shell_bufs := m\<rparr> | Pending \<Rightarrow> d\<lparr>pending_shell_bufs := m\<rparr>)"

definition has_identifier :: "space \<Rightarrow> defrag \<Rightarrow> ident \<Rightarrow> bool" where
  "has_identifier sp d identifier =
     (case sp of Known \<Rightarrow> has_shell d identifier | Pending \<Rightarrow> has_pending_shell d identifier)"

definition new_ident :: "space \<Rightarrow> ident \<Rightarrow> defrag \<Rightarrow> defrag" where
  "new_ident sp identifier d =
     (case sp of Known \<Rightarrow> new_shell identifier d | Pending \<Rightarrow> new_pending_shell identifier d)"

definition message_complete_callback ::
  "callback \<Rightarrow> space \<Rightarrow> ident \<Rightarrow> int \<Rightarrow> byte list \<Rightarrow> string option \<Rightarrow> defrag
     \<Rightarrow> defrag \<times> error option" where
  "message_complete_callback cb sp identifier object_id message cmd d =
     (case sp of
        Known \<Rightarrow> completed_psrp_callback cb identifier object_id message cmd d
      | Pending \<Rightarrow> (pending_shell_message_callback identifier object_id message cmd d, None))"

text \<open>
  \<open>_append_frag_data\<close>. \<open>bufs[identifier]\<close> raises \<open>KeyError\<close> when the registration
  function refused the identifier (\<open>None\<close>). The buffer's \<open>last_fragment_id\<close> is read
  but written nowhere in the source, so no branch below changes it.
\<close>

definition append_frag_data ::
  "callback \<Rightarrow> space \<Rightarrow> int \<Rightarrow> int \<Rightarrow> bool \<Rightarrow> bool \<Rightarrow> byte list \<Rightarrow> ident \<Rightarrow> string option
     \<Rightarrow> defrag \<Rightarrow> defrag \<times> error option" where
  "append_frag_data cb sp object_id fragment_id s_flag e_flag frag_data identifier cmd d =
     (let d1 = (if \<not> has_identifier sp d identifier then new_ident sp identifier d else d)
      in case get_bufs sp d1 identifier of
           None \<Rightarrow> (d1, Some KeyError)
         | Some b \<Rightarrow>
             let ob0 = (case b object_id of
                          None \<Rightarrow> \<lparr>last_fragment_id = - 1, buffer = [], command_id = None\<rparr>
                        | Some ob \<Rightarrow> ob);
                 ob1 = ob0\<lparr>command_id := cmd\<rparr>;
                 d2 = set_bufs sp ((get_bufs sp d1)(identifier \<mapsto> b(object_id \<mapsto> ob1))) d1;
                 expected_frag_id = last_fragment_id ob1 + 1
             in if expected_frag_id \<noteq> fragment_id then (d2, None)
                else
                  let ob2 = ob1\<lparr>buffer := buffer ob1 @ frag_data\<rparr>;
                      d3 = set_bufs sp ((get_bufs sp d1)(identifier \<mapsto> b(object_id \<mapsto> ob2))) d1
                  in if e_flag then
                       (case message_complete_callback cb sp identifier object_id
                               (buffer ob2) (command_id ob2) d3 of
                          (d4, Some e) \<Rightarrow> (d4, Some e)
                        | (d4, None) \<Rightarrow>
                            (case get_bufs sp d4 identifier of
                               None \<Rightarrow> (d4, Some KeyError)
                             | Some b4 \<Rightarrow>
                                 (set_bufs sp ((get_bufs sp d4)(identifier \<mapsto> dict_pop object_id b4)) d4,
                                  None)))
                     else (d3, None))"

text \<open>\<open>new_fragment\<close>: a fragment whose header is already parsed, for a known shell.\<close>

definition new_fragment ::
  "callback \<Rightarrow> ident \<Rightarrow> int \<Rightarrow> int \<Rightarrow> bool \<Rightarrow> bool \<Rightarrow> nat \<Rightarrow> byte list \<Rightarrow> defrag
     \<Rightarrow> defrag \<times> error option" where
  "new_fragment cb shell_id object_id fragment_id s_flag e_flag frag_len frag_data d =
     append_frag_data cb Known object_id fragment_id s_flag e_flag frag_data shell_id None d"

text \<open>
  The fragment header, \<open>struct.unpack('>qqbI', ..)\<close>: 21 bytes, big-endian; two signed
  64-bit integers, one signed byte, one unsigned 32-bit integer. \<open>struct.unpack\<close>
  raises \<open>struct.error\<close> unless it is given exactly 21 bytes.
\<close>

definition be_nat :: "byte list \<Rightarrow> nat" where
  "be_nat bs = foldl (\<lambda>a b. a * 256 + unat b) 0 bs"

definition i64_of_nat :: "nat \<Rightarrow> int" where
  "i64_of_nat n = (if n < 2 ^ 63 then int n else int n - 2 ^ 64)"

definition FRAG_HEADER_LEN :: nat where
  "FRAG_HEADER_LEN = 21"

definition unpack_frag_header :: "byte list \<Rightarrow> error + (int \<times> int \<times> int \<times> nat)" where
  "unpack_frag_header h =
     (if length h \<noteq> 21 then Inl StructError
      else Inr (i64_of_nat (be_nat (take 8 h)),
                i64_of_nat (be_nat (take 8 (drop 8 h))),
                sint (h ! 16),
                be_nat (drop 17 h)))"

text \<open>\<open>e_s & END_MASK > 0\<close> and \<open>e_s & START_MASK > 0\<close>, on Python integers.\<close>

definition end_bit_set :: "int \<Rightarrow> bool" where
  "end_bit_set e_s = (e_s AND 2 > 0)"

definition start_bit_set :: "int \<Rightarrow> bool" where
  "start_bit_set e_s = (e_s AND 1 > 0)"

text \<open>
  The loop of \<open>_new_fragment_data\<close>, with \<open>frag_offset\<close> as its variable. A slice
  \<open>x[a:b]\<close> is \<open>take (b - a) (drop a x)\<close>: it is cut short, without an error, where
  \<open>x\<close> ends. An exception of \<open>struct.unpack\<close> or of \<open>_append_frag_data\<close> leaves the
  loop.
\<close>

function new_fragment_data_loop ::
  "callback \<Rightarrow> space \<Rightarrow> ident \<Rightarrow> byte list \<Rightarrow> string option \<Rightarrow> nat \<Rightarrow> defrag
     \<Rightarrow> defrag \<times> error option" where
  "new_fragment_data_loop cb sp identifier fragment_data cmd frag_offset d =
     (if frag_offset < length fragment_data then
        (case unpack_frag_header
                (take FRAG_HEADER_LEN (drop frag_offset fragment_data)) of
           Inl e \<Rightarrow> (d, Some e)
         | Inr (object_id, fragment_id, e_s, frag_len) \<Rightarrow>
             (case append_frag_data cb sp object_id fragment_id
                     (start_bit_set e_s) (end_bit_set e_s)
                     (take frag_len (drop (frag_offset + FRAG_HEADER_LEN) fragment_data))
                     identifier cmd d of
                (d', Some e) \<Rightarrow> (d', Some e)
              | (d', None) \<Rightarrow>
                  new_fragment_data_loop cb sp identifier fragment_data cmd
                    (frag_offset + FRAG_HEADER_LEN + frag_len) d'))
      else (d, None))"
  by pat_completeness auto
termination
  by (relation "measure (\<lambda>(cb, sp, identifier, fragment_data, cmd, frag_offset, d).
        length fragment_data - frag_offset)") (auto simp: FRAG_HEADER_LEN_def)

declare new_fragment_data_loop.simps [simp del]

definition new_fragment_data ::
  "callback \<Rightarrow> ident \<Rightarrow> byte list \<Rightarrow> string option \<Rightarrow> defrag \<Rightarrow> defrag \<times> error option" where
  "new_fragment_data cb shell_id fragment_data cmd d =
     new_fragment_data_loop cb Known shell_id fragment_data cmd 0 d"

text \<open>
  The pending variant passes \<open>pending_shell_message_callback\<close>; the constructor's
  callback plays no part in it, so the model gives the loop one that is never called.
\<close>

definition new_fragment_data_pending_shell ::
  "ident \<Rightarrow> byte list \<Rightarrow> string option \<Rightarrow> defrag \<Rightarrow> defrag \<times> error option" where
  "new_fragment_data_pending_shell message_id fragment_data cmd d =
     new_fragment_data_loop (\<lambda>h x. None) Pending message_id fragment_data cmd 0 d"

text \<open>The \<open>for\<close> loop of \<open>set_pending_shell_id\<close> over the stashed messages.\<close>

fun deliver_completed ::
  "callback \<Rightarrow> ident \<Rightarrow> (int \<times> byte list \<times> string option) list \<Rightarrow> defrag
     \<Rightarrow> defrag \<times> error option" where
  "deliver_completed cb shell_id [] d = (d, None)"
| "deliver_completed cb shell_id ((object_id, message, cmd) # rest) d =
     (case completed_psrp_callback cb shell_id object_id message cmd d of
        (d', Some e) \<Rightarrow> (d', Some e)
      | (d', None) \<Rightarrow> deliver_completed cb shell_id rest d')"

text \<open>
  \<open>set_pending_shell_id\<close> (the specification's \<open>promote_pending\<close>). The last statement,
  \<open>pending_shell_completed_messages.pop(message_id)\<close>, has no default: it raises
  \<open>KeyError\<close> when the pending shell completed no message.
\<close>

definition set_pending_shell_id ::
  "callback \<Rightarrow> ident \<Rightarrow> ident \<Rightarrow> defrag \<Rightarrow> defrag \<times> error option" where
  "set_pending_shell_id cb message_id shell_id d =
     (case pending_shell_bufs d message_id of
        None \<Rightarrow> (new_shell shell_id d, None)
      | Some b \<Rightarrow>
          let d1 = d\<lparr>pending_shell_bufs := dict_pop message_id (pending_shell_bufs d)\<rparr>;
              d2 = (if shell_bufs d1 shell_id \<noteq> None then d1
                    else d1\<lparr>shell_bufs := (shell_bufs d1)(shell_id \<mapsto> b)\<rparr>)
          in (case (case pending_shell_completed_messages d2 message_id of
                      None \<Rightarrow> (d2, None)
                    | Some msgs \<Rightarrow> deliver_completed cb shell_id msgs d2) of
                (d3, Some e) \<Rightarrow> (d3, Some e)
              | (d3, None) \<Rightarrow>
                  (case pending_shell_completed_messages d3 message_id of
                     None \<Rightarrow> (d3, Some KeyError)
                   | Some msgs \<Rightarrow>
                       (d3\<lparr>pending_shell_completed_messages :=
                             dict_pop message_id (pending_shell_completed_messages d3)\<rparr>,
                        None))))"

definition delete_shell :: "ident \<Rightarrow> defrag \<Rightarrow> defrag" where
  "delete_shell shell_id d =
     (if shell_bufs d shell_id \<noteq> None
      then d\<lparr>shell_bufs := dict_pop shell_id (shell_bufs d)\<rparr>
      else d)"

section \<open>psrp.py: PSRPParser\<close>

text \<open>The registry \<open>PSRPParser.MSG_TYPES\<close>, in the order of the source.\<close>

definition MSG_TYPES :: "(nat \<times> string) list" where
  "MSG_TYPES =
    [(0x00010002, ''SESSION_CAPABILITY''),
     (0x00010004, ''INIT_RUNSPACEPOOL''),
     (0x00010005, ''PUBLIC_KEY''),
     (0x00010006, ''ENCRYPTED_SESSION_KEY''),
     (0x00010007, ''PUBLIC_KEY_REQUEST''),
     (0x00021002, ''SET_MAX_RUNSPACES''),
     (0x00021003, ''SET_MIN_RUNSPACES''),
     (0x00021004, ''RUNSPACE_AVAILABILITY''),
     (0x00021005, ''RUNSPACEPOOL_STATE''),
     (0x00021006, ''CREATE_PIPELINE''),
     (0x00021007, ''GET_AVAILABLE_RUNSPACES''),
     (0x00021008, ''USER_EVENT''),
     (0x00021009, ''APPLICATION_PRIVATE_DATA''),
     (0x0002100A, ''GET_COMMAND_METADATA''),
     (0x00021100, ''RUNSPACEPOOL_HOST_CALL''),
     (0x00021101, ''RUNSPACEPOOL_HOST_RESPONSE''),
     (0x00041002, ''PIPELINE_INPUT''),
     (0x00041003, ''END_OF_PIPELINE_INPUT''),
     (0x00041004, ''PIPELINE_OUTPUT''),
     (0x00041005, ''ERROR_RECORD''),
     (0x00041006, ''PIPELINE_STATE''),
     (0x00041007, ''DEBUG_RECORD''),
     (0x00041008, ''VERBOSE_RECORD''),
     (0x00041009, ''WARNING_RECORD''),
     (0x00041010, ''PROGRESS_RECORD''),
     (0x00041011, ''INFORMATION_RECORD''),
     (0x00041100, ''PIPELINE_HOST_CALL''),
     (0x00041101, ''PIPELINE_HOST_RESPONSE''),
     (0x00010008, ''CONNECT_RUNSPACEPOOL''),
     (0x0002100B, ''RUNSPACEPOOL_INIT_DATA''),
     (0x0002100C, ''RESET_RUNSPACE_STATE'')]"

text \<open>
  \<open>_msg_type_name(msg_type, unknown=None)\<close>: the source's comment says it "throws
  KeyError on unknown type" unless \<open>unknown\<close> is given.
\<close>

definition msg_type_name :: "nat \<Rightarrow> string option \<Rightarrow> error + string" where
  "msg_type_name msg_type unknown =
     (case map_of MSG_TYPES msg_type of
        Some name \<Rightarrow> Inr name
      | None \<Rightarrow> (case unknown of None \<Rightarrow> Inl KeyError | Some u \<Rightarrow> Inr u))"

definition le_nat :: "byte list \<Rightarrow> nat" where
  "le_nat bs = foldr (\<lambda>b a. unat b + 256 * a) bs 0"

text \<open>\<open>struct.unpack('<II', message[:8])\<close> raises unless the slice has 8 bytes.\<close>

definition unpack_II :: "byte list \<Rightarrow> error + (nat \<times> nat)" where
  "unpack_II b =
     (if length b \<noteq> 8 then Inl StructError
      else Inr (le_nat (take 4 b), le_nat (drop 4 b)))"

text \<open>
  \<open>UUID(bytes_le=..)\<close> raises \<open>ValueError\<close> unless it is given 16 bytes. A UUID is
  kept as these 16 bytes.
\<close>

definition uuid_bytes_le :: "byte list \<Rightarrow> error + byte list" where
  "uuid_bytes_le b = (if length b \<noteq> 16 then Inl ValueError else Inr b)"

text \<open>
  \<open>new_psrp_message\<close>. The codec \<open>utf-8-sig\<close> is Python's: the parameter \<open>decode\<close>
  (\<open>None\<close> when it raises \<open>UnicodeDecodeError\<close>). The arguments of the debug
  message are computed before \<open>logger.debug\<close> is called, whatever the log level, and
  one of them is \<open>_msg_type_name(message_type)\<close> without \<open>unknown\<close>. The callback is
  the parameter \<open>callback\<close>.
\<close>

definition new_psrp_message ::
  "(byte list \<Rightarrow> 'txt option)
     \<Rightarrow> (nat \<Rightarrow> nat \<Rightarrow> byte list \<Rightarrow> byte list \<Rightarrow> 'txt \<Rightarrow> error + 'r)
     \<Rightarrow> ident \<Rightarrow> int \<Rightarrow> byte list \<Rightarrow> string option \<Rightarrow> error + 'r" where
  "new_psrp_message decode callback shell_id object_id message cmd =
     (case unpack_II (take 8 message) of
        Inl e \<Rightarrow> Inl e
      | Inr (destination, message_type) \<Rightarrow>
     (case uuid_bytes_le (take 16 (drop 8 message)) of
        Inl e \<Rightarrow> Inl e
      | Inr rpid \<Rightarrow>
     (case uuid_bytes_le (take 16 (drop 24 message)) of
        Inl e \<Rightarrow> Inl e
      | Inr pipeline_id \<Rightarrow>
     (case decode (drop 40 message) of
        None \<Rightarrow> Inl UnicodeDecodeError
      | Some text \<Rightarrow>
     (case msg_type_name message_type None of
        Inl e \<Rightarrow> Inl e
      | Inr name \<Rightarrow> callback destination message_type rpid pipeline_id text)))))"

section \<open>simple\_command\_tracer.py: SimpleCommandTracer.message\<close>

text \<open>
  What one call of \<open>message\<close> does: it logs an error and returns, or it hands the
  message to one of three handlers, or it does nothing. The handlers interpret CLIXML
  and print; they are parameters here, each giving its result or the exception it
  raises.
\<close>

datatype 'r tracer_outcome =
    LoggedUnrecognisedMessageType nat
  | Handled 'r
  | NothingDone

definition message ::
  "('txt \<Rightarrow> byte list \<Rightarrow> byte list \<Rightarrow> nat \<Rightarrow> error + 'r)
     \<Rightarrow> ('txt \<Rightarrow> byte list \<Rightarrow> byte list \<Rightarrow> nat \<Rightarrow> error + 'r)
     \<Rightarrow> ('txt \<Rightarrow> byte list \<Rightarrow> byte list \<Rightarrow> nat \<Rightarrow> error + 'r)
     \<Rightarrow> nat \<Rightarrow> nat \<Rightarrow> byte list \<Rightarrow> byte list \<Rightarrow> 'txt \<Rightarrow> error + 'r tracer_outcome" where
  "message msg_create_pipeline msg_pipeline_host_call msg_pipeline_output
       destination message_type rpid pipeline_id text =
     (case map_of MSG_TYPES message_type of
        None \<Rightarrow> Inr (LoggedUnrecognisedMessageType message_type)
      | Some name \<Rightarrow>
          if name = ''CREATE_PIPELINE''
            then map_sum id Handled (msg_create_pipeline text rpid pipeline_id destination)
          else if name = ''PIPELINE_HOST_CALL''
            then map_sum id Handled (msg_pipeline_host_call text rpid pipeline_id destination)
          else if name = ''PIPELINE_OUTPUT''
            then map_sum id Handled (msg_pipeline_output text rpid pipeline_id destination)
          else Inr NothingDone)"

text \<open>
  The callback the dispatcher gives the defragmenter, \<open>psrp_parser.new_psrp_message\<close>
  with \<open>simple_cmd_logger.message\<close> behind it, as a \<open>callback\<close> of the defragmenter
  model.
\<close>

definition psrp_parser_callback ::
  "(byte list \<Rightarrow> 'txt option)
     \<Rightarrow> (nat \<Rightarrow> nat \<Rightarrow> byte list \<Rightarrow> byte list \<Rightarrow> 'txt \<Rightarrow> error + 'r)
     \<Rightarrow> callback" where
  "psrp_parser_callback decode callback h x =
     (case x of (shell_id, object_id, msg, cmd) \<Rightarrow>
        (case new_psrp_message decode callback shell_id object_id msg cmd of
           Inl e \<Rightarrow> Some e
         | Inr r \<Rightarrow> None))"

section \<open>winrm.py: SoapDefragmenter\<close>

text \<open>
  A WinRM trace event, with the fields \<open>new_event\<close> reads. A field is \<open>None\<close> when
  the event lacks it or, for \<open>totalChunks\<close> and \<open>index\<close>, when \<open>int(..)\<close> raises on it;
  a missing \<open>ActivityId\<close> is the one case the source handles (it becomes \<open>-1\<close>).
\<close>

record winrm_event =
  ActivityId :: "string option"
  ProcessId :: "int option"
  ThreadId :: "int option"
  totalChunks :: "int option"
  index :: "int option"
  SoapDocument :: "string option"

record soap_assembly =
  total_chunks :: int
  last_chunk :: int
  pid :: int
  tid :: int
  soap :: string

text \<open>
  The key \<open>'{}_{}_{}'.format(activity_id, pid, tid)\<close>. With \<open>pid\<close> and \<open>tid\<close> integers
  the string determines the three parts (they are read back from its right end), so
  the key is kept as the triple, the activity identifier as it is printed.
\<close>

type_synonym mkey = "string \<times> int \<times> int"

definition make_mkey :: "string option \<Rightarrow> int \<Rightarrow> int \<Rightarrow> mkey" where
  "make_mkey activity_id p t =
     ((case activity_id of None \<Rightarrow> ''-1'' | Some a \<Rightarrow> a), p, t)"

text \<open>
  The state: \<open>partial_messages\<close>, and, as for the PSRP defragmenter, the record
  \<open>completed\<close> of the calls of \<open>completed_soap_callback(activity_id, pid, tid, soap)\<close>.
\<close>

record soap_defrag =
  partial_messages :: "mkey \<rightharpoonup> soap_assembly"
  completed :: "(string option \<times> int \<times> int \<times> string) list"

definition soap_defrag_init :: soap_defrag where
  "soap_defrag_init = \<lparr>partial_messages = Map.empty, completed = []\<rparr>"

text \<open>
  The body of the \<open>try\<close>: the state it leaves, the value of \<open>mkey\<close> (\<open>None\<close> until it
  is assigned) and the exception, if any. \<open>soap_cb\<close> says whether the callback raises.
\<close>

definition new_event_try ::
  "(string option \<times> int \<times> int \<times> string \<Rightarrow> error option) \<Rightarrow> winrm_event \<Rightarrow> soap_defrag
     \<Rightarrow> soap_defrag \<times> mkey option \<times> error option" where
  "new_event_try soap_cb event sd =
     (case ProcessId event of
        None \<Rightarrow> (sd, None, Some KeyError)
      | Some p \<Rightarrow>
     (case ThreadId event of
        None \<Rightarrow> (sd, None, Some KeyError)
      | Some t \<Rightarrow>
          let k = make_mkey (ActivityId event) p t;
              created =
                (case partial_messages sd k of
                   Some a \<Rightarrow> Inr sd
                 | None \<Rightarrow>
                     (case totalChunks event of
                        None \<Rightarrow> Inl ValueError
                      | Some n \<Rightarrow>
                          Inr (sd\<lparr>partial_messages := (partial_messages sd)
                                 (k \<mapsto> \<lparr>total_chunks = n, last_chunk = 0, pid = p,
                                         tid = t, soap = []\<rparr>)\<rparr>)))
          in (case created of
               Inl e \<Rightarrow> (sd, Some k, Some e)
             | Inr sd1 \<Rightarrow>
            (case partial_messages sd1 k of
               None \<Rightarrow> (sd1, Some k, Some KeyError)
             | Some a \<Rightarrow>
            (case index event of
               None \<Rightarrow> (sd1, Some k, Some ValueError)
             | Some chunk_index \<Rightarrow>
                 if chunk_index \<noteq> last_chunk a + 1
                 then (sd1, Some k, Some SoapDefragmenterException)
                 else
                   let a1 = a\<lparr>last_chunk := last_chunk a + 1\<rparr>;
                       sd2 = sd1\<lparr>partial_messages := (partial_messages sd1)(k \<mapsto> a1)\<rparr>
                   in (case SoapDocument event of
                        None \<Rightarrow> (sd2, Some k, Some KeyError)
                      | Some doc \<Rightarrow>
                          let a2 = a1\<lparr>soap := soap a1 @ doc\<rparr>;
                              sd3 = sd2\<lparr>partial_messages := (partial_messages sd2)(k \<mapsto> a2)\<rparr>
                          in if chunk_index = total_chunks a2
                             then
                               let sd4 = sd3\<lparr>completed := completed sd3 @
                                           [(ActivityId event, p, t, soap a2)]\<rparr>
                               in (case soap_cb (ActivityId event, p, t, soap a2) of
                                     Some e \<Rightarrow> (sd4, Some k, Some e)
                                   | None \<Rightarrow>
                                       (sd4\<lparr>partial_messages :=
                                              dict_pop k (partial_messages sd4)\<rparr>,
                                        Some k, None))
                             else (sd3, Some k, None)))))))"

text \<open>
  \<open>new_event\<close>: the \<open>try\<close> and its \<open>except Exception\<close>, which drops the assembly of
  \<open>mkey\<close> when \<open>mkey\<close> is set and present. Nothing is raised to the caller.
\<close>

definition new_event ::
  "(string option \<times> int \<times> int \<times> string \<Rightarrow> error option) \<Rightarrow> winrm_event \<Rightarrow> soap_defrag
     \<Rightarrow> soap_defrag" where
  "new_event soap_cb event sd =
     (case new_event_try soap_cb event sd of
        (sd', k, None) \<Rightarrow> sd'
      | (sd', None, Some e) \<Rightarrow> sd'
      | (sd', Some k, Some e) \<Rightarrow>
          (if partial_messages sd' k \<noteq> None
           then sd'\<lparr>partial_messages := dict_pop k (partial_messages sd')\<rparr>
           else sd'))"

section \<open>winrm.py: WSManPS\<close>

subsection \<open>The SOAP document, as the handlers read it\<close>

text \<open>
  \<open>xml.etree.ElementTree\<close> is Python's. A parsed document is represented by the results
  of the \<open>find\<close>, \<open>findall\<close>, \<open>get\<close> and \<open>.text\<close> queries the handlers make on it: an
  element's text or an attribute is a \<open>string option\<close> (\<open>None\<close> as in Python), a
  \<open>findall\<close> is a list in document order. A selector is its \<open>Name\<close> attribute and its
  text.
\<close>

type_synonym selector = "string option \<times> string option"

record soap_header =
  hdr_Action :: "string option"
  hdr_ResourceURI :: "string option"
  hdr_To :: "string option"
  hdr_MessageID :: "string option"
  hdr_RelatesTo :: "string option"
  hdr_Selectors :: "selector list"

record reference_parameters =
  rp_ResourceURI :: "string option"
  rp_Selectors :: "selector list"

record resource_created =
  rc_Address :: "string option"
  rc_ReferenceParameters :: "reference_parameters option"

text \<open>
  A \<open>rsp:CommandState\<close>: \<open>cs_ExitCode\<close> is the text of its \<open>rsp:ExitCode\<close> child,
  \<open>None\<close> when there is no such child or it has no text.
\<close>

record command_state =
  cs_CommandId :: "string option"
  cs_State :: "string option"
  cs_ExitCode :: "string option"

record stream_element =
  st_Name :: "string option"
  st_CommandId :: "string option"
  st_text :: "string option"

text \<open>
  \<open>body_Shell\<close> is \<open>None\<close> without \<open>s:Body/rsp:Shell\<close>, else the text of its
  \<open>ps:creationXml\<close>; \<open>body_DesiredStreams\<close> lists the \<open>CommandId\<close> attributes of the
  \<open>rsp:DesiredStream\<close> elements.
\<close>

record soap_body =
  body_ResourceCreated :: "resource_created option"
  body_Shell :: "string option option"
  body_Arguments :: "string option"
  body_CommandId :: "string option"
  body_CommandStates :: "command_state list"
  body_Streams :: "stream_element list"
  body_DesiredStreams :: "string option list"

record soap_doc =
  doc_Header :: "soap_header option"
  doc_Body :: soap_body

subsection \<open>Constants, state and the external functions\<close>

definition PS_RESOURCE_URI :: string where
  "PS_RESOURCE_URI = ''http://schemas.microsoft.com/powershell/Microsoft.PowerShell''"

definition CMD_STATE_DONE :: string where
  "CMD_STATE_DONE =
     ''http://schemas.microsoft.com/wbem/wsman/1/windows/shell/CommandState/Done''"

datatype handler =
    ActionCreateResponse
  | ActionDeleteResponse
  | ActionCreate
  | ActionDelete
  | ActionFault
  | ActionCommandResponse
  | ActionReceiveResponse
  | ActionCommand
  | ActionReceive
  | ActionSignal

definition ps_actions :: "(string \<times> handler) list" where
  "ps_actions =
    [(''http://schemas.xmlsoap.org/ws/2004/09/transfer/CreateResponse'', ActionCreateResponse),
     (''http://schemas.xmlsoap.org/ws/2004/09/transfer/DeleteResponse'', ActionDeleteResponse),
     (''http://schemas.xmlsoap.org/ws/2004/09/transfer/Create'', ActionCreate),
     (''http://schemas.xmlsoap.org/ws/2004/09/transfer/Delete'', ActionDelete),
     (''http://schemas.dmtf.org/wbem/wsman/1/wsman/fault'', ActionFault),
     (''http://schemas.microsoft.com/wbem/wsman/1/windows/shell/CommandResponse'',
        ActionCommandResponse),
     (''http://schemas.microsoft.com/wbem/wsman/1/windows/shell/ReceiveResponse'',
        ActionReceiveResponse),
     (''http://schemas.microsoft.com/wbem/wsman/1/windows/shell/Command'', ActionCommand),
     (''http://schemas.microsoft.com/wbem/wsman/1/windows/shell/Receive'', ActionReceive),
     (''http://schemas.microsoft.com/wbem/wsman/1/windows/shell/Signal'', ActionSignal)]"

text \<open>
  The dispatcher's tables. \<open>libwim\<close> is \<open>True\<close> when \<open>__init__\<close> loaded the library and
  created the decompressor, \<open>False\<close> when it set \<open>self.libwim = None\<close>.
\<close>

record wsman =
  psrp_defrag :: defrag
  receive_msgs :: "ident \<rightharpoonup> string"
  command_msgs :: "ident \<rightharpoonup> string"
  delete_msgs :: "ident \<rightharpoonup> string"
  create_msgs :: "ident list"
  commands :: "string \<rightharpoonup> string"
  libwim :: bool

definition wsman_init :: "bool \<Rightarrow> wsman" where
  "wsman_init lib = \<lparr>psrp_defrag = defrag_init, receive_msgs = Map.empty,
     command_msgs = Map.empty, delete_msgs = Map.empty, create_msgs = [],
     commands = Map.empty, libwim = lib\<rparr>"

text \<open>
  What the dispatcher calls outside this repository: the defragmenter's callback (see
  \<open>psrp_parser_callback\<close>), \<open>base64.b64decode\<close> (\<open>None\<close> when it raises
  \<open>binascii.Error\<close>), and \<open>wimlib_decompress\<close>, which maps the compressed block, the
  compressed size and the uncompressed size to the content of the output buffer.
\<close>

record externals =
  psrp_callback :: callback
  b64decode :: "string \<Rightarrow> byte list option"
  wimlib_decompress :: "byte list \<Rightarrow> nat \<Rightarrow> nat \<Rightarrow> byte list"

subsection \<open>Stream decompression\<close>

text \<open>
  The loop of \<open>_decompress_stream_data\<close>. \<open>struct.unpack('<HH', stream_blob[:4])\<close>
  raises unless four bytes are left.
\<close>

function decompress_loop ::
  "(byte list \<Rightarrow> nat \<Rightarrow> nat \<Rightarrow> byte list) \<Rightarrow> byte list \<Rightarrow> byte list \<Rightarrow> error + byte list" where
  "decompress_loop wim stream_blob fully_decompressed =
     (if stream_blob \<noteq> [] then
        (if length (take 4 stream_blob) \<noteq> 4 then Inl StructError
         else
           let uncompressed_size = le_nat (take 2 stream_blob) + 1;
               compressed_size = le_nat (take 2 (drop 2 stream_blob)) + 1;
               stream_blob1 = drop 4 stream_blob;
               compressed_block = take compressed_size stream_blob1;
               final_block_data =
                 (if uncompressed_size \<noteq> compressed_size
                  then wim compressed_block compressed_size uncompressed_size
                  else compressed_block)
           in decompress_loop wim (drop compressed_size stream_blob1)
                (fully_decompressed @ final_block_data))
      else Inr fully_decompressed)"
  by pat_completeness auto
termination
  by (relation "measure (\<lambda>(wim, stream_blob, fully_decompressed). length stream_blob)") auto

declare decompress_loop.simps [simp del]

definition decompress_stream_data ::
  "(byte list \<Rightarrow> nat \<Rightarrow> nat \<Rightarrow> byte list) \<Rightarrow> bool \<Rightarrow> byte list \<Rightarrow> error + byte list" where
  "decompress_stream_data wim lib stream_blob =
     (if \<not> lib then Inl LibwimNotInitialized
      else decompress_loop wim stream_blob [])"

subsection \<open>Tracking helpers\<close>

text \<open>
  \<open>_get_shell_id\<close>: the text of the first selector named \<open>ShellId\<close> (the loop
  \<open>break\<close>s there, also when that text is \<open>None\<close>).
\<close>

fun get_shell_id :: "selector list \<Rightarrow> string option" where
  "get_shell_id [] = None"
| "get_shell_id ((name, text) # rest) =
     (if name = Some ''ShellId'' then text else get_shell_id rest)"

text \<open>
  \<open>_track_shell_id\<close>: no \<open>break\<close> here, every selector named \<open>ShellId\<close> with a
  non-empty text overwrites the entry.
\<close>

definition track_shell_id ::
  "selector list \<Rightarrow> ident \<Rightarrow> (ident \<rightharpoonup> string) \<Rightarrow> (ident \<rightharpoonup> string)" where
  "track_shell_id selectors key tracking_dict =
     fold (\<lambda>(name, text) m.
             if name = Some ''ShellId'' then
               (case text of
                  None \<Rightarrow> m
                | Some shell_id \<Rightarrow> if shell_id \<noteq> [] then m(key \<mapsto> shell_id) else m)
             else m)
          selectors tracking_dict"

text \<open>
  \<open>_track_command_by_id\<close>. The test is \<open>shell_id in self.commands\<close> and the warning it
  guards formats \<open>self.commands[command_id]\<close>, which raises \<open>KeyError\<close> when the
  command is not tracked yet.
\<close>

definition track_command_by_id ::
  "string \<Rightarrow> string option \<Rightarrow> (string \<rightharpoonup> string) \<Rightarrow> (string \<rightharpoonup> string) \<times> error option" where
  "track_command_by_id cmd shell_id cs =
     (case shell_id of
        None \<Rightarrow> (cs, None)
      | Some sh \<Rightarrow>
          if sh = [] then (cs, None)
          else if cs sh \<noteq> None \<and> cs cmd = None then (cs, Some KeyError)
          else (cs(cmd \<mapsto> sh), None))"

definition track_create :: "ident \<Rightarrow> ident list \<Rightarrow> ident list" where
  "track_create message_id l = (if message_id \<notin> set l then l @ [message_id] else l)"

text \<open>\<open>_known_shell_id_or_resource_uri\<close>: its result and the state it leaves.\<close>

definition known_shell_id_or_resource_uri ::
  "soap_header \<Rightarrow> string option \<Rightarrow> string option \<Rightarrow> wsman \<Rightarrow> bool \<times> wsman" where
  "known_shell_id_or_resource_uri header resource_uri shell_id_arg w =
     (let shell_id = (case shell_id_arg of
                        None \<Rightarrow> get_shell_id (hdr_Selectors header)
                      | Some sh \<Rightarrow> Some sh)
      in if has_shell (psrp_defrag w) shell_id then (True, w)
         else if resource_uri = Some PS_RESOURCE_URI then
           (True, if shell_id \<noteq> None
                  then w\<lparr>psrp_defrag := new_shell shell_id (psrp_defrag w)\<rparr>
                  else w)
         else (False, w))"

text \<open>A Python dictionary in insertion order, for \<open>commands_finished\<close>.\<close>

fun dict_set :: "'k \<Rightarrow> 'v \<Rightarrow> ('k \<times> 'v) list \<Rightarrow> ('k \<times> 'v) list" where
  "dict_set k v [] = [(k, v)]"
| "dict_set k v ((k', v') # rest) =
     (if k' = k then (k, v) # rest else (k', v') # dict_set k v rest)"

subsection \<open>The handlers\<close>

text \<open>
  Each handler is given the document, its header, \<open>message_id\<close> and \<open>resource_uri\<close>;
  the arguments that only appear in log messages (\<open>activity_id\<close>, \<open>pid\<close>, \<open>tid\<close>,
  \<open>action\<close>, \<open>to\<close>) are left out, as is the logging itself. A handler returns the
  state it leaves and the exception it lets escape, if any.
\<close>

definition action_create_response ::
  "externals \<Rightarrow> soap_doc \<Rightarrow> soap_header \<Rightarrow> ident \<Rightarrow> string option \<Rightarrow> wsman
     \<Rightarrow> wsman \<times> error option" where
  "action_create_response ext doc header message_id resource_uri w =
     (let relates_to = hdr_RelatesTo header;
          pending_match = (relates_to \<noteq> None \<and> relates_to \<in> set (create_msgs w));
          w1 = (if pending_match then w\<lparr>create_msgs := remove1 relates_to (create_msgs w)\<rparr>
                else w)
      in case body_ResourceCreated (doc_Body doc) of
           None \<Rightarrow> (w1, None)
         | Some resource_created \<Rightarrow>
        (case rc_ReferenceParameters resource_created of
           None \<Rightarrow> (w1, None)
         | Some res_params \<Rightarrow>
             if \<not> pending_match \<and> rp_ResourceURI res_params \<noteq> Some PS_RESOURCE_URI
             then (w1, None)
             else
               (case get_shell_id (rp_Selectors res_params) of
                  None \<Rightarrow> (w1, None)
                | Some shell_id \<Rightarrow>
                    (case set_pending_shell_id (psrp_callback ext) relates_to (Some shell_id)
                            (psrp_defrag w1) of
                       (d', r) \<Rightarrow> (w1\<lparr>psrp_defrag := d'\<rparr>, r)))))"

definition action_delete_response ::
  "externals \<Rightarrow> soap_doc \<Rightarrow> soap_header \<Rightarrow> ident \<Rightarrow> string option \<Rightarrow> wsman
     \<Rightarrow> wsman \<times> error option" where
  "action_delete_response ext doc header message_id resource_uri w =
     (case hdr_RelatesTo header of
        None \<Rightarrow> (w, None)
      | Some relates_to \<Rightarrow>
          (case delete_msgs w (Some relates_to) of
             None \<Rightarrow> (w, None)
           | Some shell_id \<Rightarrow>
               let w1 = w\<lparr>delete_msgs := dict_pop (Some relates_to) (delete_msgs w)\<rparr>
               in if has_shell (psrp_defrag w1) (Some shell_id)
                  then (w1\<lparr>psrp_defrag := delete_shell (Some shell_id) (psrp_defrag w1)\<rparr>, None)
                  else (w1, None)))"

text \<open>
  \<open>_action_create\<close>. \<open>creation_xml.encode\<close> on \<open>None\<close> raises \<open>AttributeError\<close>, which
  the \<open>except (ValueError, binascii.Error)\<close> around it does not catch.
\<close>

definition action_create ::
  "externals \<Rightarrow> soap_doc \<Rightarrow> soap_header \<Rightarrow> ident \<Rightarrow> string option \<Rightarrow> wsman
     \<Rightarrow> wsman \<times> error option" where
  "action_create ext doc header message_id resource_uri w =
     (if resource_uri \<noteq> Some PS_RESOURCE_URI then (w, None)
      else
        (case body_Shell (doc_Body doc) of
           None \<Rightarrow> (w, None)
         | Some creation_xml \<Rightarrow>
             let w1 = w\<lparr>create_msgs := track_create message_id (create_msgs w)\<rparr>
             in (case creation_xml of
                   None \<Rightarrow> (w1, Some AttributeError)
                 | Some text \<Rightarrow>
                     (case b64decode ext text of
                        None \<Rightarrow> (w1, None)
                      | Some blob \<Rightarrow>
                          (case new_fragment_data_pending_shell message_id blob None
                                  (new_pending_shell message_id (psrp_defrag w1)) of
                             (d', None) \<Rightarrow> (w1\<lparr>psrp_defrag := d'\<rparr>, None)
                           | (d', Some e) \<Rightarrow>
                               (w1\<lparr>psrp_defrag := d'\<rparr>,
                                if is_value_error e then None else Some e))))))"

definition action_delete ::
  "externals \<Rightarrow> soap_doc \<Rightarrow> soap_header \<Rightarrow> ident \<Rightarrow> string option \<Rightarrow> wsman
     \<Rightarrow> wsman \<times> error option" where
  "action_delete ext doc header message_id resource_uri w =
     (case known_shell_id_or_resource_uri header resource_uri None w of
        (False, w1) \<Rightarrow> (w1, None)
      | (True, w1) \<Rightarrow>
          (w1\<lparr>delete_msgs := track_shell_id (hdr_Selectors header) message_id (delete_msgs w1)\<rparr>,
           None))"

definition action_command_response ::
  "externals \<Rightarrow> soap_doc \<Rightarrow> soap_header \<Rightarrow> ident \<Rightarrow> string option \<Rightarrow> wsman
     \<Rightarrow> wsman \<times> error option" where
  "action_command_response ext doc header message_id resource_uri w =
     (case hdr_RelatesTo header of
        None \<Rightarrow> (w, None)
      | Some relates_to \<Rightarrow>
          (case command_msgs w (Some relates_to) of
             None \<Rightarrow> (w, None)
           | Some shell_id \<Rightarrow>
               (case body_CommandId (doc_Body doc) of
                  None \<Rightarrow> (w, None)
                | Some cmd \<Rightarrow>
                    let w1 = w\<lparr>command_msgs := dict_pop (Some relates_to) (command_msgs w)\<rparr>
                    in (case track_command_by_id cmd (Some shell_id) (commands w1) of
                          (cs, r) \<Rightarrow> (w1\<lparr>commands := cs\<rparr>, r)))))"

text \<open>The first loop of \<open>_action_receive_response\<close>, over the \<open>CommandState\<close> elements.\<close>

definition collect_finished ::
  "command_state list \<Rightarrow> (string \<times> string option) list" where
  "collect_finished command_states =
     fold (\<lambda>cs_elem commands_finished.
             (case cs_CommandId cs_elem of
                None \<Rightarrow> commands_finished
              | Some cmd \<Rightarrow>
                  if cs_State cs_elem = Some CMD_STATE_DONE \<or> cs_ExitCode cs_elem \<noteq> None
                  then dict_set cmd (cs_ExitCode cs_elem) commands_finished
                  else commands_finished))
          command_states []"

text \<open>
  The second loop, over the \<open>Stream\<close> elements. The \<open>try\<close> covers the base64 decoding
  only: \<open>stream_element.text.encode\<close> on \<open>None\<close> raises \<open>AttributeError\<close>, which it does
  not catch, and \<open>_decompress_stream_data\<close> and \<open>new_fragment_data\<close> are called after
  it, so what they raise leaves the loop and the handler.
\<close>

fun process_streams ::
  "externals \<Rightarrow> string \<Rightarrow> stream_element list \<Rightarrow> wsman \<Rightarrow> wsman \<times> error option" where
  "process_streams ext shell_id [] w = (w, None)"
| "process_streams ext shell_id (stream_element # rest) w =
     (case st_text stream_element of
        None \<Rightarrow> (w, Some AttributeError)
      | Some text \<Rightarrow>
          (case b64decode ext text of
             None \<Rightarrow> process_streams ext shell_id rest w
           | Some stream_blob \<Rightarrow>
               (case decompress_stream_data (wimlib_decompress ext) (libwim w) stream_blob of
                  Inl e \<Rightarrow> (w, Some e)
                | Inr decompressed_data \<Rightarrow>
                    (case new_fragment_data (psrp_callback ext) (Some shell_id)
                            decompressed_data (st_CommandId stream_element) (psrp_defrag w) of
                       (d', Some e) \<Rightarrow> (w\<lparr>psrp_defrag := d'\<rparr>, Some e)
                     | (d', None) \<Rightarrow>
                         process_streams ext shell_id rest (w\<lparr>psrp_defrag := d'\<rparr>)))))"

text \<open>
  The third loop: \<open>self.commands.pop(command_id)\<close> for every finished command, which
  raises \<open>KeyError\<close> on a command that is not tracked.
\<close>

fun pop_finished :: "string list \<Rightarrow> wsman \<Rightarrow> wsman \<times> error option" where
  "pop_finished [] w = (w, None)"
| "pop_finished (cmd # rest) w =
     (case commands w cmd of
        None \<Rightarrow> (w, Some KeyError)
      | Some sh \<Rightarrow> pop_finished rest (w\<lparr>commands := dict_pop cmd (commands w)\<rparr>))"

definition action_receive_response ::
  "externals \<Rightarrow> soap_doc \<Rightarrow> soap_header \<Rightarrow> ident \<Rightarrow> string option \<Rightarrow> wsman
     \<Rightarrow> wsman \<times> error option" where
  "action_receive_response ext doc header message_id resource_uri w =
     (case hdr_RelatesTo header of
        None \<Rightarrow> (w, None)
      | Some relates_to \<Rightarrow>
          (case receive_msgs w (Some relates_to) of
             None \<Rightarrow> (w, None)
           | Some shell_id \<Rightarrow>
               let w1 = w\<lparr>receive_msgs := dict_pop (Some relates_to) (receive_msgs w)\<rparr>;
                   commands_finished = collect_finished (body_CommandStates (doc_Body doc))
               in (case process_streams ext shell_id (body_Streams (doc_Body doc)) w1 of
                     (w2, Some e) \<Rightarrow> (w2, Some e)
                   | (w2, None) \<Rightarrow> pop_finished (map fst commands_finished) w2)))"

definition action_command ::
  "externals \<Rightarrow> soap_doc \<Rightarrow> soap_header \<Rightarrow> ident \<Rightarrow> string option \<Rightarrow> wsman
     \<Rightarrow> wsman \<times> error option" where
  "action_command ext doc header message_id resource_uri w =
     (let shell_id = get_shell_id (hdr_Selectors header)
      in case known_shell_id_or_resource_uri header resource_uri shell_id w of
           (False, w1) \<Rightarrow> (w1, None)
         | (True, w1) \<Rightarrow>
             (case body_Arguments (doc_Body doc) of
                None \<Rightarrow> (w1, None)
              | Some arguments \<Rightarrow>
                  (case (case b64decode ext arguments of
                           None \<Rightarrow> (w1, None)
                         | Some cmd_blob \<Rightarrow>
                             (case new_fragment_data (psrp_callback ext) shell_id cmd_blob None
                                     (psrp_defrag w1) of
                                (d', r) \<Rightarrow> (w1\<lparr>psrp_defrag := d'\<rparr>, r))) of
                     (w2, Some e) \<Rightarrow> (w2, Some e)
                   | (w2, None) \<Rightarrow>
                       (w2\<lparr>command_msgs :=
                             track_shell_id (hdr_Selectors header) message_id (command_msgs w2)\<rparr>,
                        None))))"

text \<open>The loop of \<open>_action_receive\<close> over the \<open>DesiredStream\<close> elements.\<close>

fun track_desired_streams ::
  "string option \<Rightarrow> string option list \<Rightarrow> wsman \<Rightarrow> wsman \<times> error option" where
  "track_desired_streams shell_id [] w = (w, None)"
| "track_desired_streams shell_id (None # rest) w = track_desired_streams shell_id rest w"
| "track_desired_streams shell_id (Some cmd # rest) w =
     (if commands w cmd = None then
        (case track_command_by_id cmd shell_id (commands w) of
           (cs, Some e) \<Rightarrow> (w\<lparr>commands := cs\<rparr>, Some e)
         | (cs, None) \<Rightarrow> track_desired_streams shell_id rest (w\<lparr>commands := cs\<rparr>))
      else track_desired_streams shell_id rest w)"

definition action_receive ::
  "externals \<Rightarrow> soap_doc \<Rightarrow> soap_header \<Rightarrow> ident \<Rightarrow> string option \<Rightarrow> wsman
     \<Rightarrow> wsman \<times> error option" where
  "action_receive ext doc header message_id resource_uri w =
     (let shell_id = get_shell_id (hdr_Selectors header)
      in case known_shell_id_or_resource_uri header resource_uri shell_id w of
           (False, w1) \<Rightarrow> (w1, None)
         | (True, w1) \<Rightarrow>
             track_desired_streams shell_id (body_DesiredStreams (doc_Body doc))
               (w1\<lparr>receive_msgs :=
                     track_shell_id (hdr_Selectors header) message_id (receive_msgs w1)\<rparr>))"

text \<open>\<open>_action_fault\<close> and \<open>_action_signal\<close> are \<open>pass\<close>.\<close>

definition run_handler ::
  "externals \<Rightarrow> handler \<Rightarrow> soap_doc \<Rightarrow> soap_header \<Rightarrow> ident \<Rightarrow> string option \<Rightarrow> wsman
     \<Rightarrow> wsman \<times> error option" where
  "run_handler ext h doc header message_id resource_uri w =
     (case h of
        ActionCreateResponse \<Rightarrow> action_create_response ext doc header message_id resource_uri w
      | ActionDeleteResponse \<Rightarrow> action_delete_response ext doc header message_id resource_uri w
      | ActionCreate \<Rightarrow> action_create ext doc header message_id resource_uri w
      | ActionDelete \<Rightarrow> action_delete ext doc header message_id resource_uri w
      | ActionFault \<Rightarrow> (w, None)
      | ActionCommandResponse \<Rightarrow> action_command_response ext doc header message_id resource_uri w
      | ActionReceiveResponse \<Rightarrow> action_receive_response ext doc header message_id resource_uri w
      | ActionCommand \<Rightarrow> action_command ext doc header message_id resource_uri w
      | ActionReceive \<Rightarrow> action_receive ext doc header message_id resource_uri w
      | ActionSignal \<Rightarrow> (w, None))"

subsection \<open>\<open>new_soap\<close>\<close>

text \<open>
  The chain of early returns at the head of \<open>new_soap\<close>: \<open>routed doc\<close> is the handler
  the document reaches, with the header, and \<open>None\<close> when \<open>new_soap\<close> returns before
  calling a handler (no header, no action, an action outside \<open>ps_actions\<close>, or a
  \<open>ResourceURI\<close> that is present and is not the PowerShell one).
\<close>

definition routed :: "soap_doc \<Rightarrow> (handler \<times> soap_header) option" where
  "routed doc =
     (case doc_Header doc of
        None \<Rightarrow> None
      | Some header \<Rightarrow>
          (case hdr_Action header of
             None \<Rightarrow> None
           | Some action \<Rightarrow>
               (case map_of ps_actions action of
                  None \<Rightarrow> None
                | Some h \<Rightarrow>
                    if hdr_ResourceURI header \<noteq> None
                       \<and> hdr_ResourceURI header \<noteq> Some PS_RESOURCE_URI
                    then None
                    else Some (h, header))))"

text \<open>
  The body of the \<open>try\<close> in \<open>new_soap\<close>; the document is \<open>None\<close> when
  \<open>ET.fromstring\<close> raised.
\<close>

definition new_soap_try :: "externals \<Rightarrow> soap_doc option \<Rightarrow> wsman \<Rightarrow> wsman \<times> error option" where
  "new_soap_try ext parsed w =
     (case parsed of
        None \<Rightarrow> (w, Some XmlParseError)
      | Some doc \<Rightarrow>
          (case routed doc of
             None \<Rightarrow> (w, None)
           | Some (h, header) \<Rightarrow>
               run_handler ext h doc header (hdr_MessageID header) (hdr_ResourceURI header) w))"

text \<open>\<open>new_soap\<close>: \<open>except Exception\<close> logs and returns; the state stays as it was left.\<close>

definition new_soap :: "externals \<Rightarrow> soap_doc option \<Rightarrow> wsman \<Rightarrow> wsman" where
  "new_soap ext parsed w = fst (new_soap_try ext parsed w)"

section \<open>Sequences of calls, and notions used by the properties\<close>

text \<open>
  The calls a client makes on a \<open>PSRPDefragmenter\<close> (the queries \<open>has_shell\<close> and
  \<open>has_pending_shell\<close> change nothing and are left out). A client that goes on after a
  call that raised sees the state the call left, so a sequence of calls threads the
  state through, whatever each call's outcome.
\<close>

datatype op =
    NewShell ident
  | NewPendingShell ident
  | NewFragment ident int int bool bool nat "byte list"
  | NewFragmentData ident "byte list" "string option"
  | NewFragmentDataPendingShell ident "byte list" "string option"
  | SetPendingShellId ident ident
  | DeleteShell ident

fun run_op :: "callback \<Rightarrow> op \<Rightarrow> defrag \<Rightarrow> defrag \<times> error option" where
  "run_op cb (NewShell shell_id) d = (new_shell shell_id d, None)"
| "run_op cb (NewPendingShell message_id) d = (new_pending_shell message_id d, None)"
| "run_op cb (NewFragment shell_id object_id fragment_id s_flag e_flag frag_len frag_data) d =
     new_fragment cb shell_id object_id fragment_id s_flag e_flag frag_len frag_data d"
| "run_op cb (NewFragmentData shell_id fragment_data cmd) d =
     new_fragment_data cb shell_id fragment_data cmd d"
| "run_op cb (NewFragmentDataPendingShell message_id fragment_data cmd) d =
     new_fragment_data_pending_shell message_id fragment_data cmd d"
| "run_op cb (SetPendingShellId message_id shell_id) d =
     set_pending_shell_id cb message_id shell_id d"
| "run_op cb (DeleteShell shell_id) d = (delete_shell shell_id d, None)"

definition run_ops :: "callback \<Rightarrow> op list \<Rightarrow> defrag \<Rightarrow> defrag" where
  "run_ops cb ops d = fold (\<lambda>x d'. fst (run_op cb x d')) ops d"

text \<open>
  What \<open>_append_frag_data\<close> reads of an object's buffer before it overwrites
  \<open>command_id\<close>: \<open>last_fragment_id\<close> and \<open>buffer\<close>, with the values of a new buffer when
  there is none.
\<close>

definition core :: "objbuf option \<Rightarrow> int \<times> byte list" where
  "core x = (case x of None \<Rightarrow> (- 1, []) | Some ob \<Rightarrow> (last_fragment_id ob, buffer ob))"

text \<open>
  Two states are alike when they track the same identifiers, with buffers that agree
  on \<open>core\<close>, and have the same stash and the same record of deliveries.
\<close>

definition bufs_alike :: "(ident \<rightharpoonup> bufs) \<Rightarrow> (ident \<rightharpoonup> bufs) \<Rightarrow> bool" where
  "bufs_alike m m' =
     (\<forall>i. (m i = None \<longleftrightarrow> m' i = None)
          \<and> (\<forall>b b'. m i = Some b \<and> m' i = Some b' \<longrightarrow> (\<forall>oid. core (b oid) = core (b' oid))))"

definition alike :: "defrag \<Rightarrow> defrag \<Rightarrow> bool" where
  "alike d d' \<longleftrightarrow>
     bufs_alike (shell_bufs d) (shell_bufs d')
     \<and> bufs_alike (pending_shell_bufs d) (pending_shell_bufs d')
     \<and> pending_shell_completed_messages d = pending_shell_completed_messages d'
     \<and> delivered d = delivered d'"

text \<open>
  The feeding of a list of raw fragment data, each with its \<open>command_id\<close>, to a known
  and to a pending shell.
\<close>

definition feed_known ::
  "callback \<Rightarrow> ident \<Rightarrow> (byte list \<times> string option) list \<Rightarrow> defrag \<Rightarrow> defrag" where
  "feed_known cb shell_id feeds d =
     fold (\<lambda>(fragment_data, cmd) d'. fst (new_fragment_data cb shell_id fragment_data cmd d'))
       feeds d"

definition feed_pending ::
  "ident \<Rightarrow> (byte list \<times> string option) list \<Rightarrow> defrag \<Rightarrow> defrag" where
  "feed_pending message_id feeds d =
     fold (\<lambda>(fragment_data, cmd) d'.
             fst (new_fragment_data_pending_shell message_id fragment_data cmd d'))
       feeds d"

text \<open>
  The messages stashed for a pending shell, and the state a promotion of the pending
  shell \<open>message_id\<close> to \<open>shell_id\<close> is expected to give: the buffers moved, the stash
  delivered under \<open>shell_id\<close>.
\<close>

definition stashed :: "defrag \<Rightarrow> ident \<Rightarrow> (int \<times> byte list \<times> string option) list" where
  "stashed d message_id =
     (case pending_shell_completed_messages d message_id of None \<Rightarrow> [] | Some l \<Rightarrow> l)"

definition promoted :: "ident \<Rightarrow> ident \<Rightarrow> defrag \<Rightarrow> defrag" where
  "promoted message_id shell_id d =
     \<lparr>shell_bufs = (case pending_shell_bufs d message_id of
                      None \<Rightarrow> shell_bufs d
                    | Some b \<Rightarrow> (shell_bufs d)(shell_id \<mapsto> b)),
      pending_shell_bufs = dict_pop message_id (pending_shell_bufs d),
      pending_shell_completed_messages =
        dict_pop message_id (pending_shell_completed_messages d),
      delivered = delivered d @
        map (\<lambda>(object_id, msg, cmd). (shell_id, object_id, msg, cmd)) (stashed d message_id)\<rparr>"

text \<open>
  The callback returns normally on each of the deliveries \<open>xs\<close>, made one after the
  other when \<open>h\<close> has been delivered before.
\<close>

fun callback_accepts :: "callback \<Rightarrow> delivery list \<Rightarrow> delivery list \<Rightarrow> bool" where
  "callback_accepts cb h [] = True"
| "callback_accepts cb h (x # xs) = (cb h x = None \<and> callback_accepts cb (h @ [x]) xs)"

section \<open>Properties of the PSRP defragmenter\<close>

text \<open>
  \<^bold>\<open>C1\<close> (scenario S1 of the specification). Shell \<open>S\<close>, object 7, fragments 0, 1, 2 with
  payloads \<open>01 02\<close>, \<open>03\<close>, \<open>04 05\<close>, the last one carrying the end flag. The claim
  expects one delivery of \<open>01 02 03 04 05\<close> and the buffer removed. The code accepts
  fragment 0, then rejects fragments 1 and 2 because \<open>last_fragment_id\<close> is still
  \<open>-1\<close>: nothing is delivered and the buffer stays, holding \<open>01 02\<close>.
\<close>

theorem C1_in_order_fragments_stall:
  "(let cb = (\<lambda>h x. None);
        d0 = new_shell (Some ''S'') defrag_init;
        d1 = fst (new_fragment cb (Some ''S'') 7 0 True False 2 [1, 2] d0);
        d2 = fst (new_fragment cb (Some ''S'') 7 1 False False 1 [3] d1);
        d3 = fst (new_fragment cb (Some ''S'') 7 2 False True 2 [4, 5] d2)
    in delivered d3 = []
       \<and> map_option (\<lambda>b. map_option buffer (b 7)) (shell_bufs d3 (Some ''S''))
           = Some (Some [1, 2])
       \<and> map_option (\<lambda>b. map_option last_fragment_id (b 7)) (shell_bufs d3 (Some ''S''))
           = Some (Some (- 1)))"
  by (simp add: new_fragment_def append_frag_data_def new_shell_def defrag_init_def
      has_identifier_def has_shell_def get_bufs_def set_bufs_def new_ident_def Let_def)

subsection \<open>The fragment-parse loop at the end of its input\<close>


lemma unpack_frag_header_length:
  "unpack_frag_header h = Inr r \<Longrightarrow> length h = 21"
  by (cases "length h = 21") (simp_all add: unpack_frag_header_def)

lemma loop_stops_past_end:
  "length fragment_data \<le> off \<Longrightarrow>
     new_fragment_data_loop cb sp i fragment_data cmd off d = (d, None)"
  by (subst new_fragment_data_loop.simps) simp

lemma header_within:
  assumes "unpack_frag_header (take 21 (drop off fragment_data)) = Inr r"
  shows "off + 21 \<le> length fragment_data"
proof -
  have "length (take 21 (drop off fragment_data)) = 21"
    using assms by (rule unpack_frag_header_length)
  then show ?thesis by simp
qed

lemma loop_fragment:
  assumes "unpack_frag_header (take 21 (drop off fragment_data)) = Inr (oid, fid, e_s, flen)"
  shows "new_fragment_data_loop cb sp i fragment_data cmd off d
     = (case append_frag_data cb sp oid fid (start_bit_set e_s) (end_bit_set e_s)
               (take flen (drop (off + 21) fragment_data)) i cmd d of
          (d', Some e) \<Rightarrow> (d', Some e)
        | (d', None) \<Rightarrow> new_fragment_data_loop cb sp i fragment_data cmd (off + 21 + flen) d')"
proof -
  have "off < length fragment_data"
    using header_within [OF assms] by simp
  then show ?thesis
    using assms
    by (subst new_fragment_data_loop.simps) (simp add: FRAG_HEADER_LEN_def)
qed







subsection \<open>Whole fragments and the parser as the callback\<close>

text \<open>
  One fragment that is a whole object (fragment 0 with the end flag, all its bytes
  there), given to a tracked shell that has no buffer for the object: the object is
  handed to the callback; the buffer is removed when the callback returns and kept
  when it raises.
\<close>

lemma whole_fragment_fed:
  assumes "unpack_frag_header (take 21 (drop 0 fragment_data)) = Inr (oid, 0, e_s, flen)"
    and "end_bit_set e_s" and "length fragment_data = 21 + flen"
    and "shell_bufs d shell_id = Some b" and "b oid = None"
    and "cb (delivered d) (shell_id, oid, drop 21 fragment_data, cmd) = None"
  shows "new_fragment_data cb shell_id fragment_data cmd d
     = (d\<lparr>delivered := delivered d @ [(shell_id, oid, drop 21 fragment_data, cmd)]\<rparr>, None)"
proof -
  have b: "b(oid := None) = b"
    using assms(5) by auto
  have m: "(shell_bufs d)(shell_id \<mapsto> b) = shell_bufs d"
    using assms(4) by auto
  have ap: "append_frag_data cb Known oid 0 (start_bit_set e_s) (end_bit_set e_s)
        (take flen (drop (0 + 21) fragment_data)) shell_id cmd d
      = (d\<lparr>delivered := delivered d @ [(shell_id, oid, drop 21 fragment_data, cmd)]\<rparr>, None)"
    using assms(2-6)
    by (simp add: append_frag_data_def has_identifier_def has_shell_def
        get_bufs_def set_bufs_def message_complete_callback_def
        completed_psrp_callback_def dict_pop_def Let_def b m)
  show ?thesis
    unfolding new_fragment_data_def loop_fragment [OF assms(1)] ap
    using assms(3) by (simp add: loop_stops_past_end)
qed

lemma whole_fragment_raises:
  assumes "unpack_frag_header (take 21 (drop 0 fragment_data)) = Inr (oid, 0, e_s, flen)"
    and "end_bit_set e_s" and "length fragment_data = 21 + flen"
    and "shell_bufs d shell_id = Some b" and "b oid = None"
    and "cb (delivered d) (shell_id, oid, drop 21 fragment_data, cmd) = Some e"
  shows "new_fragment_data cb shell_id fragment_data cmd d
     = (d\<lparr>shell_bufs := (shell_bufs d)(shell_id \<mapsto> b(oid \<mapsto>
             \<lparr>last_fragment_id = - 1, buffer = drop 21 fragment_data, command_id = cmd\<rparr>)),
          delivered := delivered d @ [(shell_id, oid, drop 21 fragment_data, cmd)]\<rparr>, Some e)"
proof -
  have ap: "append_frag_data cb Known oid 0 (start_bit_set e_s) (end_bit_set e_s)
        (take flen (drop (0 + 21) fragment_data)) shell_id cmd d
      = (d\<lparr>shell_bufs := (shell_bufs d)(shell_id \<mapsto> b(oid \<mapsto>
             \<lparr>last_fragment_id = - 1, buffer = drop 21 fragment_data, command_id = cmd\<rparr>)),
          delivered := delivered d @ [(shell_id, oid, drop 21 fragment_data, cmd)]\<rparr>, Some e)"
    using assms(2-6)
    by (simp add: append_frag_data_def has_identifier_def has_shell_def
        get_bufs_def set_bufs_def message_complete_callback_def
        completed_psrp_callback_def Let_def)
  show ?thesis
    unfolding new_fragment_data_def loop_fragment [OF assms(1)] ap
    by simp
qed

text \<open>
  The examples give the defragmenter the callback that \<open>WSManPS\<close> wires in, the PSRP
  parser with the command tracer behind it, and two messages the parser accepts: 40
  bytes, two zero UUIDs and an empty body, of type \<open>SESSION_CAPABILITY\<close> sent to
  destination 2 and of type \<open>PIPELINE_STATE\<close> sent to destination 1. The first is
  also used as the one whole fragment 0 of object 1.
\<close>

lemma session_capability_parsed:
  "psrp_parser_callback (\<lambda>b :: byte list. if b = [] then Some [] else None)
       (message (\<lambda>(data_text :: string) rpid pipeline_id destination. Inr ())
                (\<lambda>(data_text :: string) rpid pipeline_id destination. Inr ())
                (\<lambda>(data_text :: string) rpid pipeline_id destination. Inr ()))
       h (shell_id, object_id, [2,0,0,0, 2,0,1,0, 0,0,0,0,0,0,0,0,0,0,0,0,0,0,0,0, 0,0,0,0,0,0,0,0,0,0,0,0,0,0,0,0], cmd) = None"
  by (simp add: psrp_parser_callback_def new_psrp_message_def unpack_II_def le_nat_def
        uuid_bytes_le_def msg_type_name_def MSG_TYPES_def message_def)

lemma pipeline_state_parsed:
  "psrp_parser_callback (\<lambda>b :: byte list. if b = [] then Some [] else None)
       (message (\<lambda>(data_text :: string) rpid pipeline_id destination. Inr ())
                (\<lambda>(data_text :: string) rpid pipeline_id destination. Inr ())
                (\<lambda>(data_text :: string) rpid pipeline_id destination. Inr ()))
       h (shell_id, object_id, [1,0,0,0, 6,16,4,0, 0,0,0,0,0,0,0,0,0,0,0,0,0,0,0,0, 0,0,0,0,0,0,0,0,0,0,0,0,0,0,0,0], cmd) = None"
  by (simp add: psrp_parser_callback_def new_psrp_message_def unpack_II_def le_nat_def
        uuid_bytes_le_def msg_type_name_def MSG_TYPES_def message_def)

lemma session_capability_fed:
  "new_fragment_data
       (psrp_parser_callback (\<lambda>b :: byte list. if b = [] then Some [] else None)
          (message (\<lambda>(data_text :: string) rpid pipeline_id destination. Inr ())
                   (\<lambda>(data_text :: string) rpid pipeline_id destination. Inr ())
                   (\<lambda>(data_text :: string) rpid pipeline_id destination. Inr ())))
       (Some ''S'')
       [0,0,0,0,0,0,0,1, 0,0,0,0,0,0,0,0, 3, 0,0,0,40,
         2,0,0,0, 2,0,1,0, 0,0,0,0,0,0,0,0,0,0,0,0,0,0,0,0, 0,0,0,0,0,0,0,0,0,0,0,0,0,0,0,0]
       None (new_shell (Some ''S'') defrag_init)
     = ((new_shell (Some ''S'') defrag_init)
          \<lparr>delivered := [(Some ''S'', 1, [2,0,0,0, 2,0,1,0, 0,0,0,0,0,0,0,0,0,0,0,0,0,0,0,0, 0,0,0,0,0,0,0,0,0,0,0,0,0,0,0,0], None)]\<rparr>,
        None)"
proof -
  let ?cb = "psrp_parser_callback (\<lambda>b :: byte list. if b = [] then Some [] else None)
          (message (\<lambda>(data_text :: string) (rpid :: byte list) (pipeline_id :: byte list)
                      (destination :: nat). Inr () :: error + unit)
                   (\<lambda>(data_text :: string) rpid pipeline_id destination. Inr ())
                   (\<lambda>(data_text :: string) rpid pipeline_id destination. Inr ()))"
  let ?g = "[0,0,0,0,0,0,0,1, 0,0,0,0,0,0,0,0, 3, 0,0,0,40,
         2,0,0,0, 2,0,1,0, 0,0,0,0,0,0,0,0,0,0,0,0,0,0,0,0, 0,0,0,0,0,0,0,0,0,0,0,0,0,0,0,0] :: byte list"
  let ?d = "new_shell (Some ''S'') defrag_init"
  have h: "unpack_frag_header (take 21 (drop 0 ?g)) = Inr (1, 0, 3, 40)"
    by (simp add: unpack_frag_header_def be_nat_def i64_of_nat_def)
  have ap: "append_frag_data ?cb Known 1 0 (start_bit_set 3) (end_bit_set 3)
        (take 40 (drop (0 + 21) ?g)) (Some ''S'') None ?d
      = (?d\<lparr>delivered := [(Some ''S'', 1, [2,0,0,0, 2,0,1,0, 0,0,0,0,0,0,0,0,0,0,0,0,0,0,0,0, 0,0,0,0,0,0,0,0,0,0,0,0,0,0,0,0], None)]\<rparr>, None)"
    by (simp add: append_frag_data_def has_identifier_def has_shell_def new_shell_def
        defrag_init_def get_bufs_def set_bufs_def message_complete_callback_def
        completed_psrp_callback_def end_bit_set_def dict_pop_def Let_def
        session_capability_parsed)
  show ?thesis
    unfolding new_fragment_data_def loop_fragment [OF h] ap
    by (simp add: loop_stops_past_end)
qed

subsection \<open>States that are alike stay alike\<close>

lemma get_bufs_set_bufs: "get_bufs sp' (set_bufs sp m d) = (if sp' = sp then m else get_bufs sp' d)"
  by (cases sp; cases sp') (simp_all add: get_bufs_def set_bufs_def)

lemma set_bufs_other_fields:
  "pending_shell_completed_messages (set_bufs sp m d) = pending_shell_completed_messages d"
  "delivered (set_bufs sp m d) = delivered d"
  by (cases sp; simp add: set_bufs_def)+

lemma alike_get_bufs: "alike d d' \<Longrightarrow> bufs_alike (get_bufs sp d) (get_bufs sp d')"
  by (cases sp) (simp_all add: alike_def get_bufs_def)

lemma alike_set_bufs:
  "alike d d' \<Longrightarrow> bufs_alike m m' \<Longrightarrow> alike (set_bufs sp m d) (set_bufs sp m' d')"
  by (cases sp) (simp_all add: alike_def set_bufs_def)

lemma alike_refl: "alike d d"
  by (auto simp: alike_def bufs_alike_def)

lemma bufs_alike_None: "bufs_alike m m' \<Longrightarrow> (m i = None) = (m' i = None)"
  by (simp add: bufs_alike_def)

lemma bufs_alike_Some:
  "bufs_alike m m' \<Longrightarrow> m i = Some b \<Longrightarrow> \<exists>b'. m' i = Some b' \<and> (\<forall>oid. core (b oid) = core (b' oid))"
  by (cases "m' i") (auto simp: bufs_alike_def dest!: spec [of _ i])

lemma bufs_alike_upd:
  "bufs_alike m m' \<Longrightarrow> \<forall>oid. core (b oid) = core (b' oid) \<Longrightarrow> bufs_alike (m(i \<mapsto> b)) (m'(i \<mapsto> b'))"
  by (simp add: bufs_alike_def)

lemma bufs_alike_pop: "bufs_alike m m' \<Longrightarrow> bufs_alike (dict_pop i m) (dict_pop i m')"
  by (simp add: bufs_alike_def dict_pop_def)

lemma alike_has_identifier: "alike d d' \<Longrightarrow> has_identifier sp d i = has_identifier sp d' i"
  using bufs_alike_None [of "shell_bufs d" "shell_bufs d'" i]
    bufs_alike_None [of "pending_shell_bufs d" "pending_shell_bufs d'" i]
  by (cases sp)
     (simp_all add: alike_def has_identifier_def has_shell_def has_pending_shell_def)

lemma alike_new_shell: "alike d d' \<Longrightarrow> alike (new_shell i d) (new_shell i d')"
  using bufs_alike_None [of "shell_bufs d" "shell_bufs d'" i]
  by (auto simp: alike_def new_shell_def intro: bufs_alike_upd)

lemma alike_new_pending_shell:
  "alike d d' \<Longrightarrow> alike (new_pending_shell i d) (new_pending_shell i d')"
  using bufs_alike_None [of "pending_shell_bufs d" "pending_shell_bufs d'" i]
  by (auto simp: alike_def new_pending_shell_def intro: bufs_alike_upd)

lemma alike_new_ident: "alike d d' \<Longrightarrow> alike (new_ident sp i d) (new_ident sp i d')"
  by (cases sp) (simp_all add: new_ident_def alike_new_shell alike_new_pending_shell)

lemma alike_delete_shell: "alike d d' \<Longrightarrow> alike (delete_shell i d) (delete_shell i d')"
  using bufs_alike_None [of "shell_bufs d" "shell_bufs d'" i]
  by (auto simp: alike_def delete_shell_def intro: bufs_alike_pop)

lemma alike_message_complete_callback:
  assumes "alike d d'"
  shows "alike (fst (message_complete_callback cb sp i oid msg cmd d))
               (fst (message_complete_callback cb sp i oid msg cmd d'))
    \<and> snd (message_complete_callback cb sp i oid msg cmd d)
      = snd (message_complete_callback cb sp i oid msg cmd d')"
  using assms
  by (cases sp)
     (simp_all add: message_complete_callback_def completed_psrp_callback_def
        pending_shell_message_callback_def alike_def Let_def)

lemma get_bufs_message_complete_callback:
  "get_bufs sp' (fst (message_complete_callback cb sp i oid msg cmd d)) = get_bufs sp' d"
  by (cases sp; cases sp')
     (simp_all add: message_complete_callback_def completed_psrp_callback_def
        pending_shell_message_callback_def get_bufs_def Let_def)

lemma core_upd:
  "core ((b(oid \<mapsto> x)) oid') = (if oid' = oid then (last_fragment_id x, buffer x) else core (b oid'))"
  by (simp add: core_def)

lemma core_pop: "core ((dict_pop oid b) oid') = (if oid' = oid then (- 1, []) else core (b oid'))"
  by (simp add: core_def dict_pop_def)

lemma core_cases:
  "core (b oid) = (last_fragment_id (case b oid of None \<Rightarrow> \<lparr>last_fragment_id = - 1, buffer = [], command_id = None\<rparr> | Some ob \<Rightarrow> ob),
                   buffer (case b oid of None \<Rightarrow> \<lparr>last_fragment_id = - 1, buffer = [], command_id = None\<rparr> | Some ob \<Rightarrow> ob))"
  by (simp add: core_def split: option.splits)

lemma alike_append_frag_data:
  assumes "alike d d'"
  shows "alike (fst (append_frag_data cb sp oid fid sf ef frag_data i cmd d))
               (fst (append_frag_data cb sp oid fid sf ef frag_data i cmd d'))
    \<and> snd (append_frag_data cb sp oid fid sf ef frag_data i cmd d)
      = snd (append_frag_data cb sp oid fid sf ef frag_data i cmd d')"
proof -
  define d1 where "d1 = (if \<not> has_identifier sp d i then new_ident sp i d else d)"
  define d1' where "d1' = (if \<not> has_identifier sp d' i then new_ident sp i d' else d')"
  have a1: "alike d1 d1'"
    using assms alike_has_identifier [OF assms, of sp i]
    by (simp add: d1_def d1'_def alike_new_ident)
  have ba: "bufs_alike (get_bufs sp d1) (get_bufs sp d1')"
    using a1 by (rule alike_get_bufs)
  show ?thesis
  proof (cases "get_bufs sp d1 i")
    case None
    then have "get_bufs sp d1' i = None"
      using bufs_alike_None [OF ba, of i] by simp
    with None a1 show ?thesis
      by (simp add: append_frag_data_def d1_def [symmetric] d1'_def [symmetric])
  next
    case (Some b)
    then obtain b' where b': "get_bufs sp d1' i = Some b'"
      and cores: "\<forall>oid. core (b oid) = core (b' oid)"
      using bufs_alike_Some [OF ba] by blast
    define ob0 where "ob0 = (case b oid of None \<Rightarrow> \<lparr>last_fragment_id = - 1, buffer = [], command_id = None\<rparr> | Some ob \<Rightarrow> ob)"
    define ob0' where "ob0' = (case b' oid of None \<Rightarrow> \<lparr>last_fragment_id = - 1, buffer = [], command_id = None\<rparr> | Some ob \<Rightarrow> ob)"
    have c0: "last_fragment_id ob0 = last_fragment_id ob0'" "buffer ob0 = buffer ob0'"
      using cores [rule_format, of oid] by (simp_all add: core_cases ob0_def ob0'_def)
    define ob1 where "ob1 = ob0\<lparr>command_id := cmd\<rparr>"
    define ob1' where "ob1' = ob0'\<lparr>command_id := cmd\<rparr>"
    define ob2 where "ob2 = ob1\<lparr>buffer := buffer ob1 @ frag_data\<rparr>"
    define ob2' where "ob2' = ob1'\<lparr>buffer := buffer ob1' @ frag_data\<rparr>"
    define d2 where "d2 = set_bufs sp ((get_bufs sp d1)(i \<mapsto> b(oid \<mapsto> ob1))) d1"
    define d2' where "d2' = set_bufs sp ((get_bufs sp d1')(i \<mapsto> b'(oid \<mapsto> ob1'))) d1'"
    define d3 where "d3 = set_bufs sp ((get_bufs sp d1)(i \<mapsto> b(oid \<mapsto> ob2))) d1"
    define d3' where "d3' = set_bufs sp ((get_bufs sp d1')(i \<mapsto> b'(oid \<mapsto> ob2'))) d1'"
    have a2: "alike d2 d2'"
      unfolding d2_def d2'_def
      using cores c0
      by (intro alike_set_bufs a1 bufs_alike_upd ba) (simp add: core_upd core_def ob1_def ob1'_def)
    have a3: "alike d3 d3'"
      unfolding d3_def d3'_def
      using cores c0
      by (intro alike_set_bufs a1 bufs_alike_upd ba)
         (simp add: core_upd core_def ob1_def ob1'_def ob2_def ob2'_def)
    have same_args: "buffer ob2 = buffer ob2'" "command_id ob2 = command_id ob2'"
      using c0 by (simp_all add: ob1_def ob1'_def ob2_def ob2'_def)
    obtain d4 e4 where r:
      "message_complete_callback cb sp i oid (buffer ob2) (command_id ob2) d3 = (d4, e4)"
      by (cases "message_complete_callback cb sp i oid (buffer ob2) (command_id ob2) d3")
    obtain d4' e4' where r':
      "message_complete_callback cb sp i oid (buffer ob2') (command_id ob2') d3' = (d4', e4')"
      by (cases "message_complete_callback cb sp i oid (buffer ob2') (command_id ob2') d3'")
    have a4: "alike d4 d4'" and s4: "e4 = e4'"
      using alike_message_complete_callback [OF a3, of cb sp i oid "buffer ob2" "command_id ob2"]
        r r'
      by (simp_all add: same_args)
    have g4: "get_bufs sp d4 i = Some (b(oid \<mapsto> ob2))"
      using get_bufs_message_complete_callback
        [of sp cb sp i oid "buffer ob2" "command_id ob2" d3] r
      by (simp add: d3_def get_bufs_set_bufs)
    have g4': "get_bufs sp d4' i = Some (b'(oid \<mapsto> ob2'))"
      using get_bufs_message_complete_callback
        [of sp cb sp i oid "buffer ob2'" "command_id ob2'" d3'] r'
      by (simp add: d3'_def get_bufs_set_bufs)
    define d5 where "d5 = set_bufs sp ((get_bufs sp d4)(i \<mapsto> dict_pop oid (b(oid \<mapsto> ob2)))) d4"
    define d5' where "d5' = set_bufs sp ((get_bufs sp d4')(i \<mapsto> dict_pop oid (b'(oid \<mapsto> ob2')))) d4'"
    have a5: "alike d5 d5'"
      unfolding d5_def d5'_def
      using cores
      by (intro alike_set_bufs a4 bufs_alike_upd alike_get_bufs)
         (simp add: core_pop core_upd core_def dict_pop_def)
    have lhs: "append_frag_data cb sp oid fid sf ef frag_data i cmd d =
        (if last_fragment_id ob0 + 1 \<noteq> fid then (d2, None)
         else if ef then (case e4 of Some e \<Rightarrow> (d4, Some e) | None \<Rightarrow> (d5, None))
         else (d3, None))"
      using Some r g4
      unfolding d1_def d2_def d3_def d5_def ob2_def ob1_def ob0_def
      by (simp add: append_frag_data_def Let_def split: option.splits)
    have rhs: "append_frag_data cb sp oid fid sf ef frag_data i cmd d' =
        (if last_fragment_id ob0' + 1 \<noteq> fid then (d2', None)
         else if ef then (case e4' of Some e \<Rightarrow> (d4', Some e) | None \<Rightarrow> (d5', None))
         else (d3', None))"
      using b' r' g4'
      unfolding d1'_def d2'_def d3'_def d5'_def ob2'_def ob1'_def ob0'_def
      by (simp add: append_frag_data_def Let_def split: option.splits)
    show ?thesis
      unfolding lhs rhs using a2 a3 a4 a5 s4 c0
      by (simp split: option.splits)
  qed
qed

lemma alike_new_fragment_data_loop:
  "alike d d' \<Longrightarrow>
     alike (fst (new_fragment_data_loop cb sp i fragment_data cmd off d))
           (fst (new_fragment_data_loop cb sp i fragment_data cmd off d'))
     \<and> snd (new_fragment_data_loop cb sp i fragment_data cmd off d)
       = snd (new_fragment_data_loop cb sp i fragment_data cmd off d')"
proof (induction cb sp i fragment_data cmd off d arbitrary: d'
    rule: new_fragment_data_loop.induct)
  case (1 cb sp idf fragment_data cmd frag_offset d)
  show ?case
  proof (cases "frag_offset < length fragment_data")
    case False
    then show ?thesis
      using "1.prems"
      by (subst (1 2 3 4) new_fragment_data_loop.simps) simp
  next
    case True
    show ?thesis
    proof (cases "unpack_frag_header (take FRAG_HEADER_LEN (drop frag_offset fragment_data))")
      case (Inl e)
      then show ?thesis
        using True "1.prems"
        by (subst (1 2 3 4) new_fragment_data_loop.simps) simp
    next
      case (Inr hdr)
      obtain oid fid e_s flen where hdr: "hdr = (oid, fid, e_s, flen)"
        by (cases hdr) auto
      let ?A = "\<lambda>x. append_frag_data cb sp oid fid (start_bit_set e_s) (end_bit_set e_s)
          (take flen (drop (frag_offset + FRAG_HEADER_LEN) fragment_data)) idf cmd x"
      obtain dA rA where A: "?A d = (dA, rA)"
        by (cases "?A d")
      obtain dA' rA' where A': "?A d' = (dA', rA')"
        by (cases "?A d'")
      have step: "alike dA dA'" "rA = rA'"
        using alike_append_frag_data [OF "1.prems", of cb sp oid fid "start_bit_set e_s"
            "end_bit_set e_s" "take flen (drop (frag_offset + FRAG_HEADER_LEN) fragment_data)"
            idf cmd] A A'
        by simp_all
      show ?thesis
      proof (cases rA)
        case (Some e)
        then show ?thesis
          using True Inr hdr step A A'
          by (subst (1 2 3 4) new_fragment_data_loop.simps) simp
      next
        case None
        have ih: "alike (fst (new_fragment_data_loop cb sp idf fragment_data cmd
                    (frag_offset + FRAG_HEADER_LEN + flen) dA))
                  (fst (new_fragment_data_loop cb sp idf fragment_data cmd
                    (frag_offset + FRAG_HEADER_LEN + flen) dA'))
            \<and> snd (new_fragment_data_loop cb sp idf fragment_data cmd
                    (frag_offset + FRAG_HEADER_LEN + flen) dA)
              = snd (new_fragment_data_loop cb sp idf fragment_data cmd
                    (frag_offset + FRAG_HEADER_LEN + flen) dA')"
          using True Inr hdr None step(1) A
          by (intro "1.IH" [of hdr oid "(fid, e_s, flen)" fid "(e_s, flen)" e_s flen dA rA])
             simp_all
        have l: "new_fragment_data_loop cb sp idf fragment_data cmd frag_offset d
            = new_fragment_data_loop cb sp idf fragment_data cmd
                (frag_offset + FRAG_HEADER_LEN + flen) dA"
          using True Inr hdr None A
          by (subst new_fragment_data_loop.simps) simp
        have r: "new_fragment_data_loop cb sp idf fragment_data cmd frag_offset d'
            = new_fragment_data_loop cb sp idf fragment_data cmd
                (frag_offset + FRAG_HEADER_LEN + flen) dA'"
          using True Inr hdr None A' step(2)
          by (subst new_fragment_data_loop.simps) simp
        show ?thesis
          unfolding l r by (rule ih)
      qed
    qed
  qed
qed

lemma alike_deliver_completed:
  "alike d d' \<Longrightarrow>
     alike (fst (deliver_completed cb shell_id msgs d)) (fst (deliver_completed cb shell_id msgs d'))
     \<and> snd (deliver_completed cb shell_id msgs d) = snd (deliver_completed cb shell_id msgs d')"
proof (induction msgs arbitrary: d d')
  case Nil
  then show ?case by simp
next
  case (Cons x msgs)
  obtain oid msg cmd where x: "x = (oid, msg, cmd)"
    by (cases x) auto
  let ?d = "d\<lparr>delivered := delivered d @ [(shell_id, oid, msg, cmd)]\<rparr>"
  let ?d' = "d'\<lparr>delivered := delivered d' @ [(shell_id, oid, msg, cmd)]\<rparr>"
  have a: "alike ?d ?d'" and e: "delivered d = delivered d'"
    using Cons.prems by (simp_all add: alike_def)
  show ?case
    using Cons.IH [OF a] a e
    by (simp add: x completed_psrp_callback_def split: option.splits)
qed

lemma set_pending_shell_id_found:
  assumes "pending_shell_bufs d message_id = Some b"
  shows "set_pending_shell_id cb message_id shell_id d =
     (case pending_shell_completed_messages d message_id of
        None \<Rightarrow>
          ((if shell_bufs d shell_id \<noteq> None
            then d\<lparr>pending_shell_bufs := dict_pop message_id (pending_shell_bufs d)\<rparr>
            else d\<lparr>pending_shell_bufs := dict_pop message_id (pending_shell_bufs d),
                   shell_bufs := (shell_bufs d)(shell_id \<mapsto> b)\<rparr>), Some KeyError)
      | Some msgs \<Rightarrow>
          (case deliver_completed cb shell_id msgs
                  (if shell_bufs d shell_id \<noteq> None
                   then d\<lparr>pending_shell_bufs := dict_pop message_id (pending_shell_bufs d)\<rparr>
                   else d\<lparr>pending_shell_bufs := dict_pop message_id (pending_shell_bufs d),
                          shell_bufs := (shell_bufs d)(shell_id \<mapsto> b)\<rparr>) of
             (d3, Some e) \<Rightarrow> (d3, Some e)
           | (d3, None) \<Rightarrow>
               (case pending_shell_completed_messages d3 message_id of
                  None \<Rightarrow> (d3, Some KeyError)
                | Some l \<Rightarrow>
                    (d3\<lparr>pending_shell_completed_messages :=
                          dict_pop message_id (pending_shell_completed_messages d3)\<rparr>, None))))"
  using assms
  by (cases "shell_bufs d shell_id"; cases "pending_shell_completed_messages d message_id")
     (simp_all add: set_pending_shell_id_def Let_def)

lemma alike_set_pending_shell_id:
  assumes "alike d d'"
  shows "alike (fst (set_pending_shell_id cb message_id shell_id d))
               (fst (set_pending_shell_id cb message_id shell_id d'))
    \<and> snd (set_pending_shell_id cb message_id shell_id d)
      = snd (set_pending_shell_id cb message_id shell_id d')"
proof (cases "pending_shell_bufs d message_id")
  case None
  then have "pending_shell_bufs d' message_id = None"
    using assms bufs_alike_None [of "pending_shell_bufs d" "pending_shell_bufs d'" message_id]
    by (simp add: alike_def)
  with None show ?thesis
    using assms by (simp add: set_pending_shell_id_def alike_new_shell)
next
  case (Some b)
  then obtain b' where b': "pending_shell_bufs d' message_id = Some b'"
    and cores: "\<forall>oid. core (b oid) = core (b' oid)"
    using assms bufs_alike_Some [of "pending_shell_bufs d" "pending_shell_bufs d'" message_id b]
    by (auto simp: alike_def)
  define d2 where "d2 = (if shell_bufs d shell_id \<noteq> None
      then d\<lparr>pending_shell_bufs := dict_pop message_id (pending_shell_bufs d)\<rparr>
      else d\<lparr>pending_shell_bufs := dict_pop message_id (pending_shell_bufs d),
             shell_bufs := (shell_bufs d)(shell_id \<mapsto> b)\<rparr>)"
  define d2' where "d2' = (if shell_bufs d' shell_id \<noteq> None
      then d'\<lparr>pending_shell_bufs := dict_pop message_id (pending_shell_bufs d')\<rparr>
      else d'\<lparr>pending_shell_bufs := dict_pop message_id (pending_shell_bufs d'),
             shell_bufs := (shell_bufs d')(shell_id \<mapsto> b')\<rparr>)"
  have a2: "alike d2 d2'"
    using assms cores bufs_alike_None [of "shell_bufs d" "shell_bufs d'" shell_id]
    by (auto simp: d2_def d2'_def alike_def intro: bufs_alike_upd bufs_alike_pop)
  have st: "pending_shell_completed_messages d = pending_shell_completed_messages d'"
    using assms by (simp add: alike_def)
  have L: "set_pending_shell_id cb message_id shell_id d =
     (case pending_shell_completed_messages d message_id of
        None \<Rightarrow> (d2, Some KeyError)
      | Some msgs \<Rightarrow>
          (case deliver_completed cb shell_id msgs d2 of
             (d3, Some e) \<Rightarrow> (d3, Some e)
           | (d3, None) \<Rightarrow>
               (case pending_shell_completed_messages d3 message_id of
                  None \<Rightarrow> (d3, Some KeyError)
                | Some l \<Rightarrow>
                    (d3\<lparr>pending_shell_completed_messages :=
                          dict_pop message_id (pending_shell_completed_messages d3)\<rparr>, None))))"
    unfolding d2_def by (rule set_pending_shell_id_found [OF Some])
  have R: "set_pending_shell_id cb message_id shell_id d' =
     (case pending_shell_completed_messages d' message_id of
        None \<Rightarrow> (d2', Some KeyError)
      | Some msgs \<Rightarrow>
          (case deliver_completed cb shell_id msgs d2' of
             (d3, Some e) \<Rightarrow> (d3, Some e)
           | (d3, None) \<Rightarrow>
               (case pending_shell_completed_messages d3 message_id of
                  None \<Rightarrow> (d3, Some KeyError)
                | Some l \<Rightarrow>
                    (d3\<lparr>pending_shell_completed_messages :=
                          dict_pop message_id (pending_shell_completed_messages d3)\<rparr>, None))))"
    unfolding d2'_def by (rule set_pending_shell_id_found [OF b'])
  show ?thesis
  proof (cases "pending_shell_completed_messages d message_id")
    case None
    then show ?thesis
      unfolding L R using a2 st by simp
  next
    case (Some msgs)
    obtain d3 e3 where r: "deliver_completed cb shell_id msgs d2 = (d3, e3)"
      by (cases "deliver_completed cb shell_id msgs d2")
    obtain d3' e3' where r': "deliver_completed cb shell_id msgs d2' = (d3', e3')"
      by (cases "deliver_completed cb shell_id msgs d2'")
    have a3: "alike d3 d3'" and s3: "e3 = e3'"
      using alike_deliver_completed [OF a2, of cb shell_id msgs] r r' by simp_all
    have st3: "pending_shell_completed_messages d3 = pending_shell_completed_messages d3'"
      using a3 by (simp add: alike_def)
    have a4: "alike (d3\<lparr>pending_shell_completed_messages :=
                dict_pop message_id (pending_shell_completed_messages d3)\<rparr>)
              (d3'\<lparr>pending_shell_completed_messages :=
                dict_pop message_id (pending_shell_completed_messages d3')\<rparr>)"
      using a3 by (simp add: alike_def)
    show ?thesis
      unfolding L R using Some st r r' a3 s3 st3 a4
      by (simp split: option.splits)
  qed
qed

lemma alike_run_op:
  "alike d d' \<Longrightarrow>
     alike (fst (run_op cb x d)) (fst (run_op cb x d')) \<and> snd (run_op cb x d) = snd (run_op cb x d')"
  by (cases x)
     (simp_all add: alike_new_shell alike_new_pending_shell alike_delete_shell
        alike_set_pending_shell_id new_fragment_def alike_append_frag_data
        new_fragment_data_def new_fragment_data_pending_shell_def
        alike_new_fragment_data_loop)

lemma alike_run_ops: "alike d d' \<Longrightarrow> alike (run_ops cb ops d) (run_ops cb ops d')"
  unfolding run_ops_def
  by (induction ops arbitrary: d d') (simp_all add: alike_run_op)

text \<open>A fragment that is refused, for an identifier that is tracked, leaves an alike state.\<close>

lemma refused_fragment_alike:
  assumes "get_bufs sp d i = Some b"
    and "fid \<noteq> fst (core (b oid)) + 1"
  shows "alike d (fst (append_frag_data cb sp oid fid sf ef frag_data i cmd d))
    \<and> snd (append_frag_data cb sp oid fid sf ef frag_data i cmd d) = None"
proof -
  have h: "has_identifier sp d i"
    using assms(1)
    by (cases sp) (simp_all add: has_identifier_def has_shell_def has_pending_shell_def get_bufs_def)
  define ob1 where "ob1 = (case b oid of
      None \<Rightarrow> \<lparr>last_fragment_id = - 1, buffer = [], command_id = None\<rparr>
    | Some ob \<Rightarrow> ob)\<lparr>command_id := cmd\<rparr>"
  have c: "core (Some ob1) = core (b oid)"
    by (simp add: ob1_def core_def split: option.splits)
  have r: "append_frag_data cb sp oid fid sf ef frag_data i cmd d
      = (set_bufs sp ((get_bufs sp d)(i \<mapsto> b(oid \<mapsto> ob1))) d, None)"
    using assms h c
    by (auto simp: append_frag_data_def Let_def ob1_def core_def split: option.splits)
  have "bufs_alike (get_bufs sp d) ((get_bufs sp d)(i \<mapsto> b(oid \<mapsto> ob1)))"
    using assms(1) c
    by (auto simp: bufs_alike_def core_def)
  then have "alike d (set_bufs sp ((get_bufs sp d)(i \<mapsto> b(oid \<mapsto> ob1))) d)"
    using alike_refl [of d]
    by (cases sp) (auto simp: alike_def set_bufs_def get_bufs_def)
  with r show ?thesis
    by simp
qed

subsection \<open>A refused fragment and the later deliveries\<close>

text \<open>
  \<^bold>\<open>C4\<close>, the claim as stated, fails. The pending shell \<open>M\<close> holds the first fragment
  (\<open>01 02\<close>, no end flag) of object 7; shell \<open>S\<close> is not tracked. A fragment 5 of a new
  object 9 arrives for \<open>S\<close>: the expected fragment is 0, so it is refused, but \<open>S\<close> has
  been registered on the way. Then \<open>M\<close> is promoted to \<open>S\<close> and a fragment 0 with the end
  flag and payload \<open>03\<close> arrives for object 7 of \<open>S\<close>. Without the refused fragment the
  promotion moves the buffer and \<open>01 02 03\<close> is delivered; with it the promotion finds
  \<open>S\<close> tracked and drops the pending buffers, and \<open>03\<close> is delivered.
\<close>

theorem C4_counterexample:
  "(let cb = (\<lambda>h x. None);
        d = fst (new_fragment_data_pending_shell (Some ''M'')
                   ([0,0,0,0,0,0,0,7, 0,0,0,0,0,0,0,0, 1, 0,0,0,2] @ [1, 2]) None
                   (new_pending_shell (Some ''M'') defrag_init));
        d_ins = fst (new_fragment cb (Some ''S'') 9 5 False False 1 [255] d);
        ops = [SetPendingShellId (Some ''M'') (Some ''S''),
               NewFragment (Some ''S'') 7 0 False True 1 [3]]
    in delivered d_ins = delivered d
       \<and> delivered (run_ops cb ops d) = [(Some ''S'', 7, [1, 2, 3], None)]
       \<and> delivered (run_ops cb ops d_ins) = [(Some ''S'', 7, [3], None)])"
proof -
  have h: "unpack_frag_header [0,0,0,0,0,0,0,7, 0,0,0,0,0,0,0,0, 1, 0,0,0,2] = Inr (7, 0, 1, 2)"
    by (simp add: unpack_frag_header_def be_nat_def i64_of_nat_def)
  have d: "fst (new_fragment_data_pending_shell (Some ''M'')
                   ([0,0,0,0,0,0,0,7, 0,0,0,0,0,0,0,0, 1, 0,0,0,2] @ [1, 2]) None
                   (new_pending_shell (Some ''M'') defrag_init))
      = defrag_init\<lparr>pending_shell_bufs := [Some ''M'' \<mapsto>
          [7 \<mapsto> \<lparr>last_fragment_id = - 1, buffer = [1, 2], command_id = None\<rparr>]]\<rparr>"
    unfolding new_fragment_data_pending_shell_def
    apply (subst new_fragment_data_loop.simps)
    apply (simp add: FRAG_HEADER_LEN_def h)
    apply (simp add: new_pending_shell_def defrag_init_def
        append_frag_data_def has_identifier_def has_pending_shell_def get_bufs_def set_bufs_def
        end_bit_set_def start_bit_set_def Let_def)
    apply (subst new_fragment_data_loop.simps)
    apply simp
    done
  show ?thesis
    unfolding Let_def d
    by (simp add: run_ops_def new_fragment_def append_frag_data_def set_pending_shell_id_def
        has_identifier_def has_shell_def new_ident_def new_shell_def get_bufs_def set_bufs_def
        message_complete_callback_def completed_psrp_callback_def defrag_init_def dict_pop_def
        Let_def)
qed

text \<open>
  \<^bold>\<open>C4\<close>, amended. When the identifier is already tracked in the buffer map the fragment
  is given to, a fragment whose \<open>fragment_id\<close> is not the buffer's \<open>last_fragment_id + 1\<close>
  (\<open>-1 + 1\<close> when the object has no buffer yet) is refused without an exception and
  without a delivery, and after it every sequence of calls delivers exactly what it
  would have delivered without it, whatever the callback does.
\<close>

theorem C4_refused_fragment_frame:
  assumes "get_bufs sp d idf = Some b"
    and "fragment_id \<noteq> (case b object_id of None \<Rightarrow> - 1 | Some ob \<Rightarrow> last_fragment_id ob) + 1"
  shows "snd (append_frag_data cb sp object_id fragment_id s_flag e_flag frag_data idf cmd d) = None
    \<and> delivered (fst (append_frag_data cb sp object_id fragment_id s_flag e_flag frag_data
                        idf cmd d)) = delivered d
    \<and> (\<forall>ops. delivered (run_ops cb ops
                (fst (append_frag_data cb sp object_id fragment_id s_flag e_flag frag_data
                        idf cmd d)))
             = delivered (run_ops cb ops d))"
proof -
  let ?d' = "fst (append_frag_data cb sp object_id fragment_id s_flag e_flag frag_data idf cmd d)"
  have "fragment_id \<noteq> fst (core (b object_id)) + 1"
    using assms(2) by (simp add: core_def split: option.splits)
  from refused_fragment_alike [OF assms(1) this, of cb s_flag e_flag frag_data cmd]
  have a: "alike d ?d'"
    and n: "snd (append_frag_data cb sp object_id fragment_id s_flag e_flag frag_data idf cmd d) = None"
    by simp_all
  have "delivered (run_ops cb ops ?d') = delivered (run_ops cb ops d)" for ops
    using alike_run_ops [OF a, of cb ops] by (simp add: alike_def)
  with a n show ?thesis
    by (simp add: alike_def)
qed

text \<open>
  Shell \<open>S\<close> holds the first fragment (\<open>01 02\<close>) of object 7. Fragment 2 of that object
  is refused; the fragment 0 with the end flag that follows completes \<open>01 02 03\<close> with
  or without it.
\<close>

theorem C4_witness:
  "(let cb = (\<lambda>h x. None);
        d = defrag_init\<lparr>shell_bufs := [Some ''S'' \<mapsto>
              [7 \<mapsto> \<lparr>last_fragment_id = - 1, buffer = [1, 2], command_id = None\<rparr>]]\<rparr>;
        d' = fst (append_frag_data cb Known 7 2 False False [9] (Some ''S'') (Some ''C'') d);
        ops = [NewFragment (Some ''S'') 7 0 False True 1 [3]]
    in delivered (run_ops cb ops d') = delivered (run_ops cb ops d)
       \<and> delivered (run_ops cb ops d) = [(Some ''S'', 7, [1, 2, 3], None)])"
proof -
  let ?d = "defrag_init\<lparr>shell_bufs := [Some ''S'' \<mapsto>
              [7 \<mapsto> \<lparr>last_fragment_id = - 1, buffer = [1, 2], command_id = None\<rparr>]]\<rparr>"
  have g: "get_bufs Known ?d (Some ''S'')
      = Some [7 \<mapsto> \<lparr>last_fragment_id = - 1, buffer = [1, 2], command_id = None\<rparr>]"
    by (simp add: get_bufs_def)
  have f: "(2 :: int) \<noteq> (case [7 \<mapsto> \<lparr>last_fragment_id = - 1, buffer = [1, 2 :: byte],
                command_id = None\<rparr>] (7 :: int) of None \<Rightarrow> - 1 | Some ob \<Rightarrow> last_fragment_id ob) + 1"
    by simp
  have v: "delivered (run_ops (\<lambda>h x. None) [NewFragment (Some ''S'') 7 0 False True 1 [3]] ?d)
      = [(Some ''S'', 7, [1, 2, 3], None)]"
    by (simp add: run_ops_def new_fragment_def append_frag_data_def
        has_identifier_def has_shell_def get_bufs_def set_bufs_def
        message_complete_callback_def completed_psrp_callback_def defrag_init_def Let_def)
  show ?thesis
    unfolding Let_def
    using C4_refused_fragment_frame [OF g f, of "\<lambda>h x. None" False False "[9]" "Some ''C''"] v
    by simp
qed

subsection \<open>Promotion of a pending shell\<close>

lemma dict_pop_upd: "dict_pop k (m(k \<mapsto> x)) = dict_pop k m"
  by (simp add: dict_pop_def)

lemma dict_pop_absent: "m k = None \<Longrightarrow> dict_pop k m = m"
  by (auto simp: dict_pop_def)

lemma promoted_new_pending_shell:
  assumes "message_id \<noteq> None" and "shell_id \<noteq> None"
    and "pending_shell_bufs d message_id = None"
    and "pending_shell_completed_messages d message_id = None"
    and "shell_bufs d shell_id = None"
  shows "promoted message_id shell_id (new_pending_shell message_id d) = new_shell shell_id d"
proof -
  obtain mid sid where "message_id = Some mid" "shell_id = Some sid"
    using assms(1,2) by auto
  then show ?thesis
    using assms(3,4,5)
    by (intro defrag.equality)
       (simp_all add: promoted_def new_pending_shell_def new_shell_def stashed_def
          dict_pop_upd dict_pop_absent)
qed

lemma callback_accepts_append:
  "callback_accepts cb h (xs @ ys)
     \<longleftrightarrow> callback_accepts cb h xs \<and> callback_accepts cb (h @ xs) ys"
  by (induction xs arbitrary: h) auto

lemma deliver_completed_accepted:
  "callback_accepts cb (delivered d)
       (map (\<lambda>(object_id, msg, cmd). (shell_id, object_id, msg, cmd)) msgs) \<Longrightarrow>
     deliver_completed cb shell_id msgs d
       = (d\<lparr>delivered := delivered d @
              map (\<lambda>(object_id, msg, cmd). (shell_id, object_id, msg, cmd)) msgs\<rparr>, None)"
  by (induction msgs arbitrary: d) (auto simp: completed_psrp_callback_def)

lemma set_pending_shell_id_promoted:
  assumes "callback_accepts cb (delivered d)
       (map (\<lambda>(object_id, msg, cmd). (shell_id, object_id, msg, cmd)) (stashed d message_id))"
    and "pending_shell_bufs d message_id = Some b"
    and "shell_bufs d shell_id = None"
  shows "fst (set_pending_shell_id cb message_id shell_id d) = promoted message_id shell_id d"
proof (cases "pending_shell_completed_messages d message_id")
  case None
  then have "dict_pop message_id (pending_shell_completed_messages d)
      = pending_shell_completed_messages d"
    by (auto simp: dict_pop_def)
  with None show ?thesis
    using assms(2,3)
    by (simp add: set_pending_shell_id_def promoted_def stashed_def Let_def)
next
  case (Some l)
  let ?d2 = "d\<lparr>pending_shell_bufs := dict_pop message_id (pending_shell_bufs d),
               shell_bufs := (shell_bufs d)(shell_id \<mapsto> b)\<rparr>"
  have "callback_accepts cb (delivered ?d2)
       (map (\<lambda>(object_id, msg, cmd). (shell_id, object_id, msg, cmd)) l)"
    using assms(1) Some by (simp add: stashed_def)
  from deliver_completed_accepted [OF this] Some show ?thesis
    using assms(2,3)
    by (simp add: set_pending_shell_id_def promoted_def stashed_def Let_def)
qed

lemma append_frag_data_pending_grows:
  assumes "append_frag_data cb' Pending oid fid sf ef frag_data message_id cmd d = (dP, rP)"
  shows "(\<exists>more. stashed dP message_id = stashed d message_id @ more)
     \<and> delivered dP = delivered d"
  using assms
  by (auto simp: append_frag_data_def stashed_def Let_def
        has_identifier_def has_pending_shell_def get_bufs_def set_bufs_def new_ident_def
        new_pending_shell_def message_complete_callback_def
        pending_shell_message_callback_def
        split: option.splits if_splits)

lemma new_fragment_data_loop_pending_grows:
  "sp = Pending \<Longrightarrow>
     new_fragment_data_loop cb' sp message_id fragment_data cmd off d = (dP, rP) \<Longrightarrow>
     (\<exists>more. stashed dP message_id = stashed d message_id @ more)
     \<and> delivered dP = delivered d"
proof (induction cb' sp message_id fragment_data cmd off d arbitrary: dP rP
    rule: new_fragment_data_loop.induct)
  case (1 cb' sp message_id fragment_data cmd frag_offset d)
  note sp = \<open>sp = Pending\<close>
  show ?case
  proof (cases "frag_offset < length fragment_data")
    case False
    with "1.prems" show ?thesis
      by (subst (asm) new_fragment_data_loop.simps) auto
  next
    case True
    show ?thesis
    proof (cases "unpack_frag_header (take FRAG_HEADER_LEN (drop frag_offset fragment_data))")
      case (Inl e)
      with "1.prems" True show ?thesis
        by (subst (asm) new_fragment_data_loop.simps) auto
    next
      case (Inr hdr)
      obtain oid fid e_s flen where hdr: "hdr = (oid, fid, e_s, flen)"
        by (cases hdr) auto
      let ?payload = "take flen (drop (frag_offset + FRAG_HEADER_LEN) fragment_data)"
      obtain dA rA where A: "append_frag_data cb' Pending oid fid (start_bit_set e_s)
          (end_bit_set e_s) ?payload message_id cmd d = (dA, rA)"
        by (cases "append_frag_data cb' Pending oid fid (start_bit_set e_s)
          (end_bit_set e_s) ?payload message_id cmd d")
      note g = append_frag_data_pending_grows [OF A]
      show ?thesis
      proof (cases rA)
        case (Some e)
        have "new_fragment_data_loop cb' sp message_id fragment_data cmd frag_offset d
            = (dA, Some e)"
          using True Inr hdr A Some sp
          by (subst new_fragment_data_loop.simps) simp
        with "1.prems"(2) g show ?thesis
          by simp
      next
        case None
        have l: "new_fragment_data_loop cb' sp message_id fragment_data cmd frag_offset d
            = new_fragment_data_loop cb' sp message_id fragment_data cmd
                (frag_offset + FRAG_HEADER_LEN + flen) dA"
          using True Inr hdr A None sp
          by (subst new_fragment_data_loop.simps) simp
        have rest: "new_fragment_data_loop cb' sp message_id fragment_data cmd
                (frag_offset + FRAG_HEADER_LEN + flen) dA = (dP, rP)"
          using "1.prems"(2) l by simp
        have "(\<exists>more. stashed dP message_id = stashed dA message_id @ more)
            \<and> delivered dP = delivered dA"
          using True Inr hdr A None sp rest
          by (intro "1.IH" [of hdr oid "(fid, e_s, flen)" fid "(e_s, flen)" e_s flen dA rA])
             simp_all
        with g show ?thesis
          by auto
      qed
    qed
  qed
qed

lemma feed_pending_grows:
  "(\<exists>more. stashed (feed_pending message_id feeds d) message_id = stashed d message_id @ more)
     \<and> delivered (feed_pending message_id feeds d) = delivered d"
proof (induction feeds arbitrary: d)
  case Nil
  then show ?case
    by (simp add: feed_pending_def)
next
  case (Cons x feeds)
  obtain fragment_data cmd where x: "x = (fragment_data, cmd)"
    by (cases x)
  obtain dP rP where P:
    "new_fragment_data_loop (\<lambda>h x. None) Pending message_id fragment_data cmd 0 d = (dP, rP)"
    by (cases "new_fragment_data_loop (\<lambda>h x. None) Pending message_id fragment_data cmd 0 d")
  have "feed_pending message_id (x # feeds) d = feed_pending message_id feeds dP"
    by (simp add: feed_pending_def x new_fragment_data_pending_shell_def P)
  then show ?case
    using Cons.IH [of dP] new_fragment_data_loop_pending_grows [OF refl P] by auto
qed

lemma append_frag_data_promoted:
  assumes "pending_shell_bufs d message_id = Some b"
    and "shell_bufs d shell_id = None"
    and "append_frag_data cb' Pending oid fid sf ef frag_data message_id cmd d = (dP, rP)"
    and "callback_accepts cb (delivered d)
       (map (\<lambda>(object_id, msg, cmd). (shell_id, object_id, msg, cmd)) (stashed dP message_id))"
  shows "append_frag_data cb Known oid fid sf ef frag_data shell_id cmd
           (promoted message_id shell_id d)
         = (promoted message_id shell_id dP, rP)
    \<and> pending_shell_bufs dP message_id \<noteq> None \<and> shell_bufs dP shell_id = None"
  using assms
  by (auto simp: append_frag_data_def promoted_def stashed_def Let_def
        has_identifier_def has_shell_def has_pending_shell_def get_bufs_def set_bufs_def
        message_complete_callback_def completed_psrp_callback_def
        pending_shell_message_callback_def dict_pop_def callback_accepts_append
        split: option.splits if_splits)

lemma callback_accepts_prefix:
  assumes "callback_accepts cb h
       (map (\<lambda>(object_id, msg, cmd). (shell_id, object_id, msg, cmd)) l')"
    and "\<exists>more. l' = l @ more"
  shows "callback_accepts cb h
       (map (\<lambda>(object_id, msg, cmd). (shell_id, object_id, msg, cmd)) l)"
  using assms by (auto simp: callback_accepts_append)

lemma new_fragment_data_loop_promoted:
  "sp = Pending \<Longrightarrow> pending_shell_bufs d message_id \<noteq> None \<Longrightarrow>
     shell_bufs d shell_id = None \<Longrightarrow>
     new_fragment_data_loop cb' sp message_id fragment_data cmd off d = (dP, rP) \<Longrightarrow>
     callback_accepts cb (delivered d)
       (map (\<lambda>(object_id, msg, cmd). (shell_id, object_id, msg, cmd)) (stashed dP message_id)) \<Longrightarrow>
       new_fragment_data_loop cb Known shell_id fragment_data cmd off
           (promoted message_id shell_id d)
         = (promoted message_id shell_id dP, rP)
       \<and> pending_shell_bufs dP message_id \<noteq> None \<and> shell_bufs dP shell_id = None"
proof (induction cb' sp message_id fragment_data cmd off d arbitrary: dP rP
    rule: new_fragment_data_loop.induct)
  case (1 cb' sp message_id fragment_data cmd frag_offset d)
  note sp = \<open>sp = Pending\<close>
  note acc = "1.prems"(5)
  obtain b where b: "pending_shell_bufs d message_id = Some b"
    using "1.prems"(2) by auto
  show ?case
  proof (cases "frag_offset < length fragment_data")
    case False
    then have "new_fragment_data_loop cb' sp message_id fragment_data cmd frag_offset d = (d, None)"
      by (subst new_fragment_data_loop.simps) simp
    with "1.prems"(1-4) False show ?thesis
      by (subst new_fragment_data_loop.simps) auto
  next
    case True
    show ?thesis
    proof (cases "unpack_frag_header (take FRAG_HEADER_LEN (drop frag_offset fragment_data))")
      case (Inl e)
      then have "new_fragment_data_loop cb' sp message_id fragment_data cmd frag_offset d
          = (d, Some e)"
        using True by (subst new_fragment_data_loop.simps) simp
      with "1.prems"(1-4) True Inl show ?thesis
        by (subst new_fragment_data_loop.simps) auto
    next
      case (Inr hdr)
      obtain oid fid e_s flen where hdr: "hdr = (oid, fid, e_s, flen)"
        by (cases hdr) auto
      let ?payload = "take flen (drop (frag_offset + FRAG_HEADER_LEN) fragment_data)"
      obtain dA rA where A: "append_frag_data cb' Pending oid fid (start_bit_set e_s)
          (end_bit_set e_s) ?payload message_id cmd d = (dA, rA)"
        by (cases "append_frag_data cb' Pending oid fid (start_bit_set e_s)
          (end_bit_set e_s) ?payload message_id cmd d")
      note gA = append_frag_data_pending_grows [OF A]
      show ?thesis
      proof (cases rA)
        case (Some e)
        have l: "new_fragment_data_loop cb' sp message_id fragment_data cmd frag_offset d
            = (dA, Some e)"
          using True Inr hdr A Some sp
          by (subst new_fragment_data_loop.simps) simp
        then have dP: "dP = dA"
          using "1.prems"(4) by simp
        have accA: "callback_accepts cb (delivered d)
            (map (\<lambda>(object_id, msg, cmd). (shell_id, object_id, msg, cmd))
               (stashed dA message_id))"
          using acc unfolding dP .
        from append_frag_data_promoted [OF b "1.prems"(3) A accA]
        have K: "append_frag_data cb Known oid fid (start_bit_set e_s) (end_bit_set e_s)
              ?payload shell_id cmd (promoted message_id shell_id d)
            = (promoted message_id shell_id dA, rA)"
          and inv: "pending_shell_bufs dA message_id \<noteq> None" "shell_bufs dA shell_id = None"
          by simp_all
        have "new_fragment_data_loop cb Known shell_id fragment_data cmd frag_offset
              (promoted message_id shell_id d)
            = (promoted message_id shell_id dA, Some e)"
          using True Inr hdr K Some
          by (subst new_fragment_data_loop.simps) simp
        with l show ?thesis
          using "1.prems"(4) inv by simp
      next
        case None
        have l: "new_fragment_data_loop cb' sp message_id fragment_data cmd frag_offset d
            = new_fragment_data_loop cb' sp message_id fragment_data cmd
                (frag_offset + FRAG_HEADER_LEN + flen) dA"
          using True Inr hdr A None sp
          by (subst new_fragment_data_loop.simps) simp
        have rest: "new_fragment_data_loop cb' sp message_id fragment_data cmd
                (frag_offset + FRAG_HEADER_LEN + flen) dA = (dP, rP)"
          using "1.prems"(4) l by simp
        note gP = new_fragment_data_loop_pending_grows [OF sp rest]
        have accA: "callback_accepts cb (delivered d)
            (map (\<lambda>(object_id, msg, cmd). (shell_id, object_id, msg, cmd))
               (stashed dA message_id))"
          by (rule callback_accepts_prefix [OF acc]) (rule gP [THEN conjunct1])
        from append_frag_data_promoted [OF b "1.prems"(3) A accA]
        have K: "append_frag_data cb Known oid fid (start_bit_set e_s) (end_bit_set e_s)
              ?payload shell_id cmd (promoted message_id shell_id d)
            = (promoted message_id shell_id dA, rA)"
          and inv: "pending_shell_bufs dA message_id \<noteq> None" "shell_bufs dA shell_id = None"
          by simp_all
        have r: "new_fragment_data_loop cb Known shell_id fragment_data cmd frag_offset
              (promoted message_id shell_id d)
            = new_fragment_data_loop cb Known shell_id fragment_data cmd
                (frag_offset + FRAG_HEADER_LEN + flen) (promoted message_id shell_id dA)"
          using True Inr hdr K None
          by (subst new_fragment_data_loop.simps) simp
        have accP: "callback_accepts cb (delivered dA)
            (map (\<lambda>(object_id, msg, cmd). (shell_id, object_id, msg, cmd))
               (stashed dP message_id))"
          unfolding gA [THEN conjunct2] by (rule acc)
        show ?thesis
          unfolding r
          using True Inr hdr A None sp inv rest accP
          by (intro "1.IH" [of hdr oid "(fid, e_s, flen)" fid "(e_s, flen)" e_s flen dA rA])
             simp_all
      qed
    qed
  qed
qed

lemma feed_promoted:
  "pending_shell_bufs d message_id \<noteq> None \<Longrightarrow> shell_bufs d shell_id = None \<Longrightarrow>
     callback_accepts cb (delivered d)
       (map (\<lambda>(object_id, msg, cmd). (shell_id, object_id, msg, cmd))
          (stashed (feed_pending message_id feeds d) message_id)) \<Longrightarrow>
     feed_known cb shell_id feeds (promoted message_id shell_id d)
       = promoted message_id shell_id (feed_pending message_id feeds d)
     \<and> pending_shell_bufs (feed_pending message_id feeds d) message_id \<noteq> None
     \<and> shell_bufs (feed_pending message_id feeds d) shell_id = None"
proof (induction feeds arbitrary: d)
  case Nil
  then show ?case
    by (simp add: feed_known_def feed_pending_def)
next
  case (Cons x feeds)
  obtain fragment_data cmd where x: "x = (fragment_data, cmd)"
    by (cases x)
  obtain dP rP where P:
    "new_fragment_data_loop (\<lambda>h x. None) Pending message_id fragment_data cmd 0 d = (dP, rP)"
    by (cases "new_fragment_data_loop (\<lambda>h x. None) Pending message_id fragment_data cmd 0 d")
  have fp: "feed_pending message_id (x # feeds) d = feed_pending message_id feeds dP"
    by (simp add: feed_pending_def x new_fragment_data_pending_shell_def P)
  note gP = new_fragment_data_loop_pending_grows [OF refl P]
  note gF = feed_pending_grows [of message_id feeds dP]
  have acc: "callback_accepts cb (delivered d)
       (map (\<lambda>(object_id, msg, cmd). (shell_id, object_id, msg, cmd))
          (stashed (feed_pending message_id feeds dP) message_id))"
    using Cons.prems(3) fp by simp
  have accP: "callback_accepts cb (delivered d)
       (map (\<lambda>(object_id, msg, cmd). (shell_id, object_id, msg, cmd))
          (stashed dP message_id))"
    by (rule callback_accepts_prefix [OF acc]) (rule gF [THEN conjunct1])
  from new_fragment_data_loop_promoted [OF refl Cons.prems(1,2) P accP]
  have K: "new_fragment_data_loop cb Known shell_id fragment_data cmd 0
             (promoted message_id shell_id d) = (promoted message_id shell_id dP, rP)"
    and inv: "pending_shell_bufs dP message_id \<noteq> None" "shell_bufs dP shell_id = None"
    by simp_all
  have fk: "feed_known cb shell_id (x # feeds) (promoted message_id shell_id d)
      = feed_known cb shell_id feeds (promoted message_id shell_id dP)"
    by (simp add: feed_known_def x new_fragment_data_def K)
  have acc': "callback_accepts cb (delivered dP)
       (map (\<lambda>(object_id, msg, cmd). (shell_id, object_id, msg, cmd))
          (stashed (feed_pending message_id feeds dP) message_id))"
    unfolding gP [THEN conjunct2] by (rule acc)
  show ?case
    unfolding fk fp using Cons.IH [OF inv acc'] by simp
qed

lemma whole_fragment_stashed:
  assumes "unpack_frag_header (take 21 (drop 0 fragment_data)) = Inr (oid, 0, e_s, flen)"
    and "end_bit_set e_s" and "length fragment_data = 21 + flen"
    and "pending_shell_bufs d message_id = Some b" and "b oid = None"
  shows "new_fragment_data_pending_shell message_id fragment_data cmd d
     = (d\<lparr>pending_shell_completed_messages := (pending_shell_completed_messages d)
            (message_id \<mapsto> stashed d message_id @ [(oid, drop 21 fragment_data, cmd)])\<rparr>,
        None)"
proof -
  have b: "b(oid := None) = b"
    using assms(5) by auto
  have m: "(pending_shell_bufs d)(message_id \<mapsto> b) = pending_shell_bufs d"
    using assms(4) by auto
  have ap: "append_frag_data (\<lambda>h x. None) Pending oid 0 (start_bit_set e_s) (end_bit_set e_s)
        (take flen (drop (0 + 21) fragment_data)) message_id cmd d
      = (d\<lparr>pending_shell_completed_messages := (pending_shell_completed_messages d)
            (message_id \<mapsto> stashed d message_id @ [(oid, drop 21 fragment_data, cmd)])\<rparr>,
        None)"
    using assms(2-5)
    by (simp add: append_frag_data_def has_identifier_def has_pending_shell_def
        get_bufs_def set_bufs_def message_complete_callback_def
        pending_shell_message_callback_def stashed_def dict_pop_def Let_def b m)
  show ?thesis
    unfolding new_fragment_data_pending_shell_def loop_fragment [OF assms(1)] ap
    using assms(3) by (simp add: loop_stops_past_end)
qed

text \<open>
  \<^bold>\<open>C2\<close>, the claim as stated, fails in two ways. First, when the shell identifier is
  already tracked at the promotion. Shell \<open>S\<close> is tracked. The pending shell \<open>M\<close>
  receives the first fragment (\<open>01 02\<close>, no end flag) of object 7 and is promoted to
  \<open>S\<close>: the messages stashed for it (none here) are delivered, but
  \<open>set_pending_shell_id\<close> finds \<open>S\<close> in \<open>shell_bufs\<close> and drops the pending buffers. A
  fragment 0 of object 7 with the end flag and payload \<open>03\<close> then delivers \<open>03\<close>, where
  feeding everything to \<open>S\<close> directly delivers \<open>01 02 03\<close>.

  Second, when the callback raises on a stashed message. The callback is the PSRP
  parser. The pending shell \<open>M\<close> completes two objects, each one whole fragment:
  object 1 is the two bytes \<open>hi\<close>, too short for a message header, and object 2 is the
  \<open>SESSION_CAPABILITY\<close> message. At the promotion to the untracked \<open>S\<close> the parser
  raises on object 1, which ends the loop over the stashed messages: object 2 is never
  delivered. Fed to \<open>S\<close> directly, in two calls, both are delivered.
\<close>

theorem C2_counterexample:
  "(let cb = (\<lambda>h x. None);
        d = new_shell (Some ''S'') defrag_init;
        feeds = [([0,0,0,0,0,0,0,7, 0,0,0,0,0,0,0,0, 1, 0,0,0,2] @ [1, 2], None)];
        dA = fst (set_pending_shell_id cb (Some ''M'') (Some ''S'')
                    (feed_pending (Some ''M'') feeds (new_pending_shell (Some ''M'') d)));
        dB = feed_known cb (Some ''S'') feeds (new_shell (Some ''S'') d);
        ops = [NewFragment (Some ''S'') 7 0 False True 1 [3]]
    in delivered (run_ops cb ops dA) = [(Some ''S'', 7, [3], None)]
       \<and> delivered (run_ops cb ops dB) = [(Some ''S'', 7, [1, 2, 3], None)])
   \<and> (let cb = psrp_parser_callback (\<lambda>b :: byte list. if b = [] then Some [] else None)
                   (message (\<lambda>(data_text :: string) rpid pipeline_id destination. Inr ())
                            (\<lambda>(data_text :: string) rpid pipeline_id destination. Inr ())
                            (\<lambda>(data_text :: string) rpid pipeline_id destination. Inr ()));
           feeds = [([0,0,0,0,0,0,0,1, 0,0,0,0,0,0,0,0, 3, 0,0,0,2, 104, 105], None),
                    ([0,0,0,0,0,0,0,2, 0,0,0,0,0,0,0,0, 3, 0,0,0,40,
         2,0,0,0, 2,0,1,0, 0,0,0,0,0,0,0,0,0,0,0,0,0,0,0,0, 0,0,0,0,0,0,0,0,0,0,0,0,0,0,0,0],
                     None)];
           dA = feed_pending (Some ''M'') feeds (new_pending_shell (Some ''M'') defrag_init);
           dP = fst (set_pending_shell_id cb (Some ''M'') (Some ''S'') dA);
           dB = feed_known cb (Some ''S'') feeds (new_shell (Some ''S'') defrag_init)
       in stashed dA (Some ''M'')
            = [(1, [104, 105], None),
               (2, [2,0,0,0, 2,0,1,0, 0,0,0,0,0,0,0,0,0,0,0,0,0,0,0,0, 0,0,0,0,0,0,0,0,0,0,0,0,0,0,0,0],
                None)]
          \<and> delivered dP = [(Some ''S'', 1, [104, 105], None)]
          \<and> delivered dB
            = [(Some ''S'', 1, [104, 105], None),
               (Some ''S'', 2,
                [2,0,0,0, 2,0,1,0, 0,0,0,0,0,0,0,0,0,0,0,0,0,0,0,0, 0,0,0,0,0,0,0,0,0,0,0,0,0,0,0,0],
                None)])"
proof -
  let ?data = "[0,0,0,0,0,0,0,7, 0,0,0,0,0,0,0,0, 1, 0,0,0,2] @ [1, 2] :: byte list"
  have h: "unpack_frag_header [0,0,0,0,0,0,0,7, 0,0,0,0,0,0,0,0, 1, 0,0,0,2] = Inr (7, 0, 1, 2)"
    by (simp add: unpack_frag_header_def be_nat_def i64_of_nat_def)
  have dA: "feed_pending (Some ''M'') [(?data, None)]
        (new_pending_shell (Some ''M'') (new_shell (Some ''S'') defrag_init))
      = defrag_init\<lparr>shell_bufs := [Some ''S'' \<mapsto> Map.empty],
          pending_shell_bufs := [Some ''M'' \<mapsto>
            [7 \<mapsto> \<lparr>last_fragment_id = - 1, buffer = [1, 2], command_id = None\<rparr>]]\<rparr>"
    unfolding feed_pending_def new_fragment_data_pending_shell_def
    apply simp
    apply (subst new_fragment_data_loop.simps)
    apply (simp add: FRAG_HEADER_LEN_def h)
    apply (simp add: new_pending_shell_def new_shell_def defrag_init_def
        append_frag_data_def has_identifier_def has_pending_shell_def get_bufs_def set_bufs_def
        end_bit_set_def start_bit_set_def Let_def)
    apply (subst new_fragment_data_loop.simps)
    apply simp
    done
  have dB: "feed_known (\<lambda>h x. None) (Some ''S'') [(?data, None)]
        (new_shell (Some ''S'') (new_shell (Some ''S'') defrag_init))
      = defrag_init\<lparr>shell_bufs := [Some ''S'' \<mapsto>
            [7 \<mapsto> \<lparr>last_fragment_id = - 1, buffer = [1, 2], command_id = None\<rparr>]]\<rparr>"
    unfolding feed_known_def new_fragment_data_def
    apply simp
    apply (subst new_fragment_data_loop.simps)
    apply (simp add: FRAG_HEADER_LEN_def h)
    apply (simp add: new_shell_def defrag_init_def
        append_frag_data_def has_identifier_def has_shell_def get_bufs_def set_bufs_def
        end_bit_set_def start_bit_set_def Let_def)
    apply (subst new_fragment_data_loop.simps)
    apply simp
    done
  have part1: "(let cb = (\<lambda>h x. None);
        d = new_shell (Some ''S'') defrag_init;
        feeds = [([0,0,0,0,0,0,0,7, 0,0,0,0,0,0,0,0, 1, 0,0,0,2] @ [1, 2], None)];
        dA = fst (set_pending_shell_id cb (Some ''M'') (Some ''S'')
                    (feed_pending (Some ''M'') feeds (new_pending_shell (Some ''M'') d)));
        dB = feed_known cb (Some ''S'') feeds (new_shell (Some ''S'') d);
        ops = [NewFragment (Some ''S'') 7 0 False True 1 [3]]
    in delivered (run_ops cb ops dA) = [(Some ''S'', 7, [3], None)]
       \<and> delivered (run_ops cb ops dB) = [(Some ''S'', 7, [1, 2, 3], None)])"
    unfolding Let_def dA dB
    by (simp add: run_ops_def new_fragment_def append_frag_data_def set_pending_shell_id_def
        has_identifier_def has_shell_def get_bufs_def set_bufs_def
        message_complete_callback_def completed_psrp_callback_def defrag_init_def dict_pop_def
        Let_def)

  let ?cb = "psrp_parser_callback (\<lambda>b :: byte list. if b = [] then Some [] else None)
                   (message (\<lambda>(data_text :: string) rpid pipeline_id destination. Inr ())
                            (\<lambda>(data_text :: string) rpid pipeline_id destination. Inr ())
                            (\<lambda>(data_text :: string) rpid pipeline_id destination. Inr ()))"
  let ?bad = "[0,0,0,0,0,0,0,1, 0,0,0,0,0,0,0,0, 3, 0,0,0,2, 104, 105] :: byte list"
  let ?g2 = "[0,0,0,0,0,0,0,2, 0,0,0,0,0,0,0,0, 3, 0,0,0,40,
         2,0,0,0, 2,0,1,0, 0,0,0,0,0,0,0,0,0,0,0,0,0,0,0,0, 0,0,0,0,0,0,0,0,0,0,0,0,0,0,0,0] :: byte list"
  let ?msg = "[2,0,0,0, 2,0,1,0, 0,0,0,0,0,0,0,0,0,0,0,0,0,0,0,0, 0,0,0,0,0,0,0,0,0,0,0,0,0,0,0,0] :: byte list"
  have hb: "unpack_frag_header (take 21 (drop 0 ?bad)) = Inr (1, 0, 3, 2)"
    by (simp add: unpack_frag_header_def be_nat_def i64_of_nat_def)
  have hg: "unpack_frag_header (take 21 (drop 0 ?g2)) = Inr (2, 0, 3, 40)"
    by (simp add: unpack_frag_header_def be_nat_def i64_of_nat_def)
  have e: "end_bit_set 3"
    by (simp add: end_bit_set_def)
  let ?p0 = "new_pending_shell (Some ''M'') defrag_init"
  let ?p1 = "?p0\<lparr>pending_shell_completed_messages := [Some ''M'' \<mapsto> [(1, [104, 105], None)]]\<rparr>"
  let ?p2 = "?p0\<lparr>pending_shell_completed_messages :=
               [Some ''M'' \<mapsto> [(1, [104, 105], None), (2, ?msg, None)]]\<rparr>"
  have p1: "new_fragment_data_pending_shell (Some ''M'') ?bad None ?p0 = (?p1, None)"
    using whole_fragment_stashed [where fragment_data = ?bad and oid = 1 and e_s = 3
        and flen = 2 and d = ?p0 and message_id = "Some ''M''" and b = Map.empty
        and cmd = None, OF hb e]
    by (simp add: new_pending_shell_def defrag_init_def stashed_def)
  have p2: "new_fragment_data_pending_shell (Some ''M'') ?g2 None ?p1 = (?p2, None)"
    using whole_fragment_stashed [where fragment_data = ?g2 and oid = 2 and e_s = 3
        and flen = 40 and d = ?p1 and message_id = "Some ''M''" and b = Map.empty
        and cmd = None, OF hg e]
    by (simp add: new_pending_shell_def defrag_init_def stashed_def)
  have dA2: "feed_pending (Some ''M'') [(?bad, None), (?g2, None)] ?p0 = ?p2"
    by (simp add: feed_pending_def p1 p2)
  have raised: "?cb [] (Some ''S'', 1, [104, 105], None) = Some StructError"
    by (simp add: psrp_parser_callback_def new_psrp_message_def unpack_II_def)
  have dP2: "delivered (fst (set_pending_shell_id ?cb (Some ''M'') (Some ''S'') ?p2))
      = [(Some ''S'', 1, [104, 105], None)]"
    using raised
    by (simp add: set_pending_shell_id_def new_pending_shell_def defrag_init_def
        completed_psrp_callback_def dict_pop_def Let_def)
  let ?k0 = "new_shell (Some ''S'') defrag_init"
  let ?k1 = "?k0\<lparr>shell_bufs := (shell_bufs ?k0)(Some ''S'' \<mapsto> Map.empty(1 \<mapsto>
             \<lparr>last_fragment_id = - 1, buffer = drop 21 ?bad, command_id = None\<rparr>)),
          delivered := delivered ?k0 @ [(Some ''S'', 1, drop 21 ?bad, None)]\<rparr>"
  have k1: "new_fragment_data ?cb (Some ''S'') ?bad None ?k0 = (?k1, Some StructError)"
    by (rule whole_fragment_raises
          [where fragment_data = ?bad and oid = 1 and e_s = 3 and flen = 2
             and d = ?k0 and shell_id = "Some ''S''" and b = Map.empty and cb = ?cb
             and cmd = None and e = StructError, OF hb e])
       (simp_all add: new_shell_def defrag_init_def raised)
  have k2: "new_fragment_data ?cb (Some ''S'') ?g2 None ?k1
      = (?k1\<lparr>delivered := delivered ?k1 @ [(Some ''S'', 2, drop 21 ?g2, None)]\<rparr>, None)"
    by (rule whole_fragment_fed
          [where fragment_data = ?g2 and oid = 2 and e_s = 3 and flen = 40
             and d = ?k1 and shell_id = "Some ''S''"
             and b = "Map.empty(1 \<mapsto>
             \<lparr>last_fragment_id = - 1, buffer = drop 21 ?bad, command_id = None\<rparr>)"
             and cb = ?cb and cmd = None, OF hg e])
       (simp_all add: new_shell_def defrag_init_def session_capability_parsed)
  have dB2: "delivered (feed_known ?cb (Some ''S'') [(?bad, None), (?g2, None)] ?k0)
      = [(Some ''S'', 1, [104, 105], None), (Some ''S'', 2, ?msg, None)]"
  proof -
    have "feed_known ?cb (Some ''S'') [(?bad, None), (?g2, None)] ?k0
        = fst (new_fragment_data ?cb (Some ''S'') ?g2 None
                (fst (new_fragment_data ?cb (Some ''S'') ?bad None ?k0)))"
      by (simp add: feed_known_def)
    then show ?thesis
      unfolding k1 fst_conv k2 by (simp add: new_shell_def defrag_init_def)
  qed
  have sA2: "stashed ?p2 (Some ''M'') = [(1, [104, 105], None), (2, ?msg, None)]"
    by (simp add: stashed_def)
  have part2: "(let cb = ?cb;
           feeds = [(?bad, None), (?g2, None)];
           dA = feed_pending (Some ''M'') feeds (new_pending_shell (Some ''M'') defrag_init);
           dP = fst (set_pending_shell_id cb (Some ''M'') (Some ''S'') dA);
           dB = feed_known cb (Some ''S'') feeds (new_shell (Some ''S'') defrag_init)
       in stashed dA (Some ''M'') = [(1, [104, 105], None), (2, ?msg, None)]
          \<and> delivered dP = [(Some ''S'', 1, [104, 105], None)]
          \<and> delivered dB
            = [(Some ''S'', 1, [104, 105], None), (Some ''S'', 2, ?msg, None)])"
    unfolding Let_def dA2 using sA2 dP2 dB2 by (intro conjI)
  show ?thesis
    using part1 part2 by (rule conjI)
qed

text \<open>
  \<^bold>\<open>C2\<close>, amended. In a state where \<open>message_id\<close> is neither a pending shell nor has
  stashed messages, and \<open>shell_id\<close> is not tracked (both are identifiers, not \<open>None\<close>),
  a pending shell is opened under \<open>message_id\<close> and fed any list of fragment data. The
  callback returns normally on each message that completed before the promotion, when
  it is delivered under \<open>shell_id\<close>. Then \<open>set_pending_shell_id\<close> delivers these
  messages, in the order they were stashed, under \<open>shell_id\<close>, and leaves exactly the
  state reached by opening the shell under \<open>shell_id\<close> and feeding it the same data
  directly; so whatever is called afterwards delivers the same in both. No assumption
  on the order of the fragments is needed.
\<close>

theorem C2_promotion_equals_direct_feed:
  assumes "message_id \<noteq> None" and "shell_id \<noteq> None"
    and "pending_shell_bufs d message_id = None"
    and "pending_shell_completed_messages d message_id = None"
    and "shell_bufs d shell_id = None"
    and "callback_accepts cb (delivered d)
       (map (\<lambda>(object_id, msg, cmd). (shell_id, object_id, msg, cmd))
          (stashed (feed_pending message_id feeds (new_pending_shell message_id d))
             message_id))"
  shows "delivered (fst (set_pending_shell_id cb message_id shell_id
                      (feed_pending message_id feeds (new_pending_shell message_id d))))
         = delivered (feed_pending message_id feeds (new_pending_shell message_id d)) @
             map (\<lambda>(object_id, msg, cmd). (shell_id, object_id, msg, cmd))
               (stashed (feed_pending message_id feeds (new_pending_shell message_id d)) message_id)
    \<and> fst (set_pending_shell_id cb message_id shell_id
             (feed_pending message_id feeds (new_pending_shell message_id d)))
       = feed_known cb shell_id feeds (new_shell shell_id d)
    \<and> (\<forall>ops. delivered (run_ops cb ops
                 (fst (set_pending_shell_id cb message_id shell_id
                   (feed_pending message_id feeds (new_pending_shell message_id d)))))
             = delivered (run_ops cb ops (feed_known cb shell_id feeds (new_shell shell_id d))))"
proof -
  let ?d0 = "new_pending_shell message_id d"
  let ?dA = "feed_pending message_id feeds ?d0"
  have p0: "pending_shell_bufs ?d0 message_id \<noteq> None"
    using assms(1) by (auto simp: new_pending_shell_def)
  have s0: "shell_bufs ?d0 shell_id = None"
    using assms(5) by (simp add: new_pending_shell_def)
  have l0: "delivered ?d0 = delivered d"
    by (simp add: new_pending_shell_def)
  have acc0: "callback_accepts cb (delivered ?d0)
       (map (\<lambda>(object_id, msg, cmd). (shell_id, object_id, msg, cmd))
          (stashed ?dA message_id))"
    using assms(6) l0 by simp
  from feed_promoted [OF p0 s0 acc0]
  have f: "feed_known cb shell_id feeds (promoted message_id shell_id ?d0)
        = promoted message_id shell_id ?dA"
    and pA: "pending_shell_bufs ?dA message_id \<noteq> None"
    and sA: "shell_bufs ?dA shell_id = None"
    by simp_all
  obtain b where b: "pending_shell_bufs ?dA message_id = Some b"
    using pA by auto
  have lA: "delivered ?dA = delivered d"
    using feed_pending_grows [of message_id feeds ?d0] l0 by simp
  have accA: "callback_accepts cb (delivered ?dA)
       (map (\<lambda>(object_id, msg, cmd). (shell_id, object_id, msg, cmd))
          (stashed ?dA message_id))"
    using assms(6) lA by simp
  have sp: "fst (set_pending_shell_id cb message_id shell_id ?dA)
      = promoted message_id shell_id ?dA"
    by (rule set_pending_shell_id_promoted [OF accA b sA])
  have eq: "promoted message_id shell_id ?dA = feed_known cb shell_id feeds (new_shell shell_id d)"
    using f promoted_new_pending_shell [OF assms(1-5)] by simp
  show ?thesis
    unfolding sp eq [symmetric]
    by (simp add: promoted_def)
qed

text \<open>
  Scenario S3 of the specification, with the PSRP parser as the callback: under \<open>M\<close>,
  the \<open>SESSION_CAPABILITY\<close> message arrives as one whole fragment of object 1 before
  the shell identifier \<open>S\<close> is known.
\<close>

theorem C2_witness:
  "(let cb = psrp_parser_callback (\<lambda>b :: byte list. if b = [] then Some [] else None)
                   (message (\<lambda>(data_text :: string) rpid pipeline_id destination. Inr ())
                            (\<lambda>(data_text :: string) rpid pipeline_id destination. Inr ())
                            (\<lambda>(data_text :: string) rpid pipeline_id destination. Inr ()));
        blob = [0,0,0,0,0,0,0,1, 0,0,0,0,0,0,0,0, 3, 0,0,0,40,
         2,0,0,0, 2,0,1,0, 0,0,0,0,0,0,0,0,0,0,0,0,0,0,0,0, 0,0,0,0,0,0,0,0,0,0,0,0,0,0,0,0];
        msg = [2,0,0,0, 2,0,1,0, 0,0,0,0,0,0,0,0,0,0,0,0,0,0,0,0, 0,0,0,0,0,0,0,0,0,0,0,0,0,0,0,0];
        dA = feed_pending (Some ''M'') [(blob, None)] (new_pending_shell (Some ''M'') defrag_init);
        dP = fst (set_pending_shell_id cb (Some ''M'') (Some ''S'') dA)
    in stashed dA (Some ''M'') = [(1, msg, None)]
       \<and> delivered dP = [(Some ''S'', 1, msg, None)]
       \<and> dP = feed_known cb (Some ''S'') [(blob, None)] (new_shell (Some ''S'') defrag_init)
       \<and> delivered (run_ops cb [NewFragment (Some ''S'') 2 0 True True 40 msg] dP)
           = delivered (run_ops cb [NewFragment (Some ''S'') 2 0 True True 40 msg]
               (feed_known cb (Some ''S'') [(blob, None)] (new_shell (Some ''S'') defrag_init))))"
proof -
  let ?cb = "psrp_parser_callback (\<lambda>b :: byte list. if b = [] then Some [] else None)
                   (message (\<lambda>(data_text :: string) rpid pipeline_id destination. Inr ())
                            (\<lambda>(data_text :: string) rpid pipeline_id destination. Inr ())
                            (\<lambda>(data_text :: string) rpid pipeline_id destination. Inr ()))"
  let ?blob = "[0,0,0,0,0,0,0,1, 0,0,0,0,0,0,0,0, 3, 0,0,0,40,
         2,0,0,0, 2,0,1,0, 0,0,0,0,0,0,0,0,0,0,0,0,0,0,0,0, 0,0,0,0,0,0,0,0,0,0,0,0,0,0,0,0] :: byte list"
  let ?msg = "[2,0,0,0, 2,0,1,0, 0,0,0,0,0,0,0,0,0,0,0,0,0,0,0,0, 0,0,0,0,0,0,0,0,0,0,0,0,0,0,0,0] :: byte list"
  let ?p0 = "new_pending_shell (Some ''M'') defrag_init"
  let ?dA = "feed_pending (Some ''M'') [(?blob, None)] ?p0"
  have h: "unpack_frag_header (take 21 (drop 0 ?blob)) = Inr (1, 0, 3, 40)"
    by (simp add: unpack_frag_header_def be_nat_def i64_of_nat_def)
  have e: "end_bit_set 3"
    by (simp add: end_bit_set_def)
  have p1: "new_fragment_data_pending_shell (Some ''M'') ?blob None ?p0
      = (?p0\<lparr>pending_shell_completed_messages := [Some ''M'' \<mapsto> [(1, ?msg, None)]]\<rparr>, None)"
    using whole_fragment_stashed [where fragment_data = ?blob and oid = 1 and e_s = 3
        and flen = 40 and d = ?p0 and message_id = "Some ''M''" and b = Map.empty
        and cmd = None, OF h e]
    by (simp add: new_pending_shell_def defrag_init_def stashed_def)
  have dA: "?dA = ?p0\<lparr>pending_shell_completed_messages := [Some ''M'' \<mapsto> [(1, ?msg, None)]]\<rparr>"
    by (simp add: feed_pending_def p1)
  have st: "stashed ?dA (Some ''M'') = [(1, ?msg, None)]"
    and dl: "delivered ?dA = []"
    unfolding dA by (simp_all add: stashed_def new_pending_shell_def defrag_init_def)
  have i: "Some ''M'' \<noteq> (None :: ident)" "Some ''S'' \<noteq> (None :: ident)"
    "pending_shell_bufs defrag_init (Some ''M'') = None"
    "pending_shell_completed_messages defrag_init (Some ''M'') = None"
    "shell_bufs defrag_init (Some ''S'') = None"
    by (simp_all add: defrag_init_def)
  have acc: "callback_accepts ?cb (delivered defrag_init)
       (map (\<lambda>(object_id, msg, cmd). (Some ''S'', object_id, msg, cmd))
          (stashed ?dA (Some ''M'')))"
    unfolding st by (simp add: session_capability_parsed)
  note T = C2_promotion_equals_direct_feed [OF i acc]
  have d1: "delivered (fst (set_pending_shell_id ?cb (Some ''M'') (Some ''S'') ?dA))
      = [(Some ''S'', 1, ?msg, None)]"
    unfolding T [THEN conjunct1] st dl by simp
  show ?thesis
    unfolding Let_def
    using st d1 T [THEN conjunct2, THEN conjunct1]
      T [THEN conjunct2, THEN conjunct2, rule_format,
         of "[NewFragment (Some ''S'') 2 0 True True 40 ?msg]"]
    by (intro conjI)
qed

section \<open>Properties of the PSRP parser and the command tracer\<close>

text \<open>
  \<^bold>\<open>C5\<close>. A completed object of 40 bytes: destination 2, message type \<open>0xDEADBEEF\<close>
  (not in the registry), two zero UUIDs and an empty body, which the codec decodes to
  the empty text. The claim expects the parser to report the unknown type and go on.
  The tracer's \<open>message\<close> would do that (it logs the type as unrecognised and returns),
  and \<open>_msg_type_name\<close> has a fallback for unknown types; but \<open>new_psrp_message\<close>
  asks for the name without the fallback when it builds its debug message, and that
  raises \<open>KeyError\<close> before the tracer is called. Fed to the defragmenter as one whole
  fragment, with the parser as its callback, the object is handed over, the exception
  leaves \<open>new_fragment\<close>, and the completed buffer stays in \<open>shell_bufs\<close>.
\<close>

theorem C5_unknown_message_type_raises:
  "(let msg = [2, 0, 0, 0, 0xEF, 0xBE, 0xAD, 0xDE] @ replicate 16 0 @ replicate 16 0;
        decode = (\<lambda>b :: byte list. if b = [] then Some [] else None);
        handler = (\<lambda>(data_text :: string) rpid pipeline_id destination. Inr ());
        tracer = message handler handler handler;
        d = new_shell (Some ''S'') defrag_init
    in length msg = 40
       \<and> unpack_II (take 8 msg) = Inr (2, 0xDEADBEEF)
       \<and> map_of MSG_TYPES 0xDEADBEEF = None
       \<and> msg_type_name 0xDEADBEEF (Some ''UNKNOWN'') = Inr ''UNKNOWN''
       \<and> tracer 2 0xDEADBEEF (replicate 16 0) (replicate 16 0) []
           = Inr (LoggedUnrecognisedMessageType 0xDEADBEEF)
       \<and> new_psrp_message decode tracer (Some ''S'') 7 msg None = Inl KeyError
       \<and> new_fragment (psrp_parser_callback decode tracer) (Some ''S'') 7 0 True True 40 msg d
           = (d\<lparr>shell_bufs := [Some ''S'' \<mapsto>
                   [7 \<mapsto> \<lparr>last_fragment_id = - 1, buffer = msg, command_id = None\<rparr>]],
                 delivered := [(Some ''S'', 7, msg, None)]\<rparr>,
              Some KeyError))"
proof -
  let ?msg = "[2, 0, 0, 0, 0xEF, 0xBE, 0xAD, 0xDE] @ replicate 16 0 @ replicate 16 0 :: byte list"
  let ?decode = "\<lambda>b :: byte list. if b = [] then Some ([] :: string) else None"
  let ?handler = "\<lambda>(data_text :: string) (rpid :: byte list) (pipeline_id :: byte list)
                     (destination :: nat). Inr () :: error + unit"
  let ?tracer = "message ?handler ?handler ?handler"
  let ?d = "new_shell (Some ''S'') defrag_init"
  have n: "map_of MSG_TYPES 0xDEADBEEF = None"
    by (simp add: MSG_TYPES_def)
  have u: "unpack_II (take 8 ?msg) = Inr (2, 0xDEADBEEF)"
    by (simp add: unpack_II_def le_nat_def)
  have k: "msg_type_name 0xDEADBEEF (Some ''UNKNOWN'') = Inr ''UNKNOWN''"
    using n by (simp add: msg_type_name_def)
  have t: "?tracer 2 0xDEADBEEF (replicate 16 0) (replicate 16 0) []
      = Inr (LoggedUnrecognisedMessageType 0xDEADBEEF)"
    using n by (simp add: message_def)
  have p: "new_psrp_message ?decode ?tracer (Some ''S'') 7 ?msg None = Inl KeyError"
    using n u by (simp add: new_psrp_message_def uuid_bytes_le_def msg_type_name_def)
  have c: "psrp_parser_callback ?decode ?tracer [] (Some ''S'', 7, ?msg, None) = Some KeyError"
    using p by (simp add: psrp_parser_callback_def)
  have f: "new_fragment (psrp_parser_callback ?decode ?tracer) (Some ''S'') 7 0 True True 40 ?msg ?d
      = (?d\<lparr>shell_bufs := [Some ''S'' \<mapsto>
              [7 \<mapsto> \<lparr>last_fragment_id = - 1, buffer = ?msg, command_id = None\<rparr>]],
            delivered := [(Some ''S'', 7, ?msg, None)]\<rparr>,
         Some KeyError)"
    using c
    by (simp add: new_fragment_def append_frag_data_def has_identifier_def has_shell_def
        new_shell_def defrag_init_def get_bufs_def set_bufs_def message_complete_callback_def
        completed_psrp_callback_def Let_def)
  have l: "length ?msg = 40"
    by simp
  show ?thesis
    unfolding Let_def using l u n k t p f by (intro conjI)
qed

section \<open>Properties of the SOAP defragmenter\<close>

text \<open>
  \<^bold>\<open>C7\<close>. An event with a process and a thread identifier, whose chunk index is not
  \<open>last_chunk + 1\<close> of its key's assembly (\<open>0 + 1\<close> when the key has none yet): after
  \<open>new_event\<close> the key has no assembly, the callback was not called, and the assembly
  of every other key is as it was.
\<close>

theorem C7_out_of_order_chunk_drops_assembly:
  assumes "ProcessId event = Some p" and "ThreadId event = Some t"
    and "index event = Some chunk_index"
    and "chunk_index \<noteq>
           (case partial_messages sd (make_mkey (ActivityId event) p t) of
              None \<Rightarrow> 0 | Some a \<Rightarrow> last_chunk a) + 1"
  shows "partial_messages (new_event soap_cb event sd) (make_mkey (ActivityId event) p t) = None
    \<and> completed (new_event soap_cb event sd) = completed sd
    \<and> (\<forall>k. k \<noteq> make_mkey (ActivityId event) p t \<longrightarrow>
          partial_messages (new_event soap_cb event sd) k = partial_messages sd k)"
  using assms
  by (auto simp: new_event_def new_event_try_def dict_pop_def Let_def
           split: option.splits sum.splits)

text \<open>
  Two assemblies are under way, for the keys \<open>(A, 100, 200)\<close> and \<open>(B, 100, 200)\<close>,
  each after its first chunk of three; chunk 3 arrives for \<open>A\<close>.
\<close>

theorem C7_witness:
  "(let sd = \<lparr>partial_messages =
                [(''A'', 100, 200) \<mapsto> \<lparr>total_chunks = 3, last_chunk = 1, pid = 100, tid = 200,
                                        soap = ''<a>''\<rparr>,
                 (''B'', 100, 200) \<mapsto> \<lparr>total_chunks = 3, last_chunk = 1, pid = 100, tid = 200,
                                        soap = ''<b>''\<rparr>],
              completed = []\<rparr>;
        event = \<lparr>ActivityId = Some ''A'', ProcessId = Some 100, ThreadId = Some 200,
                 totalChunks = Some 3, index = Some 3, SoapDocument = Some ''</a>''\<rparr>;
        sd' = new_event (\<lambda>x. None) event sd
    in partial_messages sd' (''A'', 100, 200) = None
       \<and> completed sd' = []
       \<and> partial_messages sd' (''B'', 100, 200)
           = Some \<lparr>total_chunks = 3, last_chunk = 1, pid = 100, tid = 200, soap = ''<b>''\<rparr>)"
  using C7_out_of_order_chunk_drops_assembly
    [where event = "\<lparr>ActivityId = Some ''A'', ProcessId = Some 100, ThreadId = Some 200,
                 totalChunks = Some 3, index = Some 3, SoapDocument = Some ''</a>''\<rparr>"
       and p = 100 and t = 200 and chunk_index = 3 and soap_cb = "\<lambda>x. None"
       and sd = "\<lparr>partial_messages =
                [(''A'', 100, 200) \<mapsto> \<lparr>total_chunks = 3, last_chunk = 1, pid = 100, tid = 200,
                                        soap = ''<a>''\<rparr>,
                 (''B'', 100, 200) \<mapsto> \<lparr>total_chunks = 3, last_chunk = 1, pid = 100, tid = 200,
                                        soap = ''<b>''\<rparr>],
              completed = []\<rparr>"]
  by (simp add: make_mkey_def Let_def)

section \<open>Properties of the stream decompression\<close>

lemma decompress_loop_Nil: "decompress_loop wim [] acc = Inr acc"
  by (subst decompress_loop.simps) simp

lemma le_nat_two: "le_nat [a, b] = unat a + 256 * unat b"
  by (simp add: le_nat_def)

lemma decompress_loop_block:
  assumes "length body = (unat clo + 256 * unat chi) + 1"
  shows "decompress_loop wim ([ulo, uhi, clo, chi] @ body @ rest) acc
     = decompress_loop wim rest
         (acc @ (if (unat ulo + 256 * unat uhi) + 1 \<noteq> (unat clo + 256 * unat chi) + 1
                 then wim body ((unat clo + 256 * unat chi) + 1) ((unat ulo + 256 * unat uhi) + 1)
                 else body))"
  using assms
  by (subst decompress_loop.simps) (simp add: le_nat_two Let_def)



section \<open>Properties of the WS-Man dispatcher\<close>

subsection \<open>The PowerShell filter\<close>




lemma new_shell_tracked: "has_shell d shell_id \<Longrightarrow> new_shell shell_id d = d"
  by (simp add: new_shell_def has_shell_def)

lemma known_accept:
  assumes "has_shell (psrp_defrag w) (get_shell_id (hdr_Selectors header))
           \<or> resource_uri = Some PS_RESOURCE_URI"
    and "arg = None \<or> arg = get_shell_id (hdr_Selectors header)"
  shows "known_shell_id_or_resource_uri header resource_uri arg w
     = (True, w\<lparr>psrp_defrag :=
                  new_shell (get_shell_id (hdr_Selectors header)) (psrp_defrag w)\<rparr>)"
proof -
  have sid: "(case arg of None \<Rightarrow> get_shell_id (hdr_Selectors header) | Some sh \<Rightarrow> Some sh)
      = get_shell_id (hdr_Selectors header)"
    using assms(2) by (auto split: option.splits)
  show ?thesis
  proof (cases "has_shell (psrp_defrag w) (get_shell_id (hdr_Selectors header))")
    case True
    then show ?thesis
      by (simp add: known_shell_id_or_resource_uri_def sid new_shell_tracked Let_def)
  next
    case False
    with assms(1) have "resource_uri = Some PS_RESOURCE_URI"
      by simp
    with False show ?thesis
      by (auto simp: known_shell_id_or_resource_uri_def sid new_shell_def Let_def has_shell_def)
  qed
qed






lemma action_command_accept:
  assumes "has_shell (psrp_defrag w) (get_shell_id (hdr_Selectors header))
           \<or> resource_uri = Some PS_RESOURCE_URI"
    and "body_Arguments (doc_Body doc) = Some a"
    and "b64decode ext a = Some blob"
    and "new_fragment_data (psrp_callback ext) (get_shell_id (hdr_Selectors header)) blob None
           (new_shell (get_shell_id (hdr_Selectors header)) (psrp_defrag w)) = (d', r)"
  shows "action_command ext doc header message_id resource_uri w
     = (if r = None
        then (w\<lparr>psrp_defrag := d',
                command_msgs := track_shell_id (hdr_Selectors header) message_id (command_msgs w)\<rparr>,
              None)
        else (w\<lparr>psrp_defrag := d'\<rparr>, r))"
  using known_accept [OF assms(1), of "get_shell_id (hdr_Selectors header)"] assms(2,3,4)
  by (cases r) (simp_all add: action_command_def Let_def)





subsection \<open>A ReceiveResponse without the decompressor\<close>

lemma process_streams_no_libwim:
  "\<not> libwim w \<Longrightarrow>
     process_streams ext shell_id streams w = (w, None)
     \<or> (\<exists>e. process_streams ext shell_id streams w = (w, Some e))"
  by (induction streams)
     (auto simp: decompress_stream_data_def split: option.splits)

lemma process_streams_no_libwim_raises:
  "\<not> libwim w \<Longrightarrow>
   \<exists>st \<in> set streams. \<exists>t blob. st_text st = Some t \<and> b64decode ext t = Some blob \<Longrightarrow>
     \<exists>e. process_streams ext shell_id streams w = (w, Some e)"
  by (induction streams)
     (auto simp: decompress_stream_data_def split: option.splits)

lemma action_receive_response_no_libwim:
  assumes "\<not> libwim w"
    and "hdr_RelatesTo header = Some relates_to"
    and "receive_msgs w (Some relates_to) = Some shell_id"
    and "\<exists>st \<in> set (body_Streams (doc_Body doc)).
           \<exists>t blob. st_text st = Some t \<and> b64decode ext t = Some blob"
  shows "\<exists>e. action_receive_response ext doc header message_id resource_uri w
           = (w\<lparr>receive_msgs := dict_pop (Some relates_to) (receive_msgs w)\<rparr>, Some e)"
proof -
  let ?w1 = "w\<lparr>receive_msgs := dict_pop (Some relates_to) (receive_msgs w)\<rparr>"
  have "\<not> libwim ?w1" using assms(1) by simp
  from process_streams_no_libwim_raises [OF this assms(4), of shell_id]
  obtain e where "process_streams ext shell_id (body_Streams (doc_Body doc)) ?w1 = (?w1, Some e)"
    by blast
  then show ?thesis
    using assms(2,3) by (simp add: action_receive_response_def Let_def)
qed

text \<open>
  \<^bold>\<open>C3\<close>, the claim as stated, fails. The library is not loaded. Shell \<open>S\<close> is tracked,
  a Receive request \<open>R\<close> for it is tracked, and so is command \<open>C\<close>. The ReceiveResponse
  relates to \<open>R\<close>, reports \<open>C\<close> as done and carries one stream whose text \<open>AAAA\<close> is
  valid base64 (three zero bytes). \<open>_decompress_stream_data\<close> raises on it, which ends
  the handler: \<open>C\<close> is still in \<open>commands\<close> afterwards.
\<close>

theorem C3_counterexample:
  "(let ext = \<lparr>psrp_callback = (\<lambda>h x. None),
               b64decode = (\<lambda>t. if t = ''AAAA'' then Some [0, 0, 0] else None),
               wimlib_decompress = (\<lambda>b c u. replicate u 0)\<rparr>;
        w = (wsman_init False)
              \<lparr>psrp_defrag := new_shell (Some ''S'') defrag_init,
               receive_msgs := [Some ''R'' \<mapsto> ''S''],
               commands := [''C'' \<mapsto> ''S'']\<rparr>;
        header = \<lparr>hdr_Action =
                    Some ''http://schemas.microsoft.com/wbem/wsman/1/windows/shell/ReceiveResponse'',
                  hdr_ResourceURI = None, hdr_To = None, hdr_MessageID = Some ''M2'',
                  hdr_RelatesTo = Some ''R'', hdr_Selectors = []\<rparr>;
        doc = \<lparr>doc_Header = Some header,
               doc_Body = \<lparr>body_ResourceCreated = None, body_Shell = None,
                            body_Arguments = None, body_CommandId = None,
                            body_CommandStates =
                              [\<lparr>cs_CommandId = Some ''C'', cs_State = Some CMD_STATE_DONE,
                                cs_ExitCode = Some ''0''\<rparr>],
                            body_Streams =
                              [\<lparr>st_Name = Some ''stdout'', st_CommandId = Some ''C'',
                                st_text = Some ''AAAA''\<rparr>],
                            body_DesiredStreams = []\<rparr>\<rparr>;
        w' = new_soap ext (Some doc) w
    in collect_finished (body_CommandStates (doc_Body doc)) = [(''C'', Some ''0'')]
       \<and> commands w' ''C'' = Some ''S''
       \<and> psrp_defrag w' = psrp_defrag w
       \<and> receive_msgs w' (Some ''R'') = None)"
  by (simp add: Let_def new_soap_def new_soap_try_def routed_def ps_actions_def
        run_handler_def action_receive_response_def collect_finished_def
        decompress_stream_data_def wsman_init_def dict_pop_def)

text \<open>
  \<^bold>\<open>C3\<close>, amended. Without the library, a ReceiveResponse that relates to a tracked
  Receive and has a stream whose text is valid base64 ends in an exception at the
  first stream that is not skipped. The handler has by then removed the Receive from
  \<open>receive_msgs\<close> and done nothing else: no stream was fed to the defragmenter and the
  finished commands are still in \<open>commands\<close>. \<open>new_soap\<close> catches the exception and
  keeps that state.
\<close>

theorem C3_missing_decompressor_aborts_handler:
  assumes "\<not> libwim w"
    and "routed doc = Some (ActionReceiveResponse, header)"
    and "hdr_RelatesTo header = Some relates_to"
    and "receive_msgs w (Some relates_to) = Some shell_id"
    and "\<exists>st \<in> set (body_Streams (doc_Body doc)).
           \<exists>t blob. st_text st = Some t \<and> b64decode ext t = Some blob"
  shows "(\<exists>e. new_soap_try ext (Some doc) w
             = (w\<lparr>receive_msgs := dict_pop (Some relates_to) (receive_msgs w)\<rparr>, Some e))
    \<and> new_soap ext (Some doc) w
         = w\<lparr>receive_msgs := dict_pop (Some relates_to) (receive_msgs w)\<rparr>
    \<and> psrp_defrag (new_soap ext (Some doc) w) = psrp_defrag w
    \<and> commands (new_soap ext (Some doc) w) = commands w"
proof -
  from action_receive_response_no_libwim [OF assms(1,3,4,5)]
  obtain e where "action_receive_response ext doc header (hdr_MessageID header)
        (hdr_ResourceURI header) w
      = (w\<lparr>receive_msgs := dict_pop (Some relates_to) (receive_msgs w)\<rparr>, Some e)"
    by blast
  then show ?thesis
    using assms(2) by (simp add: new_soap_def new_soap_try_def run_handler_def)
qed

theorem C3_witness:
  "(let ext = \<lparr>psrp_callback = (\<lambda>h x. None),
               b64decode = (\<lambda>t. if t = ''AAAA'' then Some [0, 0, 0] else None),
               wimlib_decompress = (\<lambda>b c u. replicate u 0)\<rparr>;
        w = (wsman_init False)
              \<lparr>psrp_defrag := new_shell (Some ''S'') defrag_init,
               receive_msgs := [Some ''R'' \<mapsto> ''S''],
               commands := [''C'' \<mapsto> ''S'']\<rparr>;
        header = \<lparr>hdr_Action =
                    Some ''http://schemas.microsoft.com/wbem/wsman/1/windows/shell/ReceiveResponse'',
                  hdr_ResourceURI = None, hdr_To = None, hdr_MessageID = Some ''M2'',
                  hdr_RelatesTo = Some ''R'', hdr_Selectors = []\<rparr>;
        doc = \<lparr>doc_Header = Some header,
               doc_Body = \<lparr>body_ResourceCreated = None, body_Shell = None,
                            body_Arguments = None, body_CommandId = None,
                            body_CommandStates =
                              [\<lparr>cs_CommandId = Some ''C'', cs_State = Some CMD_STATE_DONE,
                                cs_ExitCode = Some ''0''\<rparr>],
                            body_Streams =
                              [\<lparr>st_Name = Some ''stdout'', st_CommandId = Some ''C'',
                                st_text = Some ''AAAA''\<rparr>,
                               \<lparr>st_Name = Some ''stdout'', st_CommandId = Some ''C'',
                                st_text = Some ''AAAA''\<rparr>],
                            body_DesiredStreams = []\<rparr>\<rparr>
    in new_soap ext (Some doc) w = w\<lparr>receive_msgs := Map.empty\<rparr>
       \<and> commands (new_soap ext (Some doc) w) ''C'' = Some ''S'')"
proof -
  define ext where "ext = \<lparr>psrp_callback = (\<lambda>h x. None),
               b64decode = (\<lambda>t. if t = ''AAAA'' then Some [0, 0, 0 :: byte] else None),
               wimlib_decompress = (\<lambda>b c u. replicate u (0 :: byte))\<rparr>"
  define w where "w = (wsman_init False)
              \<lparr>psrp_defrag := new_shell (Some ''S'') defrag_init,
               receive_msgs := [Some ''R'' \<mapsto> ''S''],
               commands := [''C'' \<mapsto> ''S'']\<rparr>"
  define header where "header = \<lparr>hdr_Action =
                    Some ''http://schemas.microsoft.com/wbem/wsman/1/windows/shell/ReceiveResponse'',
                  hdr_ResourceURI = None, hdr_To = None, hdr_MessageID = Some ''M2'',
                  hdr_RelatesTo = Some ''R'', hdr_Selectors = []\<rparr>"
  define doc where "doc = \<lparr>doc_Header = Some header,
               doc_Body = \<lparr>body_ResourceCreated = None, body_Shell = None,
                            body_Arguments = None, body_CommandId = None,
                            body_CommandStates =
                              [\<lparr>cs_CommandId = Some ''C'', cs_State = Some CMD_STATE_DONE,
                                cs_ExitCode = Some ''0''\<rparr>],
                            body_Streams =
                              [\<lparr>st_Name = Some ''stdout'', st_CommandId = Some ''C'',
                                st_text = Some ''AAAA''\<rparr>,
                               \<lparr>st_Name = Some ''stdout'', st_CommandId = Some ''C'',
                                st_text = Some ''AAAA''\<rparr>],
                            body_DesiredStreams = []\<rparr>\<rparr>"
  have 1: "\<not> libwim w"
    by (simp add: w_def wsman_init_def)
  have 2: "routed doc = Some (ActionReceiveResponse, header)"
    by (simp add: doc_def header_def routed_def ps_actions_def)
  have 3: "hdr_RelatesTo header = Some ''R''"
    by (simp add: header_def)
  have 4: "receive_msgs w (Some ''R'') = Some ''S''"
    by (simp add: w_def)
  have 5: "\<exists>st \<in> set (body_Streams (doc_Body doc)).
           \<exists>t blob. st_text st = Some t \<and> b64decode ext t = Some blob"
    by (simp add: doc_def ext_def)
  have "new_soap ext (Some doc) w = w\<lparr>receive_msgs := Map.empty\<rparr>
       \<and> commands (new_soap ext (Some doc) w) ''C'' = Some ''S''"
    using C3_missing_decompressor_aborts_handler [OF 1 2 3 4 5]
    by (simp add: w_def dict_pop_def)
  then show ?thesis
    by (simp add: Let_def ext_def w_def header_def doc_def)
qed

subsection \<open>The life of a command\<close>

lemma track_shell_id_single:
  "sh \<noteq> [] \<Longrightarrow> track_shell_id [(Some ''ShellId'', Some sh)] key m = m(key \<mapsto> sh)"
  by (simp add: track_shell_id_def)

lemma action_command_ok:
  assumes "has_shell (psrp_defrag w) (Some sh)" and "sh \<noteq> []"
    and "hdr_Selectors header = [(Some ''ShellId'', Some sh)]"
    and "body_Arguments (doc_Body doc) = Some a"
    and "snd (action_command ext doc header message_id resource_uri w) = None"
  shows "\<exists>d'. action_command ext doc header message_id resource_uri w
           = (w\<lparr>psrp_defrag := d', command_msgs := (command_msgs w)(message_id \<mapsto> sh)\<rparr>, None)"
proof -
  have sid: "get_shell_id (hdr_Selectors header) = Some sh"
    using assms(3) by simp
  have acc: "has_shell (psrp_defrag w) (get_shell_id (hdr_Selectors header))
           \<or> resource_uri = Some PS_RESOURCE_URI"
    using assms(1) sid by simp
  have k: "known_shell_id_or_resource_uri header resource_uri (Some sh) w = (True, w)"
    using known_accept [OF acc, of "Some sh"] assms(1) sid
    by (simp add: new_shell_tracked)
  have t: "track_shell_id (hdr_Selectors header) message_id (command_msgs w)
      = (command_msgs w)(message_id \<mapsto> sh)"
    using assms(2,3) by (simp add: track_shell_id_single)
  show ?thesis
  proof (cases "b64decode ext a")
    case None
    then have "action_command ext doc header message_id resource_uri w
        = (w\<lparr>psrp_defrag := psrp_defrag w,
              command_msgs := (command_msgs w)(message_id \<mapsto> sh)\<rparr>, None)"
      using k t sid assms(4) by (simp add: action_command_def)
    then show ?thesis
      by blast
  next
    case (Some blob)
    obtain d' r where f:
      "new_fragment_data (psrp_callback ext) (get_shell_id (hdr_Selectors header)) blob None
         (new_shell (get_shell_id (hdr_Selectors header)) (psrp_defrag w)) = (d', r)"
      by (cases "new_fragment_data (psrp_callback ext) (get_shell_id (hdr_Selectors header))
         blob None (new_shell (get_shell_id (hdr_Selectors header)) (psrp_defrag w))")
    note ac = action_command_accept [OF acc assms(4) Some f, where message_id = message_id]
    have "r = None"
      using assms(5) unfolding ac by (cases r) simp_all
    then show ?thesis
      using ac t by auto
  qed
qed

lemma action_command_response_tracked:
  assumes "hdr_RelatesTo header = Some m"
    and "command_msgs w (Some m) = Some sh" and "sh \<noteq> []"
    and "body_CommandId (doc_Body doc) = Some c"
    and "commands w sh = None \<or> commands w c \<noteq> None"
  shows "action_command_response ext doc header message_id resource_uri w
           = (w\<lparr>command_msgs := dict_pop (Some m) (command_msgs w),
                 commands := (commands w)(c \<mapsto> sh)\<rparr>, None)"
  using assms
  by (auto simp: action_command_response_def track_command_by_id_def Let_def)

lemma process_streams_tables:
  "process_streams ext sh streams w = (w', r) \<Longrightarrow>
     commands w' = commands w \<and> command_msgs w' = command_msgs w"
proof (induction streams arbitrary: w)
  case Nil
  then show ?case by simp
next
  case (Cons x streams)
  show ?case
  proof (cases "st_text x")
    case None
    with Cons.prems show ?thesis by simp
  next
    case (Some t)
    show ?thesis
    proof (cases "b64decode ext t")
      case None
      with Cons Some show ?thesis by simp
    next
      case blob: (Some stream_blob)
      show ?thesis
      proof (cases "decompress_stream_data (wimlib_decompress ext) (libwim w) stream_blob")
        case (Inl e)
        with Cons.prems Some blob show ?thesis by simp
      next
        case (Inr decompressed_data)
        obtain d' r' where f: "new_fragment_data (psrp_callback ext) (Some sh)
                            decompressed_data (st_CommandId x) (psrp_defrag w) = (d', r')"
          by (cases "new_fragment_data (psrp_callback ext) (Some sh)
                            decompressed_data (st_CommandId x) (psrp_defrag w)")
        show ?thesis
        proof (cases r')
          case None
          with Cons.prems Some blob Inr f
          have "process_streams ext sh streams (w\<lparr>psrp_defrag := d'\<rparr>) = (w', r)"
            by simp
          from Cons.IH [OF this] show ?thesis by simp
        next
          case e: (Some e)
          with Cons.prems Some blob Inr f show ?thesis by auto
        qed
      qed
    qed
  qed
qed

lemma pop_finished_ok:
  "pop_finished l w = (w', None) \<Longrightarrow>
     commands w' = (\<lambda>c. if c \<in> set l then None else commands w c)
     \<and> command_msgs w' = command_msgs w"
proof (induction l arbitrary: w)
  case Nil
  then show ?case by simp
next
  case (Cons c l)
  then obtain sh where s: "commands w c = Some sh"
    by (cases "commands w c") simp_all
  with Cons.prems have "pop_finished l (w\<lparr>commands := dict_pop c (commands w)\<rparr>) = (w', None)"
    by simp
  from Cons.IH [OF this] show ?case
    by (auto simp: dict_pop_def)
qed

lemma dict_set_keys: "fst ` set (dict_set k v l) = insert k (fst ` set l)"
  by (induction l) force+

lemma fold_finished_keeps:
  "c \<in> fst ` set acc \<Longrightarrow>
   c \<in> fst ` set (fold (\<lambda>cs_elem commands_finished.
             (case cs_CommandId cs_elem of
                None \<Rightarrow> commands_finished
              | Some cmd \<Rightarrow>
                  if cs_State cs_elem = Some CMD_STATE_DONE \<or> cs_ExitCode cs_elem \<noteq> None
                  then dict_set cmd (cs_ExitCode cs_elem) commands_finished
                  else commands_finished)) xs acc)"
  by (induction xs arbitrary: acc) (auto simp: dict_set_keys split: option.splits)

lemma fold_finished_adds:
  "cs \<in> set xs \<Longrightarrow> cs_CommandId cs = Some c \<Longrightarrow> cs_State cs = Some CMD_STATE_DONE \<Longrightarrow>
   c \<in> fst ` set (fold (\<lambda>cs_elem commands_finished.
             (case cs_CommandId cs_elem of
                None \<Rightarrow> commands_finished
              | Some cmd \<Rightarrow>
                  if cs_State cs_elem = Some CMD_STATE_DONE \<or> cs_ExitCode cs_elem \<noteq> None
                  then dict_set cmd (cs_ExitCode cs_elem) commands_finished
                  else commands_finished)) xs acc)"
proof (induction xs arbitrary: acc)
  case Nil
  then show ?case by simp
next
  case (Cons x xs)
  show ?case
  proof (cases "cs = x")
    case True
    have "c \<in> fst ` set (dict_set c (cs_ExitCode x) acc)"
      by (simp add: dict_set_keys)
    from fold_finished_keeps [OF this, of xs] show ?thesis
      using True Cons.prems by simp
  next
    case False
    with Cons.prems have "cs \<in> set xs" by simp
    from Cons.IH [OF this Cons.prems(2,3)] show ?thesis
      by simp
  qed
qed

lemma collect_finished_done:
  assumes "cs \<in> set states" and "cs_CommandId cs = Some c"
    and "cs_State cs = Some CMD_STATE_DONE"
  shows "c \<in> set (map fst (collect_finished states))"
  using fold_finished_adds [OF assms, of "[]"]
  by (simp add: collect_finished_def)

lemma action_receive_response_ok:
  assumes "hdr_RelatesTo header = Some r"
    and "receive_msgs w (Some r) = Some sh"
    and "cs \<in> set (body_CommandStates (doc_Body doc))"
    and "cs_CommandId cs = Some c" and "cs_State cs = Some CMD_STATE_DONE"
    and "action_receive_response ext doc header message_id resource_uri w = (w', None)"
  shows "commands w' c = None
     \<and> (\<forall>c'. commands w c' = None \<longrightarrow> commands w' c' = None)
     \<and> command_msgs w' = command_msgs w"
proof -
  let ?w1 = "w\<lparr>receive_msgs := dict_pop (Some r) (receive_msgs w)\<rparr>"
  obtain w2 r2 where ps:
    "process_streams ext sh (body_Streams (doc_Body doc)) ?w1 = (w2, r2)"
    by (cases "process_streams ext sh (body_Streams (doc_Body doc)) ?w1")
  have r2: "r2 = None"
    using assms(1,2,6) ps by (cases r2) (simp_all add: action_receive_response_def Let_def)
  have pf: "pop_finished (map fst (collect_finished (body_CommandStates (doc_Body doc)))) w2
      = (w', None)"
    using assms(1,2,6) ps r2 by (simp add: action_receive_response_def Let_def)
  have t: "commands w2 = commands w \<and> command_msgs w2 = command_msgs w"
    using process_streams_tables [OF ps] by simp
  have fin: "c \<in> set (map fst (collect_finished (body_CommandStates (doc_Body doc))))"
    using assms(3,4,5) by (rule collect_finished_done)
  show ?thesis
    using pop_finished_ok [OF pf] t fin by simp
qed

text \<open>
  \<^bold>\<open>C9\<close>, the claim as stated, fails. The dispatcher tracks shell \<open>S\<close> and a Receive
  request \<open>R\<close> for it, and both tables are empty. A Command request with MessageID
  \<open>M1\<close> and ShellId \<open>S\<close> that has no \<open>Arguments\<close> element is not recorded in
  \<open>command_msgs\<close>; nor is one whose arguments hold a message the parser raises on (here
  the two bytes \<open>hi\<close>, too short for a message header), since the exception leaves
  \<open>_action_command\<close> before the recording. With a Command that is recorded and its
  CommandResponse, \<open>commands\<close> is \<open>{C: S}\<close>; a ReceiveResponse then reports \<open>C\<close> as done
  and carries a \<open>Stream\<close> element without text: \<open>stream_element.text.encode\<close> raises,
  the handler ends before it removes the finished commands, and \<open>C\<close> stays.
\<close>

theorem C9_counterexample:
  "(let ext = \<lparr>psrp_callback =
                 psrp_parser_callback (\<lambda>b :: byte list. if b = [] then Some [] else None)
                   (message (\<lambda>(data_text :: string) rpid pipeline_id destination. Inr ())
                            (\<lambda>(data_text :: string) rpid pipeline_id destination. Inr ())
                            (\<lambda>(data_text :: string) rpid pipeline_id destination. Inr ())),
               b64decode =
                 (\<lambda>t. if t = ''AAAAAAAAAAEAAAAAAAAAAAMAAAAoAgAAAAIAAQAAAAAAAAAAAAAAAAAAAAAAAAAAAAAAAAAAAAAAAAAAAA==''
                       then Some
        [0,0,0,0,0,0,0,1, 0,0,0,0,0,0,0,0, 3, 0,0,0,40,
         2,0,0,0, 2,0,1,0, 0,0,0,0,0,0,0,0,0,0,0,0,0,0,0,0, 0,0,0,0,0,0,0,0,0,0,0,0,0,0,0,0]
                       else if t = ''AAAAAAAAAAEAAAAAAAAAAAMAAAACaGk=''
                       then Some [0,0,0,0,0,0,0,1, 0,0,0,0,0,0,0,0, 3, 0,0,0,2, 104, 105]
                       else None),
               wimlib_decompress = (\<lambda>b c u. replicate u 0)\<rparr>;
        w = (wsman_init True)
              \<lparr>psrp_defrag := new_shell (Some ''S'') defrag_init,
               receive_msgs := [Some ''R'' \<mapsto> ''S'']\<rparr>;
        body = \<lparr>body_ResourceCreated = None, body_Shell = None, body_Arguments = None,
                body_CommandId = None, body_CommandStates = [], body_Streams = [],
                body_DesiredStreams = []\<rparr>;
        cmd_header = \<lparr>hdr_Action =
                        Some ''http://schemas.microsoft.com/wbem/wsman/1/windows/shell/Command'',
                      hdr_ResourceURI = Some PS_RESOURCE_URI, hdr_To = None,
                      hdr_MessageID = Some ''M1'', hdr_RelatesTo = None,
                      hdr_Selectors = [(Some ''ShellId'', Some ''S'')]\<rparr>;
        no_arguments_doc = \<lparr>doc_Header = Some cmd_header, doc_Body = body\<rparr>;
        malformed_doc = \<lparr>doc_Header = Some cmd_header,
                   doc_Body = body\<lparr>body_Arguments := Some ''AAAAAAAAAAEAAAAAAAAAAAMAAAACaGk=''\<rparr>\<rparr>;
        cmd_doc = \<lparr>doc_Header = Some cmd_header,
                   doc_Body = body\<lparr>body_Arguments :=
                     Some ''AAAAAAAAAAEAAAAAAAAAAAMAAAAoAgAAAAIAAQAAAAAAAAAAAAAAAAAAAAAAAAAAAAAAAAAAAAAAAAAAAA==''\<rparr>\<rparr>;
        resp_header = \<lparr>hdr_Action =
                        Some ''http://schemas.microsoft.com/wbem/wsman/1/windows/shell/CommandResponse'',
                      hdr_ResourceURI = None, hdr_To = None,
                      hdr_MessageID = Some ''M2'', hdr_RelatesTo = Some ''M1'',
                      hdr_Selectors = []\<rparr>;
        resp_doc = \<lparr>doc_Header = Some resp_header,
                    doc_Body = body\<lparr>body_CommandId := Some ''C''\<rparr>\<rparr>;
        recv_header = \<lparr>hdr_Action =
                        Some ''http://schemas.microsoft.com/wbem/wsman/1/windows/shell/ReceiveResponse'',
                      hdr_ResourceURI = None, hdr_To = None,
                      hdr_MessageID = Some ''M3'', hdr_RelatesTo = Some ''R'',
                      hdr_Selectors = []\<rparr>;
        recv_doc = \<lparr>doc_Header = Some recv_header,
                    doc_Body = body\<lparr>body_CommandStates :=
                      [\<lparr>cs_CommandId = Some ''C'', cs_State = Some CMD_STATE_DONE,
                        cs_ExitCode = None\<rparr>],
                      body_Streams :=
                      [\<lparr>st_Name = Some ''stdout'', st_CommandId = Some ''C'',
                        st_text = None\<rparr>]\<rparr>\<rparr>;
        w1 = new_soap ext (Some cmd_doc) w;
        w2 = new_soap ext (Some resp_doc) w1;
        w3 = new_soap ext (Some recv_doc) w2
    in has_shell (psrp_defrag w) (Some ''S'')
       \<and> command_msgs w = Map.empty \<and> commands w = Map.empty
       \<and> command_msgs (new_soap ext (Some no_arguments_doc) w) (Some ''M1'') = None
       \<and> command_msgs (new_soap ext (Some malformed_doc) w) (Some ''M1'') = None
       \<and> command_msgs w1 = [Some ''M1'' \<mapsto> ''S'']
       \<and> command_msgs w2 = Map.empty \<and> commands w2 = [''C'' \<mapsto> ''S'']
       \<and> commands w3 = [''C'' \<mapsto> ''S''])"
proof -
  let ?cb = "psrp_parser_callback (\<lambda>b :: byte list. if b = [] then Some [] else None)
                   (message (\<lambda>(data_text :: string) rpid pipeline_id destination. Inr ())
                            (\<lambda>(data_text :: string) rpid pipeline_id destination. Inr ())
                            (\<lambda>(data_text :: string) rpid pipeline_id destination. Inr ()))"
  let ?ext = "\<lparr>psrp_callback =
                 psrp_parser_callback (\<lambda>b :: byte list. if b = [] then Some [] else None)
                   (message (\<lambda>(data_text :: string) rpid pipeline_id destination. Inr ())
                            (\<lambda>(data_text :: string) rpid pipeline_id destination. Inr ())
                            (\<lambda>(data_text :: string) rpid pipeline_id destination. Inr ())),
               b64decode =
                 (\<lambda>t. if t = ''AAAAAAAAAAEAAAAAAAAAAAMAAAAoAgAAAAIAAQAAAAAAAAAAAAAAAAAAAAAAAAAAAAAAAAAAAAAAAAAAAA==''
                       then Some
        [0,0,0,0,0,0,0,1, 0,0,0,0,0,0,0,0, 3, 0,0,0,40,
         2,0,0,0, 2,0,1,0, 0,0,0,0,0,0,0,0,0,0,0,0,0,0,0,0, 0,0,0,0,0,0,0,0,0,0,0,0,0,0,0,0]
                       else if t = ''AAAAAAAAAAEAAAAAAAAAAAMAAAACaGk=''
                       then Some [0,0,0,0,0,0,0,1, 0,0,0,0,0,0,0,0, 3, 0,0,0,2, 104, 105]
                       else None),
               wimlib_decompress = (\<lambda>b c u. replicate u 0)\<rparr>"
  let ?w = "(wsman_init True)
              \<lparr>psrp_defrag := new_shell (Some ''S'') defrag_init,
               receive_msgs := [Some ''R'' \<mapsto> ''S'']\<rparr>"
  let ?body = "\<lparr>body_ResourceCreated = None, body_Shell = None, body_Arguments = None,
                body_CommandId = None, body_CommandStates = [], body_Streams = [],
                body_DesiredStreams = []\<rparr>"
  let ?cmd_header = "\<lparr>hdr_Action =
                        Some ''http://schemas.microsoft.com/wbem/wsman/1/windows/shell/Command'',
                      hdr_ResourceURI = Some PS_RESOURCE_URI, hdr_To = None,
                      hdr_MessageID = Some ''M1'', hdr_RelatesTo = None,
                      hdr_Selectors = [(Some ''ShellId'', Some ''S'')]\<rparr>"
  let ?no_arguments_doc = "\<lparr>doc_Header = Some ?cmd_header, doc_Body = ?body\<rparr>"
  let ?malformed_doc = "\<lparr>doc_Header = Some ?cmd_header,
                   doc_Body = ?body\<lparr>body_Arguments := Some ''AAAAAAAAAAEAAAAAAAAAAAMAAAACaGk=''\<rparr>\<rparr>"
  let ?cmd_doc = "\<lparr>doc_Header = Some ?cmd_header,
                   doc_Body = ?body\<lparr>body_Arguments :=
                     Some ''AAAAAAAAAAEAAAAAAAAAAAMAAAAoAgAAAAIAAQAAAAAAAAAAAAAAAAAAAAAAAAAAAAAAAAAAAAAAAAAAAA==''\<rparr>\<rparr>"
  let ?resp_header = "\<lparr>hdr_Action =
                        Some ''http://schemas.microsoft.com/wbem/wsman/1/windows/shell/CommandResponse'',
                      hdr_ResourceURI = None, hdr_To = None,
                      hdr_MessageID = Some ''M2'', hdr_RelatesTo = Some ''M1'',
                      hdr_Selectors = []\<rparr>"
  let ?resp_doc = "\<lparr>doc_Header = Some ?resp_header,
                    doc_Body = ?body\<lparr>body_CommandId := Some ''C''\<rparr>\<rparr>"
  let ?recv_header = "\<lparr>hdr_Action =
                        Some ''http://schemas.microsoft.com/wbem/wsman/1/windows/shell/ReceiveResponse'',
                      hdr_ResourceURI = None, hdr_To = None,
                      hdr_MessageID = Some ''M3'', hdr_RelatesTo = Some ''R'',
                      hdr_Selectors = []\<rparr>"
  let ?recv_doc = "\<lparr>doc_Header = Some ?recv_header,
                    doc_Body = ?body\<lparr>body_CommandStates :=
                      [\<lparr>cs_CommandId = Some ''C'', cs_State = Some CMD_STATE_DONE,
                        cs_ExitCode = None\<rparr>],
                      body_Streams :=
                      [\<lparr>st_Name = Some ''stdout'', st_CommandId = Some ''C'',
                        st_text = None\<rparr>]\<rparr>\<rparr>"
  let ?d = "new_shell (Some ''S'') defrag_init"
  let ?d1 = "?d\<lparr>delivered := [(Some ''S'', 1,
        [2,0,0,0, 2,0,1,0, 0,0,0,0,0,0,0,0,0,0,0,0,0,0,0,0, 0,0,0,0,0,0,0,0,0,0,0,0,0,0,0,0],
                                   None)]\<rparr>"
  let ?w1 = "?w\<lparr>psrp_defrag := ?d1, command_msgs := [Some ''M1'' \<mapsto> ''S'']\<rparr>"
  let ?w2 = "?w1\<lparr>command_msgs := Map.empty, commands := [''C'' \<mapsto> ''S'']\<rparr>"
  have rn: "routed ?no_arguments_doc = Some (ActionCommand, ?cmd_header)"
    by (simp add: routed_def ps_actions_def)
  have rm: "routed ?malformed_doc = Some (ActionCommand, ?cmd_header)"
    by (simp add: routed_def ps_actions_def)
  have rc: "routed ?cmd_doc = Some (ActionCommand, ?cmd_header)"
    by (simp add: routed_def ps_actions_def)
  have rp: "routed ?resp_doc = Some (ActionCommandResponse, ?resp_header)"
    by (simp add: routed_def ps_actions_def)
  have rv: "routed ?recv_doc = Some (ActionReceiveResponse, ?recv_header)"
    by (simp add: routed_def ps_actions_def)
  have tracked: "has_shell (psrp_defrag ?w) (Some ''S'')"
    by (simp add: has_shell_def new_shell_def defrag_init_def wsman_init_def)
  have acc: "has_shell (psrp_defrag ?w) (get_shell_id (hdr_Selectors ?cmd_header))
      \<or> hdr_ResourceURI ?cmd_header = Some PS_RESOURCE_URI"
    by simp
  have k: "known_shell_id_or_resource_uri ?cmd_header (Some PS_RESOURCE_URI) (Some ''S'') ?w
      = (True, ?w)"
    using tracked by (simp add: known_shell_id_or_resource_uri_def Let_def)
  have no_arguments: "new_soap ?ext (Some ?no_arguments_doc) ?w = ?w"
    using k rn by (simp add: new_soap_def new_soap_try_def run_handler_def action_command_def Let_def)
  have h: "unpack_frag_header (take 21 (drop 0 [0,0,0,0,0,0,0,1, 0,0,0,0,0,0,0,0, 3, 0,0,0,2, 104, 105])) = Inr (1, 0, 3, 2)"
    by (simp add: unpack_frag_header_def be_nat_def i64_of_nat_def)
  have raised: "?cb (delivered ?d) (Some ''S'', 1, drop 21 [0,0,0,0,0,0,0,1, 0,0,0,0,0,0,0,0, 3, 0,0,0,2, 104, 105], None) = Some StructError"
    by (simp add: psrp_parser_callback_def new_psrp_message_def unpack_II_def)
  have "new_fragment_data ?cb (Some ''S'') [0,0,0,0,0,0,0,1, 0,0,0,0,0,0,0,0, 3, 0,0,0,2, 104, 105] None ?d
      = (?d\<lparr>shell_bufs := (shell_bufs ?d)(Some ''S'' \<mapsto> Map.empty(1 \<mapsto>
             \<lparr>last_fragment_id = - 1, buffer = drop 21 [0,0,0,0,0,0,0,1, 0,0,0,0,0,0,0,0, 3, 0,0,0,2, 104, 105], command_id = None\<rparr>)),
          delivered := delivered ?d @ [(Some ''S'', 1, drop 21 [0,0,0,0,0,0,0,1, 0,0,0,0,0,0,0,0, 3, 0,0,0,2, 104, 105], None)]\<rparr>,
         Some StructError)"
    by (rule whole_fragment_raises
          [where fragment_data = "[0,0,0,0,0,0,0,1, 0,0,0,0,0,0,0,0, 3, 0,0,0,2, 104, 105]" and oid = 1 and e_s = 3 and flen = 2
             and d = ?d and shell_id = "Some ''S''" and b = Map.empty and cb = ?cb
             and cmd = None and e = StructError, OF h _ _ _ _ raised])
       (simp_all add: end_bit_set_def new_shell_def defrag_init_def)
  then have malformed_fed: "\<exists>d'. new_fragment_data (psrp_callback ?ext)
        (get_shell_id (hdr_Selectors ?cmd_header)) [0,0,0,0,0,0,0,1, 0,0,0,0,0,0,0,0, 3, 0,0,0,2, 104, 105] None
        (new_shell (get_shell_id (hdr_Selectors ?cmd_header)) (psrp_defrag ?w))
      = (d', Some StructError)"
    by (simp add: new_shell_def defrag_init_def)
  then obtain d' where mf: "new_fragment_data (psrp_callback ?ext)
        (get_shell_id (hdr_Selectors ?cmd_header)) [0,0,0,0,0,0,0,1, 0,0,0,0,0,0,0,0, 3, 0,0,0,2, 104, 105] None
        (new_shell (get_shell_id (hdr_Selectors ?cmd_header)) (psrp_defrag ?w))
      = (d', Some StructError)"
    by blast
  have "action_command ?ext ?malformed_doc ?cmd_header (Some ''M1'') (hdr_ResourceURI ?cmd_header) ?w
      = (?w\<lparr>psrp_defrag := d'\<rparr>, Some StructError)"
    using action_command_accept [OF acc _ _ mf, where doc = ?malformed_doc
        and a = "''AAAAAAAAAAEAAAAAAAAAAAMAAAACaGk=''" and message_id = "Some ''M1''"]
    by simp
  then have malformed: "command_msgs (new_soap ?ext (Some ?malformed_doc) ?w) = Map.empty"
    using rm by (simp add: new_soap_def new_soap_try_def run_handler_def wsman_init_def)
  have fed: "new_fragment_data (psrp_callback ?ext) (get_shell_id (hdr_Selectors ?cmd_header))
        [0,0,0,0,0,0,0,1, 0,0,0,0,0,0,0,0, 3, 0,0,0,40,
         2,0,0,0, 2,0,1,0, 0,0,0,0,0,0,0,0,0,0,0,0,0,0,0,0, 0,0,0,0,0,0,0,0,0,0,0,0,0,0,0,0]
        None
        (new_shell (get_shell_id (hdr_Selectors ?cmd_header)) (psrp_defrag ?w)) = (?d1, None)"
    using session_capability_fed by (simp add: new_shell_def defrag_init_def)
  have "action_command ?ext ?cmd_doc ?cmd_header (Some ''M1'') (hdr_ResourceURI ?cmd_header) ?w
      = (?w1, None)"
    using action_command_accept [OF acc _ _ fed, where doc = ?cmd_doc
        and a = "''AAAAAAAAAAEAAAAAAAAAAAMAAAAoAgAAAAIAAQAAAAAAAAAAAAAAAAAAAAAAAAAAAAAAAAAAAAAAAAAAAA==''" and message_id = "Some ''M1''"]
    by (simp add: track_shell_id_def wsman_init_def)
  then have w1: "new_soap ?ext (Some ?cmd_doc) ?w = ?w1"
    using rc by (simp add: new_soap_def new_soap_try_def run_handler_def)
  have w2: "new_soap ?ext (Some ?resp_doc) ?w1 = ?w2"
    using rp by (simp add: new_soap_def new_soap_try_def run_handler_def
        action_command_response_def track_command_by_id_def dict_pop_def wsman_init_def Let_def)
  have w3: "commands (new_soap ?ext (Some ?recv_doc) ?w2) = [''C'' \<mapsto> ''S'']"
    using rv by (simp add: new_soap_def new_soap_try_def run_handler_def
        action_receive_response_def Let_def)
  have e: "command_msgs ?w = Map.empty \<and> commands ?w = Map.empty"
    by (simp add: wsman_init_def)
  show ?thesis
    unfolding Let_def no_arguments w1 w2 w3 malformed
    using tracked e by simp
qed

text \<open>
  \<^bold>\<open>C9\<close>, amended (scenario S6 of the specification). The dispatcher tracks shell \<open>S\<close>
  and a Receive request \<open>R\<close> for it; \<open>command_msgs\<close> and \<open>commands\<close> are empty. Three
  envelopes are processed by \<open>new_soap\<close>: a Command request with MessageID \<open>M1\<close> and
  ShellId \<open>S\<close> that has an \<open>Arguments\<close> element and is handled without an exception;
  a CommandResponse relating to \<open>M1\<close> with CommandId \<open>C\<close>; a ReceiveResponse relating
  to \<open>R\<close> with a CommandState that reports \<open>C\<close> as done, handled without an exception
  as well. After the first, \<open>command_msgs\<close> is \<open>{M1: S}\<close>; after the second it is empty
  and \<open>commands\<close> is \<open>{C: S}\<close>; after the third both are empty.
\<close>

theorem C9_command_lifecycle:
  assumes "has_shell (psrp_defrag w) (Some S)" and "S \<noteq> []"
    and "command_msgs w = Map.empty" and "commands w = Map.empty"
    and "receive_msgs w (Some R) = Some S"
    and "routed cmd_doc = Some (ActionCommand, cmd_header)"
    and "hdr_MessageID cmd_header = Some M1"
    and "hdr_Selectors cmd_header = [(Some ''ShellId'', Some S)]"
    and "body_Arguments (doc_Body cmd_doc) = Some a"
    and "snd (new_soap_try ext (Some cmd_doc) w) = None"
    and "routed resp_doc = Some (ActionCommandResponse, resp_header)"
    and "hdr_RelatesTo resp_header = Some M1"
    and "body_CommandId (doc_Body resp_doc) = Some C"
    and "routed recv_doc = Some (ActionReceiveResponse, recv_header)"
    and "hdr_RelatesTo recv_header = Some R"
    and "\<lparr>cs_CommandId = Some C, cs_State = Some CMD_STATE_DONE, cs_ExitCode = ec\<rparr>
           \<in> set (body_CommandStates (doc_Body recv_doc))"
    and "snd (new_soap_try ext (Some recv_doc)
           (new_soap ext (Some resp_doc) (new_soap ext (Some cmd_doc) w))) = None"
  shows "command_msgs (new_soap ext (Some cmd_doc) w) = [Some M1 \<mapsto> S]
    \<and> command_msgs (new_soap ext (Some resp_doc) (new_soap ext (Some cmd_doc) w)) = Map.empty
    \<and> commands (new_soap ext (Some resp_doc) (new_soap ext (Some cmd_doc) w)) = [C \<mapsto> S]
    \<and> commands (new_soap ext (Some recv_doc)
          (new_soap ext (Some resp_doc) (new_soap ext (Some cmd_doc) w))) = Map.empty
    \<and> command_msgs (new_soap ext (Some recv_doc)
          (new_soap ext (Some resp_doc) (new_soap ext (Some cmd_doc) w))) = Map.empty"
proof -
  have t1: "new_soap_try ext (Some cmd_doc) w
      = action_command ext cmd_doc cmd_header (Some M1) (hdr_ResourceURI cmd_header) w"
    using assms(6,7) by (simp add: new_soap_try_def run_handler_def)
  from action_command_ok [OF assms(1,2,8,9), of ext "Some M1" "hdr_ResourceURI cmd_header"]
    assms(10) t1
  obtain d' where ac: "action_command ext cmd_doc cmd_header (Some M1) (hdr_ResourceURI cmd_header) w
      = (w\<lparr>psrp_defrag := d', command_msgs := (command_msgs w)(Some M1 \<mapsto> S)\<rparr>, None)"
    by auto
  let ?w1 = "w\<lparr>psrp_defrag := d', command_msgs := (command_msgs w)(Some M1 \<mapsto> S)\<rparr>"
  have w1: "new_soap ext (Some cmd_doc) w = ?w1"
    using t1 ac by (simp add: new_soap_def)
  let ?w2 = "?w1\<lparr>command_msgs := dict_pop (Some M1) (command_msgs ?w1),
             commands := (commands ?w1)(C \<mapsto> S)\<rparr>"
  have w2: "new_soap ext (Some resp_doc) ?w1 = ?w2"
    using assms(2,4,11,12,13)
    by (simp add: new_soap_def new_soap_try_def run_handler_def
          action_command_response_tracked [where m = M1 and sh = S and c = C])
  obtain w3 where t3: "new_soap_try ext (Some recv_doc) ?w2 = (w3, None)"
    using assms(17) unfolding w1 w2
    by (cases "new_soap_try ext (Some recv_doc) ?w2") simp
  have ar: "action_receive_response ext recv_doc recv_header (hdr_MessageID recv_header)
         (hdr_ResourceURI recv_header) ?w2 = (w3, None)"
    using t3 assms(14) by (simp add: new_soap_try_def run_handler_def)
  have r2: "receive_msgs ?w2 (Some R) = Some S"
    using assms(5) by simp
  note ok = action_receive_response_ok [OF assms(15) r2 assms(16) _ _ ar, of C]
  have w3: "new_soap ext (Some recv_doc) ?w2 = w3"
    using t3 by (simp add: new_soap_def)
  have c3: "commands w3 = Map.empty"
  proof
    fix c'
    show "commands w3 c' = None"
      using ok assms(4) by (cases "c' = C") simp_all
  qed
  have m3: "command_msgs w3 = Map.empty"
    using ok assms(3) by (simp add: dict_pop_def)
  show ?thesis
    unfolding w1 w2 w3 using assms(3,4) c3 m3 by (simp add: dict_pop_def)
qed

text \<open>
  The scenario with the identifiers of the specification and the callback that
  \<open>WSManPS\<close> wires in. The arguments of the Command are the base64 text of the
  \<open>SESSION_CAPABILITY\<close> message as one whole fragment. The ReceiveResponse carries,
  beside the CommandState, one stream: the base64 text of a block whose two sizes
  agree (\<open>3C 00 3C 00\<close> and 61 bytes), holding the \<open>PIPELINE_STATE\<close> message as the
  whole fragment 0 of object 2. Both messages are delivered and nothing is raised.
\<close>

theorem C9_witness:
  "(let ext = \<lparr>psrp_callback =
                 psrp_parser_callback (\<lambda>b :: byte list. if b = [] then Some [] else None)
                   (message (\<lambda>(data_text :: string) rpid pipeline_id destination. Inr ())
                            (\<lambda>(data_text :: string) rpid pipeline_id destination. Inr ())
                            (\<lambda>(data_text :: string) rpid pipeline_id destination. Inr ())),
               b64decode =
                 (\<lambda>t. if t = ''AAAAAAAAAAEAAAAAAAAAAAMAAAAoAgAAAAIAAQAAAAAAAAAAAAAAAAAAAAAAAAAAAAAAAAAAAAAAAAAAAA==''
                       then Some
        [0,0,0,0,0,0,0,1, 0,0,0,0,0,0,0,0, 3, 0,0,0,40,
         2,0,0,0, 2,0,1,0, 0,0,0,0,0,0,0,0,0,0,0,0,0,0,0,0, 0,0,0,0,0,0,0,0,0,0,0,0,0,0,0,0]
                       else if t = ''PAA8AAAAAAAAAAACAAAAAAAAAAADAAAAKAEAAAAGEAQAAAAAAAAAAAAAAAAAAAAAAAAAAAAAAAAAAAAAAAAAAAA=''
                       then Some
        [60,0,60,0,
         0,0,0,0,0,0,0,2, 0,0,0,0,0,0,0,0, 3, 0,0,0,40,
         1,0,0,0, 6,16,4,0, 0,0,0,0,0,0,0,0,0,0,0,0,0,0,0,0, 0,0,0,0,0,0,0,0,0,0,0,0,0,0,0,0]
                       else None),
               wimlib_decompress = (\<lambda>b c u. replicate u 0)\<rparr>;
        w = (wsman_init True)
              \<lparr>psrp_defrag := new_shell (Some ''S'') defrag_init,
               receive_msgs := [Some ''R'' \<mapsto> ''S'']\<rparr>;
        body = \<lparr>body_ResourceCreated = None, body_Shell = None, body_Arguments = None,
                body_CommandId = None, body_CommandStates = [], body_Streams = [],
                body_DesiredStreams = []\<rparr>;
        cmd_header = \<lparr>hdr_Action =
                        Some ''http://schemas.microsoft.com/wbem/wsman/1/windows/shell/Command'',
                      hdr_ResourceURI = Some PS_RESOURCE_URI, hdr_To = None,
                      hdr_MessageID = Some ''M1'', hdr_RelatesTo = None,
                      hdr_Selectors = [(Some ''ShellId'', Some ''S'')]\<rparr>;
        cmd_doc = \<lparr>doc_Header = Some cmd_header,
                   doc_Body = body\<lparr>body_Arguments :=
                     Some ''AAAAAAAAAAEAAAAAAAAAAAMAAAAoAgAAAAIAAQAAAAAAAAAAAAAAAAAAAAAAAAAAAAAAAAAAAAAAAAAAAA==''\<rparr>\<rparr>;
        resp_header = \<lparr>hdr_Action =
                        Some ''http://schemas.microsoft.com/wbem/wsman/1/windows/shell/CommandResponse'',
                      hdr_ResourceURI = None, hdr_To = None,
                      hdr_MessageID = Some ''M2'', hdr_RelatesTo = Some ''M1'',
                      hdr_Selectors = []\<rparr>;
        resp_doc = \<lparr>doc_Header = Some resp_header,
                    doc_Body = body\<lparr>body_CommandId := Some ''C''\<rparr>\<rparr>;
        recv_header = \<lparr>hdr_Action =
                        Some ''http://schemas.microsoft.com/wbem/wsman/1/windows/shell/ReceiveResponse'',
                      hdr_ResourceURI = None, hdr_To = None,
                      hdr_MessageID = Some ''M3'', hdr_RelatesTo = Some ''R'',
                      hdr_Selectors = []\<rparr>;
        recv_doc = \<lparr>doc_Header = Some recv_header,
                    doc_Body = body\<lparr>body_CommandStates :=
                      [\<lparr>cs_CommandId = Some ''C'', cs_State = Some CMD_STATE_DONE,
                        cs_ExitCode = None\<rparr>],
                      body_Streams :=
                      [\<lparr>st_Name = Some ''stdout'', st_CommandId = Some ''C'',
                        st_text = Some ''PAA8AAAAAAAAAAACAAAAAAAAAAADAAAAKAEAAAAGEAQAAAAAAAAAAAAAAAAAAAAAAAAAAAAAAAAAAAAAAAAAAAA=''\<rparr>]\<rparr>\<rparr>;
        w1 = new_soap ext (Some cmd_doc) w;
        w2 = new_soap ext (Some resp_doc) w1;
        w3 = new_soap ext (Some recv_doc) w2
    in command_msgs w1 = [Some ''M1'' \<mapsto> ''S'']
       \<and> command_msgs w2 = Map.empty \<and> commands w2 = [''C'' \<mapsto> ''S'']
       \<and> commands w3 = Map.empty \<and> command_msgs w3 = Map.empty)"
proof -
  let ?cb = "psrp_parser_callback (\<lambda>b :: byte list. if b = [] then Some [] else None)
                   (message (\<lambda>(data_text :: string) rpid pipeline_id destination. Inr ())
                            (\<lambda>(data_text :: string) rpid pipeline_id destination. Inr ())
                            (\<lambda>(data_text :: string) rpid pipeline_id destination. Inr ()))"
  let ?ext = "\<lparr>psrp_callback =
                 psrp_parser_callback (\<lambda>b :: byte list. if b = [] then Some [] else None)
                   (message (\<lambda>(data_text :: string) rpid pipeline_id destination. Inr ())
                            (\<lambda>(data_text :: string) rpid pipeline_id destination. Inr ())
                            (\<lambda>(data_text :: string) rpid pipeline_id destination. Inr ())),
               b64decode =
                 (\<lambda>t. if t = ''AAAAAAAAAAEAAAAAAAAAAAMAAAAoAgAAAAIAAQAAAAAAAAAAAAAAAAAAAAAAAAAAAAAAAAAAAAAAAAAAAA==''
                       then Some
        [0,0,0,0,0,0,0,1, 0,0,0,0,0,0,0,0, 3, 0,0,0,40,
         2,0,0,0, 2,0,1,0, 0,0,0,0,0,0,0,0,0,0,0,0,0,0,0,0, 0,0,0,0,0,0,0,0,0,0,0,0,0,0,0,0]
                       else if t = ''PAA8AAAAAAAAAAACAAAAAAAAAAADAAAAKAEAAAAGEAQAAAAAAAAAAAAAAAAAAAAAAAAAAAAAAAAAAAAAAAAAAAA=''
                       then Some
        [60,0,60,0,
         0,0,0,0,0,0,0,2, 0,0,0,0,0,0,0,0, 3, 0,0,0,40,
         1,0,0,0, 6,16,4,0, 0,0,0,0,0,0,0,0,0,0,0,0,0,0,0,0, 0,0,0,0,0,0,0,0,0,0,0,0,0,0,0,0]
                       else None),
               wimlib_decompress = (\<lambda>b c u. replicate u 0)\<rparr>"
  let ?w = "(wsman_init True)
              \<lparr>psrp_defrag := new_shell (Some ''S'') defrag_init,
               receive_msgs := [Some ''R'' \<mapsto> ''S'']\<rparr>"
  let ?body = "\<lparr>body_ResourceCreated = None, body_Shell = None, body_Arguments = None,
                body_CommandId = None, body_CommandStates = [], body_Streams = [],
                body_DesiredStreams = []\<rparr>"
  let ?cmd_header = "\<lparr>hdr_Action =
                        Some ''http://schemas.microsoft.com/wbem/wsman/1/windows/shell/Command'',
                      hdr_ResourceURI = Some PS_RESOURCE_URI, hdr_To = None,
                      hdr_MessageID = Some ''M1'', hdr_RelatesTo = None,
                      hdr_Selectors = [(Some ''ShellId'', Some ''S'')]\<rparr>"
  let ?cmd_doc = "\<lparr>doc_Header = Some ?cmd_header,
                   doc_Body = ?body\<lparr>body_Arguments :=
                     Some ''AAAAAAAAAAEAAAAAAAAAAAMAAAAoAgAAAAIAAQAAAAAAAAAAAAAAAAAAAAAAAAAAAAAAAAAAAAAAAAAAAA==''\<rparr>\<rparr>"
  let ?resp_header = "\<lparr>hdr_Action =
                        Some ''http://schemas.microsoft.com/wbem/wsman/1/windows/shell/CommandResponse'',
                      hdr_ResourceURI = None, hdr_To = None,
                      hdr_MessageID = Some ''M2'', hdr_RelatesTo = Some ''M1'',
                      hdr_Selectors = []\<rparr>"
  let ?resp_doc = "\<lparr>doc_Header = Some ?resp_header,
                    doc_Body = ?body\<lparr>body_CommandId := Some ''C''\<rparr>\<rparr>"
  let ?recv_header = "\<lparr>hdr_Action =
                        Some ''http://schemas.microsoft.com/wbem/wsman/1/windows/shell/ReceiveResponse'',
                      hdr_ResourceURI = None, hdr_To = None,
                      hdr_MessageID = Some ''M3'', hdr_RelatesTo = Some ''R'',
                      hdr_Selectors = []\<rparr>"
  let ?recv_doc = "\<lparr>doc_Header = Some ?recv_header,
                    doc_Body = ?body\<lparr>body_CommandStates :=
                      [\<lparr>cs_CommandId = Some ''C'', cs_State = Some CMD_STATE_DONE,
                        cs_ExitCode = None\<rparr>],
                      body_Streams :=
                      [\<lparr>st_Name = Some ''stdout'', st_CommandId = Some ''C'',
                        st_text = Some ''PAA8AAAAAAAAAAACAAAAAAAAAAADAAAAKAEAAAAGEAQAAAAAAAAAAAAAAAAAAAAAAAAAAAAAAAAAAAAAAAAAAAA=''\<rparr>]\<rparr>\<rparr>"
  let ?d = "new_shell (Some ''S'') defrag_init"
  let ?d1 = "?d\<lparr>delivered := [(Some ''S'', 1,
        [2,0,0,0, 2,0,1,0, 0,0,0,0,0,0,0,0,0,0,0,0,0,0,0,0, 0,0,0,0,0,0,0,0,0,0,0,0,0,0,0,0],
                                   None)]\<rparr>"
  let ?w1 = "?w\<lparr>psrp_defrag := ?d1, command_msgs := [Some ''M1'' \<mapsto> ''S'']\<rparr>"
  let ?w2 = "?w1\<lparr>command_msgs := Map.empty, commands := [''C'' \<mapsto> ''S'']\<rparr>"
  let ?frag = "[0,0,0,0,0,0,0,2, 0,0,0,0,0,0,0,0, 3, 0,0,0,40,
         1,0,0,0, 6,16,4,0, 0,0,0,0,0,0,0,0,0,0,0,0,0,0,0,0, 0,0,0,0,0,0,0,0,0,0,0,0,0,0,0,0] :: byte list"
  have rc: "routed ?cmd_doc = Some (ActionCommand, ?cmd_header)"
    by (simp add: routed_def ps_actions_def)
  have rp: "routed ?resp_doc = Some (ActionCommandResponse, ?resp_header)"
    by (simp add: routed_def ps_actions_def)
  have rv: "routed ?recv_doc = Some (ActionReceiveResponse, ?recv_header)"
    by (simp add: routed_def ps_actions_def)
  have tracked: "has_shell (psrp_defrag ?w) (Some ''S'')"
    by (simp add: has_shell_def new_shell_def defrag_init_def wsman_init_def)
  have acc: "has_shell (psrp_defrag ?w) (get_shell_id (hdr_Selectors ?cmd_header))
      \<or> hdr_ResourceURI ?cmd_header = Some PS_RESOURCE_URI"
    by simp
  have fed: "new_fragment_data (psrp_callback ?ext) (get_shell_id (hdr_Selectors ?cmd_header))
        [0,0,0,0,0,0,0,1, 0,0,0,0,0,0,0,0, 3, 0,0,0,40,
         2,0,0,0, 2,0,1,0, 0,0,0,0,0,0,0,0,0,0,0,0,0,0,0,0, 0,0,0,0,0,0,0,0,0,0,0,0,0,0,0,0]
        None
        (new_shell (get_shell_id (hdr_Selectors ?cmd_header)) (psrp_defrag ?w)) = (?d1, None)"
    using session_capability_fed by (simp add: new_shell_def defrag_init_def)
  have "action_command ?ext ?cmd_doc ?cmd_header (Some ''M1'') (hdr_ResourceURI ?cmd_header) ?w
      = (?w1, None)"
    using action_command_accept [OF acc _ _ fed, where doc = ?cmd_doc
        and a = "''AAAAAAAAAAEAAAAAAAAAAAMAAAAoAgAAAAIAAQAAAAAAAAAAAAAAAAAAAAAAAAAAAAAAAAAAAAAAAAAAAA==''" and message_id = "Some ''M1''"]
    by (simp add: track_shell_id_def wsman_init_def)
  then have t1: "new_soap_try ?ext (Some ?cmd_doc) ?w = (?w1, None)"
    using rc by (simp add: new_soap_try_def run_handler_def)
  then have w1: "new_soap ?ext (Some ?cmd_doc) ?w = ?w1"
    by (simp add: new_soap_def)
  have w2: "new_soap ?ext (Some ?resp_doc) ?w1 = ?w2"
    using rp by (simp add: new_soap_def new_soap_try_def run_handler_def
        action_command_response_def track_command_by_id_def dict_pop_def wsman_init_def Let_def)
  have "decompress_loop (wimlib_decompress ?ext) ([60, 0, 60, 0] @ ?frag @ []) []
      = decompress_loop (wimlib_decompress ?ext) [] ([] @ (if (unat (60 :: byte) + 256 * unat (0 :: byte)) + 1
           \<noteq> (unat (60 :: byte) + 256 * unat (0 :: byte)) + 1
         then wimlib_decompress ?ext ?frag ((unat (60 :: byte) + 256 * unat (0 :: byte)) + 1)
                ((unat (60 :: byte) + 256 * unat (0 :: byte)) + 1)
         else ?frag))"
    by (rule decompress_loop_block) simp
  then have dec: "decompress_stream_data (wimlib_decompress ?ext) True
        [60,0,60,0,
         0,0,0,0,0,0,0,2, 0,0,0,0,0,0,0,0, 3, 0,0,0,40,
         1,0,0,0, 6,16,4,0, 0,0,0,0,0,0,0,0,0,0,0,0,0,0,0,0, 0,0,0,0,0,0,0,0,0,0,0,0,0,0,0,0]
      = Inr ?frag"
    by (simp add: decompress_stream_data_def decompress_loop_Nil)
  have h: "unpack_frag_header (take 21 (drop 0 ?frag)) = Inr (2, 0, 3, 40)"
    by (simp add: unpack_frag_header_def be_nat_def i64_of_nat_def)
  have fed2: "new_fragment_data ?cb (Some ''S'') ?frag (Some ''C'') ?d1
      = (?d1\<lparr>delivered := delivered ?d1 @ [(Some ''S'', 2, drop 21 ?frag, Some ''C'')]\<rparr>, None)"
    by (rule whole_fragment_fed
          [where fragment_data = ?frag and oid = 2 and e_s = 3 and flen = 40
             and d = ?d1 and shell_id = "Some ''S''" and b = Map.empty and cb = ?cb
             and cmd = "Some ''C''", OF h])
       (simp_all add: end_bit_set_def new_shell_def defrag_init_def pipeline_state_parsed)
  have t3: "snd (new_soap_try ?ext (Some ?recv_doc) ?w2) = None"
    using rv dec fed2
    by (simp add: new_soap_try_def run_handler_def action_receive_response_def
        collect_finished_def wsman_init_def dict_pop_def Let_def)
  have r:
    "command_msgs (new_soap ?ext (Some ?cmd_doc) ?w) = [Some ''M1'' \<mapsto> ''S'']
    \<and> command_msgs (new_soap ?ext (Some ?resp_doc) (new_soap ?ext (Some ?cmd_doc) ?w)) = Map.empty
    \<and> commands (new_soap ?ext (Some ?resp_doc) (new_soap ?ext (Some ?cmd_doc) ?w)) = [''C'' \<mapsto> ''S'']
    \<and> commands (new_soap ?ext (Some ?recv_doc)
          (new_soap ?ext (Some ?resp_doc) (new_soap ?ext (Some ?cmd_doc) ?w))) = Map.empty
    \<and> command_msgs (new_soap ?ext (Some ?recv_doc)
          (new_soap ?ext (Some ?resp_doc) (new_soap ?ext (Some ?cmd_doc) ?w))) = Map.empty"
  proof (rule C9_command_lifecycle [where R = "''R''"
        and a = "''AAAAAAAAAAEAAAAAAAAAAAMAAAAoAgAAAAIAAQAAAAAAAAAAAAAAAAAAAAAAAAAAAAAAAAAAAAAAAAAAAA==''"
        and cmd_header = ?cmd_header and resp_header = ?resp_header
        and recv_header = ?recv_header and ec = None])
    show "has_shell (psrp_defrag ?w) (Some ''S'')"
      by (rule tracked)
    show "routed ?cmd_doc = Some (ActionCommand, ?cmd_header)"
      by (rule rc)
    show "routed ?resp_doc = Some (ActionCommandResponse, ?resp_header)"
      by (rule rp)
    show "routed ?recv_doc = Some (ActionReceiveResponse, ?recv_header)"
      by (rule rv)
    show "snd (new_soap_try ?ext (Some ?cmd_doc) ?w) = None"
      using t1 by simp
    show "snd (new_soap_try ?ext (Some ?recv_doc)
           (new_soap ?ext (Some ?resp_doc) (new_soap ?ext (Some ?cmd_doc) ?w))) = None"
      unfolding w1 w2 by (rule t3)
  qed (simp_all add: wsman_init_def)
  show ?thesis
    unfolding Let_def by (rule r)
qed

end
